theory Spec2Isabelle
  imports Main "HOL-Library.Word" "HOL-Library.Char_ord" "HOL-Library.List_Lexorder"
begin

section \<open>Gradient synchronisation in chainermn: the two NCCL communicators\<close>

text \<open>
  The development embeds \<^verbatim>\<open>chainermn/communicators/pure_nccl_communicator.py\<close> and
  \<^verbatim>\<open>chainermn/communicators/single_node_communicator.py\<close>. Every method is a
  state transformer that returns either the raised exception or the returned value,
  together with the state reached: Python mutates \<^verbatim>\<open>self\<close> and the model in place, so
  what was written before a \<^verbatim>\<open>raise\<close> stays written.
\<close>

subsection \<open>Exceptions\<close>

text \<open>
  The Python exception classes the two files can surface. \<open>DeviceFault\<close> is not a Python
  class: it stands for a device copy or view that leaves its allocation, which CUDA leaves
  undefined. \<open>AllocationError\<close> is the allocation failure of the device memory pool.
\<close>

datatype error =
    ValueError
  | RuntimeError
  | IndexError
  | AttributeError
  | AssertionError
  | ZeroDivisionError
  | AllocationError
  | DeviceFault

subsection \<open>numpy dtypes and NCCL type tags\<close>

type_synonym byte = "8 word"

text \<open>
  A representative part of numpy's dtypes. \<open>Float128\<close> is \<^verbatim>\<open>numpy.longdouble\<close> as
  x86-64 Linux has it (16 bytes, kind \<^verbatim>\<open>'f'\<close>).
\<close>

datatype dtype =
    Bool8
  | Int8 | Int16 | Int32 | Int64
  | UInt8 | UInt16 | UInt32 | UInt64
  | Float16 | Float32 | Float64 | Float128
  | Complex64 | Complex128

fun kind :: "dtype \<Rightarrow> char" where
  "kind Bool8 = CHR ''b''"
| "kind Int8 = CHR ''i''"
| "kind Int16 = CHR ''i''"
| "kind Int32 = CHR ''i''"
| "kind Int64 = CHR ''i''"
| "kind UInt8 = CHR ''u''"
| "kind UInt16 = CHR ''u''"
| "kind UInt32 = CHR ''u''"
| "kind UInt64 = CHR ''u''"
| "kind Float16 = CHR ''f''"
| "kind Float32 = CHR ''f''"
| "kind Float64 = CHR ''f''"
| "kind Float128 = CHR ''f''"
| "kind Complex64 = CHR ''c''"
| "kind Complex128 = CHR ''c''"

fun itemsize :: "dtype \<Rightarrow> nat" where
  "itemsize Bool8 = 1"
| "itemsize Int8 = 1"
| "itemsize Int16 = 2"
| "itemsize Int32 = 4"
| "itemsize Int64 = 8"
| "itemsize UInt8 = 1"
| "itemsize UInt16 = 2"
| "itemsize UInt32 = 4"
| "itemsize UInt64 = 8"
| "itemsize Float16 = 2"
| "itemsize Float32 = 4"
| "itemsize Float64 = 8"
| "itemsize Float128 = 16"
| "itemsize Complex64 = 8"
| "itemsize Complex128 = 16"

text \<open>
  Modelled from the spec: the module \<^verbatim>\<open>chainermn.nccl\<close> is not among the sources. Its
  type tags are the closed enumeration of wire types of the design notes, each with its
  byte width; \<^verbatim>\<open>NCCL_FLOAT\<close> is NCCL's name for the 4-byte float. \<^verbatim>\<open>NCCL_SUM\<close> is the
  one reduction operator the communicators use.
\<close>

datatype nccl_type = NCCL_FLOAT16 | NCCL_FLOAT32 | NCCL_FLOAT64

abbreviation NCCL_FLOAT :: nccl_type where
  "NCCL_FLOAT \<equiv> NCCL_FLOAT32"

datatype nccl_op = NCCL_SUM

fun nccl_itemsize :: "nccl_type \<Rightarrow> nat" where
  "nccl_itemsize NCCL_FLOAT16 = 2"
| "nccl_itemsize NCCL_FLOAT32 = 4"
| "nccl_itemsize NCCL_FLOAT64 = 8"

text \<open>\<^verbatim>\<open>_get_nccl_type_id(dtype)\<close>, lines 139-148 of the pure NCCL communicator.\<close>

fun get_nccl_type_id :: "dtype \<Rightarrow> error + nccl_type" where
  "get_nccl_type_id Float16 = Inr NCCL_FLOAT16"
| "get_nccl_type_id Float32 = Inr NCCL_FLOAT32"
| "get_nccl_type_id Float64 = Inr NCCL_FLOAT64"
| "get_nccl_type_id _ = Inl ValueError"

subsection \<open>Arrays, parameters and the model\<close>

text \<open>
  An array is its dtype and the bytes behind it; \<^verbatim>\<open>arr.size\<close> is the number of whole
  elements. A parameter has an optional data view and an optional gradient view. The
  model is what \<^verbatim>\<open>model.namedparams()\<close> yields: the parameters under their names, in
  the model's own order. A name stands for the reference to its parameter.
\<close>

record ndarray =
  dtype :: dtype
  raw :: "byte list"

definition nelems :: "ndarray \<Rightarrow> nat" where
  "nelems a = length (raw a) div itemsize (dtype a)"

record param =
  data :: "ndarray option"
  grad :: "ndarray option"

type_synonym named_param = "string \<times> param"
type_synonym model = "named_param list"

datatype attr = Data | Grad

fun getattr :: "param \<Rightarrow> attr \<Rightarrow> ndarray option" where
  "getattr p Data = data p"
| "getattr p Grad = grad p"

fun setattr :: "param \<Rightarrow> attr \<Rightarrow> ndarray \<Rightarrow> param" where
  "setattr p Data a = p\<lparr>data := Some a\<rparr>"
| "setattr p Grad a = p\<lparr>grad := Some a\<rparr>"

subsection \<open>The process group, streams and the collective library\<close>

text \<open>
  The process group is an external collaborator: \<open>comm_rank\<close> and \<open>comm_size\<close> are
  \<^verbatim>\<open>mpi_comm.rank\<close> and \<^verbatim>\<open>mpi_comm.size\<close>, and \<open>my_ranks\<close> is the tuple (global rank,
  intra rank, intra size, inter rank, inter size) that
  \<^verbatim>\<open>_communication_utility.init_ranks(mpi_comm)\<close> answers.
\<close>

record intracomm =
  comm_rank :: nat
  comm_size :: nat
  my_ranks :: "nat \<times> nat \<times> nat \<times> nat \<times> nat"

datatype stream = NullStream | Stream nat

datatype nccl_comm = NcclComm nat

text \<open>
  What the program does to its collaborators, in program order: the construction of a
  collective handle (the construction hook), stream synchronisation, and the collectives
  with the bytes of the send buffer they were handed.
\<close>

datatype event =
    InitNcclComm nccl_comm
  | InitIntraNcclComm nccl_comm nat nat
  | Synchronize stream
  | AllReduce nccl_comm "byte list" nat nccl_type nccl_op stream
  | Bcast nccl_comm "byte list" nat nccl_type nat stream
  | BroadcastNaive

fun is_construction :: "event \<Rightarrow> bool" where
  "is_construction (InitNcclComm _) = True"
| "is_construction (InitIntraNcclComm _ _ _) = True"
| "is_construction _ = False"

definition constructions :: "event list \<Rightarrow> nat" where
  "constructions tr = length (filter is_construction tr)"

text \<open>
  The environment of one process: whether the collective library is usable and its
  version, whether the device grants an allocation, and the numerics that cupy and NCCL
  own. \<open>astype a b xs\<close> is \<^verbatim>\<open>arr.astype(b)\<close> on the bytes of an array of dtype \<open>a\<close>;
  \<open>times_inv d n xs\<close> is \<^verbatim>\<open>arr * (1.0 / n)\<close> in dtype \<open>d\<close>; \<open>reduce_sum h t n xs\<close> is
  what the sum over the group of handle \<open>h\<close> leaves in this process's receive buffer when
  it contributes the \<open>n\<close> elements \<open>xs\<close>; \<open>bcast_root h t n r xs\<close> is what the broadcast
  from root \<open>r\<close> leaves in the buffer; \<open>broadcast_naive\<close> is
  \<^verbatim>\<open>_communication_utility.broadcast_naive\<close>.
\<close>

record env =
  nccl_available :: bool
  nccl_version :: nat
  alloc_ok :: "nat \<Rightarrow> bool"
  astype :: "dtype \<Rightarrow> dtype \<Rightarrow> byte list \<Rightarrow> byte list"
  times_inv :: "dtype \<Rightarrow> nat \<Rightarrow> byte list \<Rightarrow> byte list"
  reduce_sum :: "nccl_comm \<Rightarrow> nccl_type \<Rightarrow> nat \<Rightarrow> byte list \<Rightarrow> byte list"
  bcast_root :: "nccl_comm \<Rightarrow> nccl_type \<Rightarrow> nat \<Rightarrow> nat \<Rightarrow> byte list \<Rightarrow> byte list"
  broadcast_naive :: "model \<Rightarrow> model"

subsection \<open>Methods as state transformers\<close>

text \<open>
  The state of a call: the communicator object, the model it was handed, and the trace of
  what it did to its collaborators.
\<close>

record 'c sys =
  self :: 'c
  model :: model
  trace :: "event list"

type_synonym ('s, 'a) prog = "'s \<Rightarrow> (error + 'a) \<times> 's"

definition ret :: "'a \<Rightarrow> ('s, 'a) prog" where
  "ret x = (\<lambda>s. (Inr x, s))"

definition raise :: "error \<Rightarrow> ('s, 'a) prog" where
  "raise e = (\<lambda>s. (Inl e, s))"

definition lift :: "error + 'a \<Rightarrow> ('s, 'a) prog" where
  "lift r = (\<lambda>s. (r, s))"

definition bind :: "('s, 'a) prog \<Rightarrow> ('a \<Rightarrow> ('s, 'b) prog) \<Rightarrow> ('s, 'b) prog" where
  "bind m f = (\<lambda>s. case m s of (Inl e, s') \<Rightarrow> (Inl e, s') | (Inr x, s') \<Rightarrow> f x s')"

definition emit :: "event \<Rightarrow> ('c sys, unit) prog" where
  "emit e = (\<lambda>s. (Inr (), s\<lparr>trace := trace s @ [e]\<rparr>))"

subsection \<open>Device buffers\<close>

text \<open>
  Modelled from the spec: \<^verbatim>\<open>_memory_utility.DeviceMemory\<close> is not among the sources. A
  device buffer owns a block of device memory; its capacity is the length of the block and
  a buffer of size zero is valid and empty. \<open>assign\<close> reuses the block when it is large
  enough and allocates a new one otherwise (never shrinking), failing when the device
  refuses the allocation; the contents of a fresh block are not specified, and are zero
  here. \<open>from_device\<close> stages \<open>n_bytes\<close> of a source into the buffer at an offset, and
  \<open>array\<close> is the typed view of \<open>n_elems\<close> elements at the base; a copy or view that
  leaves either allocation is a \<open>DeviceFault\<close>.
\<close>

type_synonym DeviceMemory = "byte list"

definition DeviceMemory_init :: DeviceMemory where
  "DeviceMemory_init = []"

definition assign :: "env \<Rightarrow> nat \<Rightarrow> DeviceMemory \<Rightarrow> error + DeviceMemory" where
  "assign ev n_bytes mem =
     (if n_bytes \<le> length mem then Inr mem
      else if alloc_ok ev n_bytes then Inr (replicate n_bytes 0)
      else Inl AllocationError)"

definition from_device :: "byte list \<Rightarrow> nat \<Rightarrow> nat \<Rightarrow> DeviceMemory \<Rightarrow> error + DeviceMemory" where
  "from_device src n_bytes offset mem =
     (if offset + n_bytes \<le> length mem \<and> n_bytes \<le> length src
      then Inr (take offset mem @ take n_bytes src @ drop (offset + n_bytes) mem)
      else Inl DeviceFault)"

definition array :: "nat \<Rightarrow> dtype \<Rightarrow> DeviceMemory \<Rightarrow> error + ndarray" where
  "array n_elems dt mem =
     (if n_elems * itemsize dt \<le> length mem
      then Inr \<lparr>dtype = dt, raw = take (n_elems * itemsize dt) mem\<rparr>
      else Inl DeviceFault)"

subsection \<open>Parameter extraction, packing and unpacking\<close>

text \<open>
  Modelled from the spec: \<^verbatim>\<open>_memory_utility.extract_params\<close>, \<^verbatim>\<open>pack_params\<close> and
  \<^verbatim>\<open>unpack_params\<close> are not among the sources. Extraction sorts the named parameters by
  name and keeps those with a gradient view. Packing walks the sequence and copies
  \<open>count * item_size\<close> bytes of the selected view of each parameter to the running offset
  of the buffer; unpacking copies the same spans back into the views. The count is that
  of the selected view; a parameter whose selected view is absent has no count, which in
  Python is an \<^verbatim>\<open>AttributeError\<close> on \<^verbatim>\<open>None\<close>.
\<close>

definition sorted_namedparams :: "model \<Rightarrow> named_param list" where
  "sorted_namedparams m = sort_key fst m"

definition extract_params :: "model \<Rightarrow> named_param list" where
  "extract_params m = filter (\<lambda>np. grad (snd np) \<noteq> None) (sorted_namedparams m)"

fun pack_params :: "named_param list \<Rightarrow> nat \<Rightarrow> attr \<Rightarrow> nat \<Rightarrow> DeviceMemory \<Rightarrow> error + DeviceMemory" where
  "pack_params [] item_size a offset mem = Inr mem"
| "pack_params (np # nps) item_size a offset mem =
     (case getattr (snd np) a of
        None \<Rightarrow> Inl AttributeError
      | Some v \<Rightarrow>
          (case from_device (raw v) (nelems v * item_size) offset mem of
             Inl e \<Rightarrow> Inl e
           | Inr mem' \<Rightarrow> pack_params nps item_size a (offset + nelems v * item_size) mem'))"

definition to_view :: "DeviceMemory \<Rightarrow> nat \<Rightarrow> nat \<Rightarrow> ndarray \<Rightarrow> error + ndarray" where
  "to_view mem n_bytes offset v =
     (if offset + n_bytes \<le> length mem \<and> n_bytes \<le> length (raw v)
      then Inr (v\<lparr>raw := take n_bytes (drop offset mem) @ drop n_bytes (raw v)\<rparr>)
      else Inl DeviceFault)"

fun unpack_params :: "named_param list \<Rightarrow> nat \<Rightarrow> attr \<Rightarrow> nat \<Rightarrow> DeviceMemory \<Rightarrow> error + named_param list" where
  "unpack_params [] item_size a offset mem = Inr []"
| "unpack_params (np # nps) item_size a offset mem =
     (case getattr (snd np) a of
        None \<Rightarrow> Inl AttributeError
      | Some v \<Rightarrow>
          (case to_view mem (nelems v * item_size) offset v of
             Inl e \<Rightarrow> Inl e
           | Inr v' \<Rightarrow>
               (case unpack_params nps item_size a (offset + nelems v * item_size) mem of
                  Inl e \<Rightarrow> Inl e
                | Inr nps' \<Rightarrow> Inr ((fst np, setattr (snd np) a v') # nps'))))"

text \<open>
  The views are mutated in place: the parameters that unpacking wrote are the model's own,
  found again under their names.
\<close>

definition store_params :: "named_param list \<Rightarrow> model \<Rightarrow> model" where
  "store_params nps m =
     map (\<lambda>np. case map_of nps (fst np) of None \<Rightarrow> np | Some p \<Rightarrow> (fst np, p)) m"

text \<open>\<^verbatim>\<open>sum(param.grad.size for param in params)\<close>.\<close>

fun sum_grad_size :: "named_param list \<Rightarrow> error + nat" where
  "sum_grad_size [] = Inr 0"
| "sum_grad_size (np # nps) =
     (case grad (snd np) of
        None \<Rightarrow> Inl AttributeError
      | Some g \<Rightarrow>
          (case sum_grad_size nps of
             Inl e \<Rightarrow> Inl e
           | Inr n \<Rightarrow> Inr (nelems g + n)))"

subsection \<open>The communicator base class\<close>

text \<open>
  Modelled from the spec: \<^verbatim>\<open>_base.CommunicatorBase\<close> is not among the sources. Its
  constructor keeps the process group and the topology resolved from it, fixed from then
  on; \<^verbatim>\<open>self.size\<close> is the size of the process group. The spec does not speak of the
  attribute \<^verbatim>\<open>inter_mpi_comm\<close> that the single-node communicator reads, so the value the
  base constructor leaves there is a parameter.
\<close>

record CommunicatorBase =
  mpi_comm :: intracomm
  intra_rank :: nat
  intra_size :: nat
  inter_rank :: nat
  inter_size :: nat
  inter_mpi_comm :: "intracomm option"

definition CommunicatorBase_init :: "intracomm option \<Rightarrow> intracomm \<Rightarrow> bool \<Rightarrow> CommunicatorBase" where
  "CommunicatorBase_init base_inter mpi use_nccl =
     (case my_ranks mpi of (r, ir, isz, xr, xsz) \<Rightarrow>
        \<lparr>mpi_comm = mpi, intra_rank = ir, intra_size = isz, inter_rank = xr,
         inter_size = xsz, inter_mpi_comm = base_inter\<rparr>)"

definition comm_size_of :: "'a CommunicatorBase_scheme \<Rightarrow> nat" where
  "comm_size_of c = comm_size (mpi_comm c)"

text \<open>State transformers shared by both communicators.\<close>

definition with_buffer ::
  "('c \<Rightarrow> DeviceMemory) \<Rightarrow> ((DeviceMemory \<Rightarrow> DeviceMemory) \<Rightarrow> 'c \<Rightarrow> 'c) \<Rightarrow>
   (DeviceMemory \<Rightarrow> error + DeviceMemory) \<Rightarrow> ('c sys, unit) prog" where
  "with_buffer get upd f =
     (\<lambda>s. case f (get (self s)) of
             Inl e \<Rightarrow> (Inl e, s)
           | Inr m \<Rightarrow> (Inr (), s\<lparr>self := upd (\<lambda>_. m) (self s)\<rparr>))"

definition read_buffer ::
  "('c \<Rightarrow> DeviceMemory) \<Rightarrow> (DeviceMemory \<Rightarrow> error + 'a) \<Rightarrow> ('c sys, 'a) prog" where
  "read_buffer get f = (\<lambda>s. (f (get (self s)), s))"

definition unpack_into_model ::
  "('c \<Rightarrow> DeviceMemory) \<Rightarrow> named_param list \<Rightarrow> nat \<Rightarrow> attr \<Rightarrow> ('c sys, unit) prog" where
  "unpack_into_model get params item_size a =
     (\<lambda>s. case unpack_params params item_size a 0 (get (self s)) of
             Inl e \<Rightarrow> (Inl e, s)
           | Inr nps \<Rightarrow> (Inr (), s\<lparr>model := store_params nps (model s)\<rparr>))"

text \<open>
  \<^verbatim>\<open>1.0 / self.size\<close> raises on a group of size zero; otherwise the product is cupy's.
\<close>

definition times_inv_size :: "env \<Rightarrow> nat \<Rightarrow> ndarray \<Rightarrow> error + byte list" where
  "times_inv_size ev n a =
     (if n = 0 then Inl ZeroDivisionError else Inr (times_inv ev (dtype a) n (raw a)))"

text \<open>
  Modelled from the spec: the collective library is an opaque provider of all-reduce and
  broadcast given device pointers, an element count, a type tag and a stream. The
  all-reduce reads \<open>count\<close> elements at the send pointer and writes as many at the receive
  pointer; the broadcast rewrites \<open>count\<close> elements in place. The result is the bytes
  sent and the receive buffer afterwards.
\<close>

definition nccl_allReduce ::
  "env \<Rightarrow> nccl_comm \<Rightarrow> DeviceMemory \<Rightarrow> DeviceMemory \<Rightarrow> nat \<Rightarrow> nccl_type \<Rightarrow>
   error + (byte list \<times> DeviceMemory)" where
  "nccl_allReduce ev h sendbuf recvbuf count t =
     (let n = count * nccl_itemsize t in
      if n \<le> length sendbuf then
        (case from_device (reduce_sum ev h t count (take n sendbuf)) n 0 recvbuf of
           Inl e \<Rightarrow> Inl e
         | Inr recvbuf' \<Rightarrow> Inr (take n sendbuf, recvbuf'))
      else Inl DeviceFault)"

definition nccl_bcast ::
  "env \<Rightarrow> nccl_comm \<Rightarrow> DeviceMemory \<Rightarrow> nat \<Rightarrow> nccl_type \<Rightarrow> nat \<Rightarrow>
   error + (byte list \<times> DeviceMemory)" where
  "nccl_bcast ev h buf count t root =
     (let n = count * nccl_itemsize t in
      if n \<le> length buf then
        (case from_device (bcast_root ev h t count root (take n buf)) n 0 buf of
           Inl e \<Rightarrow> Inl e
         | Inr buf' \<Rightarrow> Inr (take n buf, buf'))
      else Inl DeviceFault)"

subsection \<open>PureNcclCommunicator\<close>

record PureNcclCommunicator = CommunicatorBase +
  nccl_comm :: "nccl_comm option"
  gpu_tmp_buffer :: DeviceMemory
  gpu_allreduce_buffer_a :: DeviceMemory
  gpu_allreduce_buffer_b :: DeviceMemory
  allreduce_grad_dtype :: "dtype option"

text \<open>\<^verbatim>\<open>_init_ranks\<close>, lines 40-46.\<close>

definition PureNccl_init_ranks :: "CommunicatorBase \<Rightarrow> error + CommunicatorBase" where
  "PureNccl_init_ranks c =
     (case my_ranks (mpi_comm c) of (r, ir, isz, xr, xsz) \<Rightarrow>
        if r \<noteq> comm_rank (mpi_comm c) then Inl AssertionError
        else Inr (c\<lparr>intra_rank := ir, intra_size := isz, inter_rank := xr, inter_size := xsz\<rparr>))"

text \<open>
  \<^verbatim>\<open>__init__\<close>, lines 13-38. The argument is what \<^verbatim>\<open>np.dtype(allreduce_grad_dtype)\<close>
  makes of the caller's value, or \<open>None\<close>.
\<close>

definition PureNcclCommunicator_init ::
  "env \<Rightarrow> intracomm option \<Rightarrow> intracomm \<Rightarrow> dtype option \<Rightarrow> error + PureNcclCommunicator" where
  "PureNcclCommunicator_init ev base_inter mpi dt =
     (let base = CommunicatorBase_init base_inter mpi True in
      if nccl_version ev < 2000 then Inl RuntimeError
      else
        (case PureNccl_init_ranks base of
           Inl e \<Rightarrow> Inl e
         | Inr c \<Rightarrow>
             (let obj = \<lparr>mpi_comm = mpi_comm c, intra_rank = intra_rank c,
                         intra_size = intra_size c, inter_rank = inter_rank c,
                         inter_size = inter_size c, inter_mpi_comm = inter_mpi_comm c,
                         nccl_comm = None,
                         gpu_tmp_buffer = DeviceMemory_init,
                         gpu_allreduce_buffer_a = DeviceMemory_init,
                         gpu_allreduce_buffer_b = DeviceMemory_init,
                         allreduce_grad_dtype = None\<rparr>
              in case dt of
                   Some d \<Rightarrow>
                     if kind d \<noteq> CHR ''f'' then Inl ValueError
                     else Inr (obj\<lparr>allreduce_grad_dtype := Some d\<rparr>)
                 | None \<Rightarrow> Inr (obj\<lparr>allreduce_grad_dtype := None\<rparr>))))"

text \<open>
  \<^verbatim>\<open>_init_comms\<close>, lines 48-58. The handle that
  \<^verbatim>\<open>_communication_utility.init_nccl_comm\<close> constructs is numbered by the constructions
  before it.
\<close>

definition PureNccl_init_comms :: "env \<Rightarrow> (PureNcclCommunicator sys, unit) prog" where
  "PureNccl_init_comms ev =
     (\<lambda>s. if nccl_comm (self s) \<noteq> None then (Inr (), s)
          else if \<not> nccl_available ev then (Inl RuntimeError, s)
          else
            (let h = NcclComm (constructions (trace s)) in
             (Inr (), s\<lparr>self := (self s)\<lparr>nccl_comm := Some h\<rparr>,
                        trace := trace s @ [InitNcclComm h]\<rparr>)))"

text \<open>\<^verbatim>\<open>broadcast_data\<close>, lines 60-61.\<close>

definition PureNccl_broadcast_data :: "env \<Rightarrow> (PureNcclCommunicator sys, unit) prog" where
  "PureNccl_broadcast_data ev =
     (\<lambda>s. (Inr (), s\<lparr>model := broadcast_naive ev (model s),
                     trace := trace s @ [BroadcastNaive]\<rparr>))"

text \<open>\<^verbatim>\<open>_get_param_grad_dtype\<close>, lines 135-136.\<close>

definition get_param_grad_dtype :: "param \<Rightarrow> error + dtype" where
  "get_param_grad_dtype p = (case grad p of None \<Rightarrow> Inl AttributeError | Some g \<Rightarrow> Inr (dtype g))"

text \<open>\<^verbatim>\<open>_assign\<close>, lines 94-100.\<close>

definition PureNccl_assign ::
  "env \<Rightarrow> dtype \<Rightarrow> dtype \<Rightarrow> nat \<Rightarrow> (PureNcclCommunicator sys, unit) prog" where
  "PureNccl_assign ev grad_dtype wire_dtype n_elems =
     (let allreduce_grad_n_bytes = itemsize wire_dtype * n_elems in
      bind (with_buffer gpu_allreduce_buffer_a gpu_allreduce_buffer_a_update
              (assign ev allreduce_grad_n_bytes)) (\<lambda>_.
      bind (with_buffer gpu_allreduce_buffer_b gpu_allreduce_buffer_b_update
              (assign ev allreduce_grad_n_bytes)) (\<lambda>_.
      if grad_dtype \<noteq> wire_dtype
      then with_buffer gpu_tmp_buffer gpu_tmp_buffer_update
             (assign ev (itemsize grad_dtype * n_elems))
      else ret ())))"

text \<open>\<^verbatim>\<open>_pack_params_to_buffer\<close>, lines 102-117.\<close>

definition PureNccl_pack_params_to_buffer ::
  "env \<Rightarrow> named_param list \<Rightarrow> dtype \<Rightarrow> dtype \<Rightarrow> nat \<Rightarrow> (PureNcclCommunicator sys, unit) prog" where
  "PureNccl_pack_params_to_buffer ev params grad_dtype wire_dtype n_elems =
     (if grad_dtype = wire_dtype
      then with_buffer gpu_allreduce_buffer_a gpu_allreduce_buffer_a_update
             (pack_params params (itemsize wire_dtype) Grad 0)
      else
        bind (with_buffer gpu_tmp_buffer gpu_tmp_buffer_update
                (pack_params params (itemsize grad_dtype) Grad 0)) (\<lambda>_.
        bind (read_buffer gpu_tmp_buffer (array n_elems grad_dtype)) (\<lambda>v.
        (let converted = astype ev grad_dtype wire_dtype (raw v);
             allreduce_grad_n_bytes = itemsize wire_dtype * n_elems
         in with_buffer gpu_allreduce_buffer_a gpu_allreduce_buffer_a_update
              (from_device converted allreduce_grad_n_bytes 0)))))"

text \<open>\<^verbatim>\<open>_unpack_params_from_buffer\<close>, lines 119-132.\<close>

definition PureNccl_unpack_params_from_buffer ::
  "env \<Rightarrow> named_param list \<Rightarrow> dtype \<Rightarrow> dtype \<Rightarrow> nat \<Rightarrow> (PureNcclCommunicator sys, unit) prog" where
  "PureNccl_unpack_params_from_buffer ev params grad_dtype wire_dtype n_elems =
     (if grad_dtype = wire_dtype
      then unpack_into_model gpu_allreduce_buffer_b params (itemsize wire_dtype) Grad
      else
        bind (read_buffer gpu_allreduce_buffer_b (array n_elems wire_dtype)) (\<lambda>v.
        (let converted = astype ev wire_dtype grad_dtype (raw v);
             grad_n_bytes = itemsize grad_dtype * n_elems
         in bind (with_buffer gpu_tmp_buffer gpu_tmp_buffer_update
                    (from_device converted grad_n_bytes 0)) (\<lambda>_.
            unpack_into_model gpu_tmp_buffer params (itemsize grad_dtype) Grad))))"

text \<open>
  The collective of lines 80-83: the method is looked up on the handle, the arguments are
  evaluated from left to right (the type tag last of those that can raise), and buffer A
  is summed into buffer B.
\<close>

definition PureNccl_allReduce ::
  "env \<Rightarrow> nat \<Rightarrow> dtype \<Rightarrow> stream \<Rightarrow> (PureNcclCommunicator sys, unit) prog" where
  "PureNccl_allReduce ev n_elems wire_dtype st =
     (\<lambda>s. case nccl_comm (self s) of
             None \<Rightarrow> (Inl AttributeError, s)
           | Some h \<Rightarrow>
               (case get_nccl_type_id wire_dtype of
                  Inl e \<Rightarrow> (Inl e, s)
                | Inr t \<Rightarrow>
                    (case nccl_allReduce ev h (gpu_allreduce_buffer_a (self s))
                            (gpu_allreduce_buffer_b (self s)) n_elems t of
                       Inl e \<Rightarrow> (Inl e, s)
                     | Inr (sent, b') \<Rightarrow>
                         (Inr (), s\<lparr>self := (self s)\<lparr>gpu_allreduce_buffer_b := b'\<rparr>,
                                    trace := trace s @ [AllReduce h sent n_elems t NCCL_SUM st]\<rparr>))))"

text \<open>Lines 86-90: the sum in buffer B times \<^verbatim>\<open>1.0 / self.size\<close>, written back to B.\<close>

definition PureNccl_average ::
  "env \<Rightarrow> nat \<Rightarrow> dtype \<Rightarrow> (PureNcclCommunicator sys, unit) prog" where
  "PureNccl_average ev n_elems wire_dtype =
     bind (read_buffer gpu_allreduce_buffer_b (array n_elems wire_dtype)) (\<lambda>v.
     bind (\<lambda>s. (times_inv_size ev (comm_size_of (self s)) v, s)) (\<lambda>scaled.
     (let allreduce_grad_n_bytes = itemsize wire_dtype * n_elems in
      with_buffer gpu_allreduce_buffer_b gpu_allreduce_buffer_b_update
        (from_device scaled allreduce_grad_n_bytes 0))))"

text \<open>\<^verbatim>\<open>allreduce_grad\<close>, lines 63-92.\<close>

definition PureNccl_allreduce_grad ::
  "env \<Rightarrow> stream option \<Rightarrow> (PureNcclCommunicator sys, unit) prog" where
  "PureNccl_allreduce_grad ev stream_arg =
     bind (PureNccl_init_comms ev) (\<lambda>_.
     (let st = (case stream_arg of None \<Rightarrow> NullStream | Some x \<Rightarrow> x) in
      bind (\<lambda>s. (Inr (extract_params (model s)), s)) (\<lambda>params.
      bind (lift (case params of [] \<Rightarrow> Inl IndexError
                  | np # _ \<Rightarrow> get_param_grad_dtype (snd np))) (\<lambda>grad_dtype.
      bind (\<lambda>s. (Inr (case allreduce_grad_dtype (self s) of
                         None \<Rightarrow> grad_dtype | Some d \<Rightarrow> d), s)) (\<lambda>wire_dtype.
      bind (lift (sum_grad_size params)) (\<lambda>n_elems.
      bind (PureNccl_assign ev grad_dtype wire_dtype n_elems) (\<lambda>_.
      bind (PureNccl_pack_params_to_buffer ev params grad_dtype wire_dtype n_elems) (\<lambda>_.
      bind (if st \<noteq> NullStream then emit (Synchronize NullStream) else ret ()) (\<lambda>_.
      bind (PureNccl_allReduce ev n_elems wire_dtype st) (\<lambda>_.
      bind (if st \<noteq> NullStream then emit (Synchronize st) else ret ()) (\<lambda>_.
      bind (PureNccl_average ev n_elems wire_dtype) (\<lambda>_.
      PureNccl_unpack_params_from_buffer ev params grad_dtype wire_dtype n_elems))))))))))))"

subsection \<open>SingleNodeCommunicator\<close>

record SingleNodeCommunicator = CommunicatorBase +
  gpu_buffer_a :: DeviceMemory
  gpu_buffer_b :: DeviceMemory
  intra_nccl_comm :: "nccl_comm option"

text \<open>\<^verbatim>\<open>__init__\<close>, lines 11-21.\<close>

definition SingleNodeCommunicator_init ::
  "intracomm option \<Rightarrow> intracomm \<Rightarrow> error + SingleNodeCommunicator" where
  "SingleNodeCommunicator_init base_inter mpi =
     (let c = CommunicatorBase_init base_inter mpi True in
      if inter_size c \<noteq> 1 then Inl ValueError
      else Inr \<lparr>mpi_comm = mpi_comm c, intra_rank = intra_rank c,
                intra_size = intra_size c, inter_rank = inter_rank c,
                inter_size = inter_size c, inter_mpi_comm = inter_mpi_comm c,
                gpu_buffer_a = DeviceMemory_init,
                gpu_buffer_b = DeviceMemory_init,
                intra_nccl_comm = None\<rparr>)"

text \<open>
  \<^verbatim>\<open>_init_comms\<close>, lines 23-38. The guard reads \<^verbatim>\<open>inter_mpi_comm\<close>; the handle built
  from the intra-node process group is stored in \<^verbatim>\<open>intra_nccl_comm\<close>.
\<close>

definition SingleNode_init_comms :: "env \<Rightarrow> (SingleNodeCommunicator sys, unit) prog" where
  "SingleNode_init_comms ev =
     (\<lambda>s. if inter_mpi_comm (self s) \<noteq> None then
            (if intra_nccl_comm (self s) \<noteq> None then (Inr (), s)
             else (Inl AssertionError, s))
          else if \<not> nccl_available ev then (Inl RuntimeError, s)
          else
            (let h = NcclComm (constructions (trace s)) in
             (Inr (), s\<lparr>self := (self s)\<lparr>intra_nccl_comm := Some h\<rparr>,
                        trace := trace s @
                          [InitIntraNcclComm h (intra_rank (self s)) (intra_size (self s))]\<rparr>)))"

definition SingleNode_bcast ::
  "env \<Rightarrow> nat \<Rightarrow> stream \<Rightarrow> (SingleNodeCommunicator sys, unit) prog" where
  "SingleNode_bcast ev n_elems st =
     (\<lambda>s. case intra_nccl_comm (self s) of
             None \<Rightarrow> (Inl AttributeError, s)
           | Some h \<Rightarrow>
               (case nccl_bcast ev h (gpu_buffer_a (self s)) n_elems NCCL_FLOAT 0 of
                  Inl e \<Rightarrow> (Inl e, s)
                | Inr (sent, a') \<Rightarrow>
                    (Inr (), s\<lparr>self := (self s)\<lparr>gpu_buffer_a := a'\<rparr>,
                               trace := trace s @ [Bcast h sent n_elems NCCL_FLOAT 0 st]\<rparr>)))"

text \<open>\<^verbatim>\<open>broadcast_data\<close>, lines 40-58.\<close>

definition SingleNode_broadcast_data :: "env \<Rightarrow> (SingleNodeCommunicator sys, unit) prog" where
  "SingleNode_broadcast_data ev =
     bind (SingleNode_init_comms ev) (\<lambda>_.
     (let st = NullStream in
      bind (\<lambda>s. (Inr (sorted_namedparams (model s)), s)) (\<lambda>params.
      (let item_size = 4 in
       bind (lift (sum_grad_size params)) (\<lambda>n_elems_total.
       (let n_bytes_total = n_elems_total * item_size in
        bind (with_buffer gpu_buffer_a gpu_buffer_a_update (assign ev n_bytes_total)) (\<lambda>_.
        bind (with_buffer gpu_buffer_a gpu_buffer_a_update
                (pack_params params item_size Data 0)) (\<lambda>_.
        bind (SingleNode_bcast ev n_elems_total st) (\<lambda>_.
        unpack_into_model gpu_buffer_a params item_size Data)))))))))"

definition SingleNode_allReduce ::
  "env \<Rightarrow> nat \<Rightarrow> stream \<Rightarrow> (SingleNodeCommunicator sys, unit) prog" where
  "SingleNode_allReduce ev n_elems st =
     (\<lambda>s. case intra_nccl_comm (self s) of
             None \<Rightarrow> (Inl AttributeError, s)
           | Some h \<Rightarrow>
               (case nccl_allReduce ev h (gpu_buffer_a (self s)) (gpu_buffer_b (self s))
                       n_elems NCCL_FLOAT of
                  Inl e \<Rightarrow> (Inl e, s)
                | Inr (sent, b') \<Rightarrow>
                    (Inr (), s\<lparr>self := (self s)\<lparr>gpu_buffer_b := b'\<rparr>,
                               trace := trace s @
                                 [AllReduce h sent n_elems NCCL_FLOAT NCCL_SUM st]\<rparr>)))"

text \<open>
  Lines 78-79: the view of buffer B is multiplied in place. The call names no dtype; the
  view has the fixed 4-byte float type of the single-node path.
\<close>

definition SingleNode_average :: "env \<Rightarrow> nat \<Rightarrow> (SingleNodeCommunicator sys, unit) prog" where
  "SingleNode_average ev n_elems =
     bind (read_buffer gpu_buffer_b (array n_elems Float32)) (\<lambda>arr.
     bind (\<lambda>s. (times_inv_size ev (comm_size_of (self s)) arr, s)) (\<lambda>scaled.
     with_buffer gpu_buffer_b gpu_buffer_b_update
       (from_device scaled (n_elems * itemsize Float32) 0)))"

text \<open>\<^verbatim>\<open>allreduce_grad\<close>, lines 60-82.\<close>

definition SingleNode_allreduce_grad :: "env \<Rightarrow> (SingleNodeCommunicator sys, unit) prog" where
  "SingleNode_allreduce_grad ev =
     bind (SingleNode_init_comms ev) (\<lambda>_.
     (let st = NullStream in
      bind (\<lambda>s. (Inr (extract_params (model s)), s)) (\<lambda>params.
      (let item_size = 4 in
       bind (lift (sum_grad_size params)) (\<lambda>n_elems_total.
       (let n_bytes_total = n_elems_total * item_size in
        bind (with_buffer gpu_buffer_a gpu_buffer_a_update (assign ev n_bytes_total)) (\<lambda>_.
        bind (with_buffer gpu_buffer_b gpu_buffer_b_update (assign ev n_bytes_total)) (\<lambda>_.
        bind (with_buffer gpu_buffer_a gpu_buffer_a_update
                (pack_params params item_size Grad 0)) (\<lambda>_.
        bind (SingleNode_allReduce ev n_elems_total st) (\<lambda>_.
        bind (SingleNode_average ev n_elems_total) (\<lambda>_.
        unpack_into_model gpu_buffer_b params item_size Grad)))))))))))"

subsection \<open>The packed layout\<close>

text \<open>
  The byte layout that packing produces: the spans of the selected views, concatenated in
  iteration order, without padding.
\<close>

definition span :: "nat \<Rightarrow> attr \<Rightarrow> named_param \<Rightarrow> byte list" where
  "span item_size a np =
     (case getattr (snd np) a of None \<Rightarrow> [] | Some v \<Rightarrow> take (nelems v * item_size) (raw v))"

definition packed :: "named_param list \<Rightarrow> nat \<Rightarrow> attr \<Rightarrow> byte list" where
  "packed nps item_size a = concat (map (span item_size a) nps)"

subsection \<open>Concrete processes and models\<close>

text \<open>
  A stand-in conversion for concrete runs: every element is cut or zero-extended to the
  width of the target type.
\<close>

definition resize_astype :: "dtype \<Rightarrow> dtype \<Rightarrow> byte list \<Rightarrow> byte list" where
  "resize_astype a b xs =
     concat (map (\<lambda>i. take (itemsize b)
                         (take (itemsize a) (drop (i * itemsize a) xs) @ replicate (itemsize b) 0))
                 [0..<length xs div itemsize a])"

text \<open>
  A process that is alone in its group: the sum over the group is its own contribution and
  the factor is \<open>1.0 / 1\<close>.
\<close>

definition env_single :: env where
  "env_single =
     \<lparr>nccl_available = True, nccl_version = 2000, alloc_ok = (\<lambda>_. True),
      astype = resize_astype, times_inv = (\<lambda>d n xs. xs), reduce_sum = (\<lambda>h t n xs. xs),
      bcast_root = (\<lambda>h t n r xs. xs), broadcast_naive = (\<lambda>m. m)\<rparr>"

definition mpi_single :: intracomm where
  "mpi_single = \<lparr>comm_rank = 0, comm_size = 1, my_ranks = (0, 0, 1, 0, 1)\<rparr>"

definition mpi_two_nodes :: intracomm where
  "mpi_two_nodes = \<lparr>comm_rank = 0, comm_size = 2, my_ranks = (0, 0, 1, 0, 2)\<rparr>"

definition float32_array :: "byte list \<Rightarrow> ndarray" where
  "float32_array bs = \<lparr>dtype = Float32, raw = bs\<rparr>"

definition model_two :: model where
  "model_two =
     [(''b'', \<lparr>data = Some (float32_array [1, 2, 3, 4]),
               grad = Some (float32_array [5, 6, 7, 8])\<rparr>),
      (''W'', \<lparr>data = Some (float32_array [9, 10, 11, 12, 13, 14, 15, 16]),
               grad = Some (float32_array [17, 18, 19, 20, 21, 22, 23, 24])\<rparr>)]"

definition model_frozen :: model where
  "model_frozen =
     [(''b'', \<lparr>data = Some (float32_array [1, 2, 3, 4]),
               grad = Some (float32_array [5, 6, 7, 8])\<rparr>),
      (''a'', \<lparr>data = Some (float32_array [9, 10, 11, 12]), grad = None\<rparr>)]"

definition pure_nccl_fresh :: "dtype option \<Rightarrow> PureNcclCommunicator" where
  "pure_nccl_fresh dt =
     \<lparr>mpi_comm = mpi_single, intra_rank = 0, intra_size = 1, inter_rank = 0, inter_size = 1,
      inter_mpi_comm = None, nccl_comm = None, gpu_tmp_buffer = [],
      gpu_allreduce_buffer_a = [], gpu_allreduce_buffer_b = [],
      allreduce_grad_dtype = dt\<rparr>"

definition single_node_fresh :: SingleNodeCommunicator where
  "single_node_fresh =
     \<lparr>mpi_comm = mpi_single, intra_rank = 0, intra_size = 1, inter_rank = 0, inter_size = 1,
      inter_mpi_comm = None, gpu_buffer_a = [], gpu_buffer_b = [],
      intra_nccl_comm = None\<rparr>"

definition model_no_grad :: model where
  "model_no_grad = [(''a'', \<lparr>data = Some (float32_array [9, 10, 11, 12]), grad = None\<rparr>)]"

definition single_node_start :: "model \<Rightarrow> SingleNodeCommunicator sys" where
  "single_node_start m = \<lparr>self = single_node_fresh, model = m, trace = []\<rparr>"

definition pure_nccl_start :: "dtype option \<Rightarrow> model \<Rightarrow> PureNcclCommunicator sys" where
  "pure_nccl_start dt m = \<lparr>self = pure_nccl_fresh dt, model = m, trace = []\<rparr>"

text \<open>The collectives among the events.\<close>

fun is_collective :: "event \<Rightarrow> bool" where
  "is_collective (AllReduce _ _ _ _ _ _) = True"
| "is_collective (Bcast _ _ _ _ _ _) = True"
| "is_collective _ = False"

text \<open>The collectives a state has on its trace.\<close>

definition collectives :: "'c sys \<Rightarrow> event list" where
  "collectives s = filter is_collective (trace s)"

text \<open>
  What a program leaves alone: \<open>keeps F p\<close> when no run of \<open>p\<close>, returning or raising,
  changes the aspect \<open>F\<close> of the state. The aspects of the lazy initialisation are the
  handle a communicator holds and the number of handles constructed so far.
\<close>

definition keeps :: "('s \<Rightarrow> 'b) \<Rightarrow> ('s, 'a) prog \<Rightarrow> bool" where
  "keeps F p = (\<forall>s. F (snd (p s)) = F s)"

definition pure_handle :: "PureNcclCommunicator sys \<Rightarrow> nccl_comm option \<times> nat" where
  "pure_handle s = (nccl_comm (self s), constructions (trace s))"

definition single_handle :: "SingleNodeCommunicator sys \<Rightarrow> nccl_comm option \<times> nat" where
  "single_handle s = (intra_nccl_comm (self s), constructions (trace s))"

section \<open>Properties\<close>

subsection \<open>Wire types\<close>

lemma get_nccl_type_id_Inr_iff:
  "(\<exists>t. get_nccl_type_id d = Inr t) \<longleftrightarrow> d \<in> {Float16, Float32, Float64}"
  by (cases d) simp_all

lemma get_nccl_type_id_unsupported:
  "d \<notin> {Float16, Float32, Float64} \<Longrightarrow> get_nccl_type_id d = Inl ValueError"
  by (cases d) simp_all

lemma get_nccl_type_id_itemsize:
  "get_nccl_type_id d = Inr t \<Longrightarrow> nccl_itemsize t = itemsize d"
  by (cases d) auto

lemma PureNcclCommunicator_init_nonfloat:
  "kind d \<noteq> CHR ''f'' \<Longrightarrow>
   PureNcclCommunicator_init ev base_inter mpi (Some d) =
     Inl (if nccl_version ev < 2000 then RuntimeError
          else if fst (my_ranks mpi) \<noteq> comm_rank mpi then AssertionError
          else ValueError)"
  by (cases "my_ranks mpi")
     (simp add: PureNcclCommunicator_init_def PureNccl_init_ranks_def
        CommunicatorBase_init_def Let_def)


lemma PureNcclCommunicator_init_fresh:
  "PureNcclCommunicator_init env_single None mpi_single dt =
     (case dt of None \<Rightarrow> Inr (pure_nccl_fresh None)
      | Some d \<Rightarrow> if kind d \<noteq> CHR ''f'' then Inl ValueError else Inr (pure_nccl_fresh dt))"
  by (simp add: PureNcclCommunicator_init_def PureNccl_init_ranks_def
        CommunicatorBase_init_def Let_def env_single_def mpi_single_def pure_nccl_fresh_def
        DeviceMemory_init_def
      split: option.splits)

text \<open>
  C8. A requested wire type is valid only if it is one of float16, float32 and float64:
  the constructor of the pure NCCL communicator raises on a dtype that is not of kind
  \<^verbatim>\<open>'f'\<close> (its \<^verbatim>\<open>ValueError\<close>, unless the version check or the rank assertion before it
  raised first), and the mapping from dtypes to NCCL type tags answers a tag exactly for
  the three and raises \<^verbatim>\<open>ValueError\<close>, the error of an unsupported wire type, for every
  other dtype.
\<close>

theorem C8_wire_type_validation:
  "(kind d \<noteq> CHR ''f'' \<longrightarrow>
      PureNcclCommunicator_init ev base_inter mpi (Some d) =
        Inl (if nccl_version ev < 2000 then RuntimeError
             else if fst (my_ranks mpi) \<noteq> comm_rank mpi then AssertionError
             else ValueError)) \<and>
   ((\<exists>t. get_nccl_type_id d = Inr t) \<longleftrightarrow> d \<in> {Float16, Float32, Float64}) \<and>
   (d \<notin> {Float16, Float32, Float64} \<longrightarrow> get_nccl_type_id d = Inl ValueError)"
  using PureNcclCommunicator_init_nonfloat [of d ev base_inter mpi]
    get_nccl_type_id_Inr_iff [of d] get_nccl_type_id_unsupported [of d]
  by blast

theorem C8_wire_type_validation_witness:
  "kind Int32 \<noteq> CHR ''f'' \<and>
   PureNcclCommunicator_init env_single None mpi_single (Some Int32) = Inl ValueError \<and>
   Int32 \<notin> {Float16, Float32, Float64} \<and>
   get_nccl_type_id Int32 = Inl ValueError \<and>
   get_nccl_type_id Float16 = Inr NCCL_FLOAT16"
  using C8_wire_type_validation [of Int32 env_single None mpi_single]
  by (simp add: env_single_def mpi_single_def)

subsection \<open>Topology validation\<close>

text \<open>
  C7. Constructing a single-node communicator under a topology whose inter-node size is
  greater than one fails with the constructor's \<^verbatim>\<open>ValueError\<close>, the configuration error:
  the constructor answers the error and no communicator, so no buffer and no collective
  handle exists.
\<close>

theorem C7_single_node_rejects_multi_node:
  "1 < snd (snd (snd (snd (my_ranks mpi)))) \<Longrightarrow>
   SingleNodeCommunicator_init base_inter mpi = Inl ValueError"
  by (cases "my_ranks mpi")
     (simp add: SingleNodeCommunicator_init_def CommunicatorBase_init_def Let_def)

theorem C7_single_node_rejects_multi_node_witness:
  "1 < snd (snd (snd (snd (my_ranks mpi_two_nodes)))) \<and>
   SingleNodeCommunicator_init None mpi_two_nodes = Inl ValueError"
  using C7_single_node_rejects_multi_node [of mpi_two_nodes None]
  by (simp add: mpi_two_nodes_def)

subsection \<open>The packed layout and the round trip\<close>

lemma packed_Nil [simp]: "packed [] isz a = []"
  by (simp add: packed_def)

lemma packed_Cons: "packed (np # nps) isz a = span isz a np @ packed nps isz a"
  by (simp add: packed_def)

lemma from_device_Inr:
  "from_device src n off mem = Inr m \<longleftrightarrow>
     off + n \<le> length mem \<and> n \<le> length src \<and> m = take off mem @ take n src @ drop (off + n) mem"
  by (auto simp: from_device_def)

lemma from_device_length: "from_device src n off mem = Inr m \<Longrightarrow> length m = length mem"
  by (auto simp: from_device_def split: if_splits)

lemma pack_params_Inr:
  "pack_params nps isz a off mem = Inr mem' \<Longrightarrow> off \<le> length mem \<Longrightarrow>
     off + length (packed nps isz a) \<le> length mem \<and>
     mem' = take off mem @ packed nps isz a @ drop (off + length (packed nps isz a)) mem"
proof (induction nps arbitrary: off mem)
  case Nil
  then show ?case by simp
next
  case (Cons np nps)
  from Cons.prems obtain v m1 where
    v: "getattr (snd np) a = Some v" and
    fd: "from_device (raw v) (nelems v * isz) off mem = Inr m1" and
    rest: "pack_params nps isz a (off + nelems v * isz) m1 = Inr mem'"
    by (auto split: option.splits sum.splits)
  let ?sz = "nelems v * isz"
  from fd have b1: "off + ?sz \<le> length mem" and b2: "?sz \<le> length (raw v)"
    and m1: "m1 = take off mem @ take ?sz (raw v) @ drop (off + ?sz) mem"
    by (simp_all add: from_device_Inr)
  have sp: "span isz a np = take ?sz (raw v)" and lsp: "length (span isz a np) = ?sz"
    using v b2 by (simp_all add: span_def)
  have len1: "length m1 = length mem" using fd by (rule from_device_length)
  from Cons.IH[OF rest] b1 len1 have
    b3: "off + ?sz + length (packed nps isz a) \<le> length m1" and
    m': "mem' = take (off + ?sz) m1 @ packed nps isz a @ drop (off + ?sz + length (packed nps isz a)) m1"
    by simp_all
  have t: "take (off + ?sz) m1 = take off mem @ take ?sz (raw v)"
    using b1 b2 by (simp add: m1)
  have d: "drop (off + ?sz + length (packed nps isz a)) m1 = drop (off + ?sz + length (packed nps isz a)) mem"
    using b1 b2 by (simp add: m1 ac_simps)
  show ?case
    using b3 len1 b2 d by (simp add: m' t packed_Cons sp min_absorb2 add.assoc)
qed

lemma pack_params_length: "pack_params nps isz a off mem = Inr mem' \<Longrightarrow> length mem' = length mem"
  by (induction nps arbitrary: off mem)
     (auto split: option.splits sum.splits dest: from_device_length)

lemma pack_params_views:
  "pack_params nps isz a off mem = Inr mem' \<Longrightarrow>
     \<forall>np \<in> set nps. \<exists>v. getattr (snd np) a = Some v \<and> nelems v * isz \<le> length (raw v)"
proof (induction nps arbitrary: off mem)
  case Nil
  then show ?case by simp
next
  case (Cons np nps)
  then show ?case
    by (auto split: option.splits sum.splits simp: from_device_Inr)
qed

lemma packed_length_grad:
  "sum_grad_size nps = Inr n \<Longrightarrow>
   \<forall>np \<in> set nps. \<exists>v. getattr (snd np) Grad = Some v \<and> nelems v * isz \<le> length (raw v) \<Longrightarrow>
   length (packed nps isz Grad) = n * isz"
proof (induction nps arbitrary: n)
  case Nil
  then show ?case by simp
next
  case (Cons np nps)
  then show ?case
    by (auto split: option.splits sum.splits simp: packed_Cons span_def add_mult_distrib)
qed

lemma unpack_params_roundtrip:
  "\<forall>np \<in> set nps. \<exists>v. getattr (snd np) a = Some v \<and> nelems v * isz \<le> length (raw v) \<Longrightarrow>
   off + length (packed nps isz a) \<le> length mem \<Longrightarrow>
   take (length (packed nps isz a)) (drop off mem) = packed nps isz a \<Longrightarrow>
   unpack_params nps isz a off mem = Inr nps"
proof (induction nps arbitrary: off)
  case Nil
  then show ?case by simp
next
  case (Cons np nps)
  from Cons.prems(1) obtain v where
    v: "getattr (snd np) a = Some v" and b2: "nelems v * isz \<le> length (raw v)"
    by auto
  let ?sz = "nelems v * isz"
  let ?rest = "packed nps isz a"
  have sp: "span isz a np = take ?sz (raw v)" and lsp: "length (span isz a np) = ?sz"
    using v b2 by (simp_all add: span_def)
  from Cons.prems(2) have b1: "off + ?sz + length ?rest \<le> length mem"
    by (simp add: packed_Cons lsp)
  from Cons.prems(3) have eq: "take (?sz + length ?rest) (drop off mem) = take ?sz (raw v) @ ?rest"
    using b2 by (simp add: packed_Cons sp min_absorb2)
  have "take ?sz (take (?sz + length ?rest) (drop off mem)) = take ?sz (raw v)"
    using b2 by (simp only: eq) simp
  then have head: "take ?sz (drop off mem) = take ?sz (raw v)"
    by (simp add: min_def)
  have "drop ?sz (take (?sz + length ?rest) (drop off mem)) = ?rest"
    using b2 by (simp only: eq) simp
  then have tail: "take (length ?rest) (drop (off + ?sz) mem) = ?rest"
    by (simp add: drop_take add.commute)
  have view: "to_view mem ?sz off v = Inr v"
    using b1 b2 head by (simp add: to_view_def)
  have ih: "unpack_params nps isz a (off + ?sz) mem = Inr nps"
    using Cons.prems(1) b1 tail by (intro Cons.IH) (simp_all add: add.assoc)
  have same: "setattr (snd np) a v = snd np"
    using v by (cases a) auto
  show ?case
    by (simp add: v view ih same)
qed

subsection \<open>Successful steps\<close>

lemma bind_InrE:
  assumes "bind m f s = (Inr y, s'')"
  obtains x s' where "m s = (Inr x, s')" and "f x s' = (Inr y, s'')"
  using assms by (auto simp: bind_def split: prod.splits sum.splits)

lemma with_buffer_InrE:
  assumes "with_buffer g u f s = (Inr x, s')"
  obtains m where "f (g (self s)) = Inr m" and "s' = s\<lparr>self := u (\<lambda>_. m) (self s)\<rparr>"
  using assms by (auto simp: with_buffer_def split: sum.splits)

lemma read_buffer_InrD: "read_buffer g f s = (Inr x, s') \<Longrightarrow> f (g (self s)) = Inr x \<and> s' = s"
  by (auto simp: read_buffer_def)

lemma lift_InrD: "lift r s = (Inr x, s') \<Longrightarrow> r = Inr x \<and> s' = s"
  by (auto simp: lift_def)

lemma unpack_into_model_InrE:
  assumes "unpack_into_model g params isz a s = (Inr x, s')"
  obtains nps where "unpack_params params isz a 0 (g (self s)) = Inr nps"
    and "s' = s\<lparr>model := store_params nps (model s)\<rparr>"
  using assms by (auto simp: unpack_into_model_def split: sum.splits)

lemma assign_InrD: "assign ev n mem = Inr m \<Longrightarrow> n \<le> length m"
  by (auto simp: assign_def split: if_splits)

lemma array_InrD:
  "array n dt mem = Inr v \<Longrightarrow>
     n * itemsize dt \<le> length mem \<and> v = \<lparr>dtype = dt, raw = take (n * itemsize dt) mem\<rparr>"
  by (auto simp: array_def split: if_splits)

lemma PureNccl_assign_InrE:
  assumes "PureNccl_assign ev g w n s = (Inr x, s')"
  obtains A1 B1 T1 where
    "s' = s\<lparr>self := (self s)\<lparr>gpu_allreduce_buffer_a := A1, gpu_allreduce_buffer_b := B1,
                               gpu_tmp_buffer := T1\<rparr>\<rparr>"
    and "itemsize w * n \<le> length A1"
    and "itemsize w * n \<le> length B1"
    and "g \<noteq> w \<longrightarrow> itemsize g * n \<le> length T1"
    and "g = w \<longrightarrow> T1 = gpu_tmp_buffer (self s)"
proof -
  from assms obtain u1 s1 u2 s2 where
    a: "with_buffer gpu_allreduce_buffer_a gpu_allreduce_buffer_a_update (assign ev (itemsize w * n)) s = (Inr u1, s1)" and
    b: "with_buffer gpu_allreduce_buffer_b gpu_allreduce_buffer_b_update (assign ev (itemsize w * n)) s1 = (Inr u2, s2)" and
    c: "(if g \<noteq> w then with_buffer gpu_tmp_buffer gpu_tmp_buffer_update (assign ev (itemsize g * n)) else ret ()) s2 = (Inr x, s')"
    unfolding PureNccl_assign_def Let_def by (elim bind_InrE)
  from a obtain A1 where A1: "assign ev (itemsize w * n) (gpu_allreduce_buffer_a (self s)) = Inr A1"
    and s1: "s1 = s\<lparr>self := (self s)\<lparr>gpu_allreduce_buffer_a := A1\<rparr>\<rparr>"
    by (elim with_buffer_InrE) simp
  from b obtain B1 where B1: "assign ev (itemsize w * n) (gpu_allreduce_buffer_b (self s1)) = Inr B1"
    and s2: "s2 = s1\<lparr>self := (self s1)\<lparr>gpu_allreduce_buffer_b := B1\<rparr>\<rparr>"
    by (elim with_buffer_InrE) simp
  show thesis
  proof (cases "g = w")
    case True
    with c have "s' = s2" by (simp add: ret_def)
    show thesis
    proof (rule that)
      show "s' = s\<lparr>self := (self s)\<lparr>gpu_allreduce_buffer_a := A1, gpu_allreduce_buffer_b := B1,
                               gpu_tmp_buffer := gpu_tmp_buffer (self s)\<rparr>\<rparr>"
        using \<open>s' = s2\<close> s1 s2 by simp
      show "itemsize w * n \<le> length A1" using A1 by (rule assign_InrD)
      show "itemsize w * n \<le> length B1" using B1 by (rule assign_InrD)
      show "g \<noteq> w \<longrightarrow> itemsize g * n \<le> length (gpu_tmp_buffer (self s))"
        using True by simp
      show "g = w \<longrightarrow> gpu_tmp_buffer (self s) = gpu_tmp_buffer (self s)" by simp
    qed
  next
    case False
    with c obtain T1 where T1: "assign ev (itemsize g * n) (gpu_tmp_buffer (self s2)) = Inr T1"
      and s': "s' = s2\<lparr>self := (self s2)\<lparr>gpu_tmp_buffer := T1\<rparr>\<rparr>"
      by (auto elim: with_buffer_InrE)
    show thesis
    proof (rule that)
      show "s' = s\<lparr>self := (self s)\<lparr>gpu_allreduce_buffer_a := A1, gpu_allreduce_buffer_b := B1,
                               gpu_tmp_buffer := T1\<rparr>\<rparr>"
        using s' s1 s2 by simp
      show "itemsize w * n \<le> length A1" using A1 by (rule assign_InrD)
      show "itemsize w * n \<le> length B1" using B1 by (rule assign_InrD)
      show "g \<noteq> w \<longrightarrow> itemsize g * n \<le> length T1" using T1 by (simp add: assign_InrD)
      show "g = w \<longrightarrow> T1 = gpu_tmp_buffer (self s)"
        using False by simp
    qed
  qed
qed

lemma PureNccl_pack_params_to_buffer_InrE:
  assumes run: "PureNccl_pack_params_to_buffer ev params g w n s = (Inr x, s')"
    and n: "sum_grad_size params = Inr n"
  obtains A2 T2 where
    "s' = s\<lparr>self := (self s)\<lparr>gpu_allreduce_buffer_a := A2, gpu_tmp_buffer := T2\<rparr>\<rparr>"
    and "length A2 = length (gpu_allreduce_buffer_a (self s))"
    and "itemsize w * n \<le> length A2"
    and "take (itemsize w * n) A2 =
           (if g = w then packed params (itemsize w) Grad
            else take (itemsize w * n) (astype ev g w (packed params (itemsize g) Grad)))"
    and "g = w \<longrightarrow> T2 = gpu_tmp_buffer (self s)"
    and "g \<noteq> w \<longrightarrow> length T2 = length (gpu_tmp_buffer (self s))"
    and "\<forall>np \<in> set params. \<exists>v. getattr (snd np) Grad = Some v \<and>
           nelems v * itemsize g \<le> length (raw v)"
proof (cases "g = w")
  case True
  with run obtain A2 where
    pk: "pack_params params (itemsize w) Grad 0 (gpu_allreduce_buffer_a (self s)) = Inr A2" and
    s': "s' = s\<lparr>self := (self s)\<lparr>gpu_allreduce_buffer_a := A2\<rparr>\<rparr>"
    unfolding PureNccl_pack_params_to_buffer_def by (auto elim: with_buffer_InrE)
  let ?A = "gpu_allreduce_buffer_a (self s)"
  let ?p = "packed params (itemsize w) Grad"
  from pack_params_views[OF pk] have views:
    "\<forall>np \<in> set params. \<exists>v. getattr (snd np) Grad = Some v \<and> nelems v * itemsize w \<le> length (raw v)" .
  from packed_length_grad[OF n views] have len: "length ?p = itemsize w * n"
    by (simp add: mult.commute)
  from pack_params_Inr[OF pk] have b: "length ?p \<le> length ?A" and A2: "A2 = ?p @ drop (length ?p) ?A"
    by simp_all
  have "length A2 = length ?A" using pk by (rule pack_params_length)
  moreover have "take (itemsize w * n) A2 = ?p" using len by (simp add: A2)
  moreover have "itemsize w * n \<le> length A2" using b len \<open>length A2 = length ?A\<close> by simp
  moreover have "s' = s\<lparr>self := (self s)\<lparr>gpu_allreduce_buffer_a := A2,
                              gpu_tmp_buffer := gpu_tmp_buffer (self s)\<rparr>\<rparr>"
    using s' by simp
  ultimately show thesis
    using True views by (intro that[where ?A2.0 = A2 and ?T2.0 = "gpu_tmp_buffer (self s)"]) simp_all
next
  case False
  let ?nbw = "itemsize w * n"
  let ?p = "packed params (itemsize g) Grad"
  from run False obtain u1 s1 v s2 where
    st1: "with_buffer gpu_tmp_buffer gpu_tmp_buffer_update (pack_params params (itemsize g) Grad 0) s = (Inr u1, s1)" and
    st2: "read_buffer gpu_tmp_buffer (array n g) s1 = (Inr v, s2)" and
    st3: "with_buffer gpu_allreduce_buffer_a gpu_allreduce_buffer_a_update
            (from_device (astype ev g w (raw v)) ?nbw 0) s2 = (Inr x, s')"
    unfolding PureNccl_pack_params_to_buffer_def Let_def by (auto elim!: bind_InrE)
  from st1 obtain T2 where
    pk: "pack_params params (itemsize g) Grad 0 (gpu_tmp_buffer (self s)) = Inr T2" and
    s1: "s1 = s\<lparr>self := (self s)\<lparr>gpu_tmp_buffer := T2\<rparr>\<rparr>"
    by (elim with_buffer_InrE) simp
  from pack_params_views[OF pk] have views:
    "\<forall>np \<in> set params. \<exists>v. getattr (snd np) Grad = Some v \<and> nelems v * itemsize g \<le> length (raw v)" .
  from packed_length_grad[OF n views] have len: "length ?p = n * itemsize g" .
  from pack_params_Inr[OF pk] have T2: "T2 = ?p @ drop (length ?p) (gpu_tmp_buffer (self s))"
    by simp
  from st2 have v: "raw v = take (n * itemsize g) T2" and s2: "s2 = s1"
    by (auto dest!: read_buffer_InrD array_InrD simp: s1)
  have rawv: "raw v = ?p" using len by (simp add: v T2)
  from st3 obtain A2 where
    fd: "from_device (astype ev g w ?p) ?nbw 0 (gpu_allreduce_buffer_a (self s2)) = Inr A2" and
    s': "s' = s2\<lparr>self := (self s2)\<lparr>gpu_allreduce_buffer_a := A2\<rparr>\<rparr>"
    by (elim with_buffer_InrE) (simp add: rawv)
  from fd have b1: "?nbw \<le> length (gpu_allreduce_buffer_a (self s))"
    and b2: "?nbw \<le> length (astype ev g w ?p)"
    and A2: "A2 = take ?nbw (astype ev g w ?p) @ drop ?nbw (gpu_allreduce_buffer_a (self s))"
    by (simp_all add: from_device_Inr s2 s1)
  have "length A2 = length (gpu_allreduce_buffer_a (self s))"
    using fd by (simp add: from_device_length s2 s1)
  moreover have "take ?nbw A2 = take ?nbw (astype ev g w ?p)"
    using b2 by (simp add: A2)
  moreover have "length T2 = length (gpu_tmp_buffer (self s))"
    using pk by (rule pack_params_length)
  moreover have "s' = s\<lparr>self := (self s)\<lparr>gpu_allreduce_buffer_a := A2, gpu_tmp_buffer := T2\<rparr>\<rparr>"
    using s' s2 s1 by simp
  ultimately show thesis
    using False views b1 by (intro that[where ?A2.0 = A2 and ?T2.0 = T2]) simp_all
qed

lemma nccl_allReduce_InrD:
  assumes "nccl_allReduce ev h sendbuf recvbuf n t = Inr (sent, recvbuf')"
  shows "n * nccl_itemsize t \<le> length sendbuf"
    and "n * nccl_itemsize t \<le> length recvbuf"
    and "sent = take (n * nccl_itemsize t) sendbuf"
    and "length recvbuf' = length recvbuf"
    and "take (n * nccl_itemsize t) recvbuf' =
           take (n * nccl_itemsize t) (reduce_sum ev h t n (take (n * nccl_itemsize t) sendbuf))"
  using assms
  by (auto simp: nccl_allReduce_def Let_def from_device_Inr split: if_splits sum.splits)

lemma PureNccl_init_comms_InrE:
  assumes "PureNccl_init_comms ev s = (Inr x, s')"
  obtains h where
    "h = (case nccl_comm (self s) of None \<Rightarrow> NcclComm (constructions (trace s)) | Some h0 \<Rightarrow> h0)"
    and "s' = s\<lparr>self := (self s)\<lparr>nccl_comm := Some h\<rparr>,
               trace := trace s @ (if nccl_comm (self s) = None then [InitNcclComm h] else [])\<rparr>"
    and "nccl_comm (self s) = None \<longrightarrow> nccl_available ev"
  using assms
  by (cases "nccl_comm (self s)") (auto simp: PureNccl_init_comms_def Let_def split: if_splits)

lemma PureNccl_allReduce_InrE:
  assumes "PureNccl_allReduce ev n w st s = (Inr x, s')"
  obtains h t B2 where
    "nccl_comm (self s) = Some h"
    and "get_nccl_type_id w = Inr t"
    and "s' = s\<lparr>self := (self s)\<lparr>gpu_allreduce_buffer_b := B2\<rparr>,
               trace := trace s @
                 [AllReduce h (take (itemsize w * n) (gpu_allreduce_buffer_a (self s))) n t NCCL_SUM st]\<rparr>"
    and "itemsize w * n \<le> length (gpu_allreduce_buffer_a (self s))"
    and "itemsize w * n \<le> length (gpu_allreduce_buffer_b (self s))"
    and "length B2 = length (gpu_allreduce_buffer_b (self s))"
    and "take (itemsize w * n) B2 =
           take (itemsize w * n)
             (reduce_sum ev h t n (take (itemsize w * n) (gpu_allreduce_buffer_a (self s))))"
proof -
  from assms obtain h t sent B2 where
    h: "nccl_comm (self s) = Some h" and t: "get_nccl_type_id w = Inr t" and
    ar: "nccl_allReduce ev h (gpu_allreduce_buffer_a (self s)) (gpu_allreduce_buffer_b (self s)) n t
           = Inr (sent, B2)" and
    s': "s' = s\<lparr>self := (self s)\<lparr>gpu_allreduce_buffer_b := B2\<rparr>,
               trace := trace s @ [AllReduce h sent n t NCCL_SUM st]\<rparr>"
    by (auto simp: PureNccl_allReduce_def split: option.splits sum.splits prod.splits)
  have sz: "n * nccl_itemsize t = itemsize w * n"
    using get_nccl_type_id_itemsize[OF t] by (simp add: mult.commute)
  show thesis
    using nccl_allReduce_InrD[OF ar] h t s' unfolding sz
    by (intro that[where h = h and t = t and ?B2.0 = B2]) simp_all
qed

lemma PureNccl_average_InrE:
  assumes "PureNccl_average ev n w s = (Inr x, s')"
  obtains B3 where
    "s' = s\<lparr>self := (self s)\<lparr>gpu_allreduce_buffer_b := B3\<rparr>\<rparr>"
    and "length B3 = length (gpu_allreduce_buffer_b (self s))"
    and "0 < comm_size_of (self s)"
    and "take (itemsize w * n) B3 =
           take (itemsize w * n)
             (times_inv ev w (comm_size_of (self s))
                (take (itemsize w * n) (gpu_allreduce_buffer_b (self s))))"
proof -
  from assms obtain v s1 scaled s2 where
    st1: "read_buffer gpu_allreduce_buffer_b (array n w) s = (Inr v, s1)" and
    st2: "times_inv_size ev (comm_size_of (self s1)) v = Inr scaled" "s2 = s1" and
    st3: "with_buffer gpu_allreduce_buffer_b gpu_allreduce_buffer_b_update
            (from_device scaled (itemsize w * n) 0) s2 = (Inr x, s')"
    unfolding PureNccl_average_def Let_def by (auto elim!: bind_InrE)
  from st1 have v: "v = \<lparr>dtype = w, raw = take (itemsize w * n) (gpu_allreduce_buffer_b (self s))\<rparr>"
    and s1: "s1 = s"
    by (auto dest!: read_buffer_InrD array_InrD simp: mult.commute)
  from st2 have pos: "0 < comm_size_of (self s)"
    and scaled: "scaled = times_inv ev w (comm_size_of (self s))
                   (take (itemsize w * n) (gpu_allreduce_buffer_b (self s)))"
    by (auto simp: times_inv_size_def v s1 split: if_splits)
  from st3 obtain B3 where
    fd: "from_device scaled (itemsize w * n) 0 (gpu_allreduce_buffer_b (self s)) = Inr B3" and
    s': "s' = s\<lparr>self := (self s)\<lparr>gpu_allreduce_buffer_b := B3\<rparr>\<rparr>"
    by (elim with_buffer_InrE) (simp add: st2 s1)
  from fd have "take (itemsize w * n) B3 = take (itemsize w * n) scaled"
    by (auto simp: from_device_Inr)
  with fd s' pos show thesis
    by (intro that[where ?B3.0 = B3]) (simp_all add: from_device_length scaled)
qed

lemma PureNccl_unpack_params_from_buffer_InrE:
  assumes "PureNccl_unpack_params_from_buffer ev params g w n s = (Inr x, s')"
  obtains T3 nps where
    "s' = s\<lparr>self := (self s)\<lparr>gpu_tmp_buffer := T3\<rparr>, model := store_params nps (model s)\<rparr>"
    and "g = w \<longrightarrow> T3 = gpu_tmp_buffer (self s)"
    and "g = w \<longrightarrow>
           unpack_params params (itemsize w) Grad 0 (gpu_allreduce_buffer_b (self s)) = Inr nps"
    and "g \<noteq> w \<longrightarrow> length T3 = length (gpu_tmp_buffer (self s))"
    and "g \<noteq> w \<longrightarrow>
           take (itemsize g * n) T3 =
             take (itemsize g * n)
               (astype ev w g (take (itemsize w * n) (gpu_allreduce_buffer_b (self s))))"
    and "g \<noteq> w \<longrightarrow> unpack_params params (itemsize g) Grad 0 T3 = Inr nps"
proof (cases "g = w")
  case True
  with assms obtain nps where
    "unpack_params params (itemsize w) Grad 0 (gpu_allreduce_buffer_b (self s)) = Inr nps"
    "s' = s\<lparr>model := store_params nps (model s)\<rparr>"
    unfolding PureNccl_unpack_params_from_buffer_def by (auto elim: unpack_into_model_InrE)
  with True show thesis
    by (intro that[where ?T3.0 = "gpu_tmp_buffer (self s)" and nps = nps]) simp_all
next
  case False
  let ?conv = "astype ev w g (take (itemsize w * n) (gpu_allreduce_buffer_b (self s)))"
  from assms False obtain v s1 u s2 where
    st1: "read_buffer gpu_allreduce_buffer_b (array n w) s = (Inr v, s1)" and
    st2: "with_buffer gpu_tmp_buffer gpu_tmp_buffer_update
            (from_device (astype ev w g (raw v)) (itemsize g * n) 0) s1 = (Inr u, s2)" and
    st3: "unpack_into_model gpu_tmp_buffer params (itemsize g) Grad s2 = (Inr x, s')"
    unfolding PureNccl_unpack_params_from_buffer_def Let_def by (auto elim!: bind_InrE)
  from st1 have v: "raw v = take (itemsize w * n) (gpu_allreduce_buffer_b (self s))"
    and s1: "s1 = s"
    by (auto dest!: read_buffer_InrD array_InrD simp: mult.commute)
  from st2 obtain T3 where
    fd: "from_device ?conv (itemsize g * n) 0 (gpu_tmp_buffer (self s)) = Inr T3" and
    s2: "s2 = s\<lparr>self := (self s)\<lparr>gpu_tmp_buffer := T3\<rparr>\<rparr>"
    by (elim with_buffer_InrE) (simp add: v s1)
  from st3 obtain nps where
    up: "unpack_params params (itemsize g) Grad 0 T3 = Inr nps" and
    s': "s' = s2\<lparr>model := store_params nps (model s2)\<rparr>"
    by (elim unpack_into_model_InrE) (simp add: s2)
  from fd have "take (itemsize g * n) T3 = take (itemsize g * n) ?conv"
    by (auto simp: from_device_Inr)
  with fd up s' s2 False show thesis
    by (intro that[where ?T3.0 = T3 and nps = nps]) (simp_all add: from_device_length)
qed

subsection \<open>A successful all-reduce of the pure NCCL communicator\<close>

lemma PureNccl_allreduce_grad_run:
  assumes run: "PureNccl_allreduce_grad ev stream s = (Inr (), s')"
  obtains np nps g w n h t sent nps' where
    "extract_params (model s) = np # nps"
    and "grad (snd np) = Some g"
    and "w = (case allreduce_grad_dtype (self s) of None \<Rightarrow> dtype g | Some d \<Rightarrow> d)"
    and "sum_grad_size (np # nps) = Inr n"
    and "get_nccl_type_id w = Inr t"
    and "h = (case nccl_comm (self s) of None \<Rightarrow> NcclComm (constructions (trace s)) | Some h0 \<Rightarrow> h0)"
    and "nccl_comm (self s') = Some h"
    and "sent = (if dtype g = w then packed (np # nps) (itemsize w) Grad
                 else take (itemsize w * n)
                        (astype ev (dtype g) w (packed (np # nps) (itemsize (dtype g)) Grad)))"
    and "trace s' = trace s @
           (if nccl_comm (self s) = None then [InitNcclComm h] else []) @
           (if stream \<noteq> None \<and> stream \<noteq> Some NullStream then [Synchronize NullStream] else []) @
           [AllReduce h sent n t NCCL_SUM (case stream of None \<Rightarrow> NullStream | Some x \<Rightarrow> x)] @
           (if stream \<noteq> None \<and> stream \<noteq> Some NullStream
            then [Synchronize (case stream of None \<Rightarrow> NullStream | Some x \<Rightarrow> x)] else [])"
    and "take (itemsize w * n) (gpu_allreduce_buffer_a (self s')) = sent"
    and "take (itemsize w * n) (gpu_allreduce_buffer_b (self s')) =
           take (itemsize w * n)
             (times_inv ev w (comm_size_of (self s))
                (take (itemsize w * n) (reduce_sum ev h t n sent)))"
    and "0 < comm_size_of (self s)"
    and "dtype g = w \<longrightarrow> gpu_tmp_buffer (self s') = gpu_tmp_buffer (self s)"
    and "dtype g \<noteq> w \<longrightarrow>
           take (itemsize (dtype g) * n) (gpu_tmp_buffer (self s')) =
             take (itemsize (dtype g) * n)
               (astype ev w (dtype g) (take (itemsize w * n) (gpu_allreduce_buffer_b (self s'))))"
    and "unpack_params (np # nps) (itemsize (dtype g)) Grad 0
           (if dtype g = w then gpu_allreduce_buffer_b (self s') else gpu_tmp_buffer (self s'))
         = Inr nps'"
    and "model s' = store_params nps' (model s)"
    and "\<forall>q \<in> set (np # nps). \<exists>v. getattr (snd q) Grad = Some v \<and>
           nelems v * itemsize (dtype g) \<le> length (raw v)"
proof -
  let ?st = "case stream of None \<Rightarrow> NullStream | Some x \<Rightarrow> x"
  from run show thesis
    unfolding PureNccl_allreduce_grad_def Let_def
  proof (elim bind_InrE)
    fix u0 s0 params s1 gd s2 w s3 n s4 u5 s5 u6 s6 u7 s7 u8 s8 u9 s9 u10 s10
    assume
    st0: "PureNccl_init_comms ev s = (Inr u0, s0)" and
    st1: "(Inr (extract_params (model s0)) :: error + named_param list, s0) = (Inr params, s1)" and
    st2: "lift (case params of [] \<Rightarrow> Inl IndexError | np # _ \<Rightarrow> get_param_grad_dtype (snd np)) s1
            = (Inr gd, s2)" and
    st3: "(Inr (case allreduce_grad_dtype (self s2) of None \<Rightarrow> gd | Some d \<Rightarrow> d) :: error + dtype, s2)
            = (Inr w, s3)" and
    st4: "lift (sum_grad_size params) s3 = (Inr n, s4)" and
    st5: "PureNccl_assign ev gd w n s4 = (Inr u5, s5)" and
    st6: "PureNccl_pack_params_to_buffer ev params gd w n s5 = (Inr u6, s6)" and
    st7: "(if ?st \<noteq> NullStream then emit (Synchronize NullStream) else ret ()) s6 = (Inr u7, s7)" and
    st8: "PureNccl_allReduce ev n w ?st s7 = (Inr u8, s8)" and
    st9: "(if ?st \<noteq> NullStream then emit (Synchronize ?st) else ret ()) s8 = (Inr u9, s9)" and
    st10: "PureNccl_average ev n w s9 = (Inr u10, s10)" and
    st11: "PureNccl_unpack_params_from_buffer ev params gd w n s10 = (Inr (), s')"
  from st0 obtain h where
    h: "h = (case nccl_comm (self s) of None \<Rightarrow> NcclComm (constructions (trace s)) | Some h0 \<Rightarrow> h0)" and
    s0: "s0 = s\<lparr>self := (self s)\<lparr>nccl_comm := Some h\<rparr>,
               trace := trace s @ (if nccl_comm (self s) = None then [InitNcclComm h] else [])\<rparr>"
    by (elim PureNccl_init_comms_InrE) blast
  from st1 have params: "params = extract_params (model s)" and s1: "s1 = s0"
    by (simp_all add: s0)
  from st2 obtain np nps g where
    pcons: "params = np # nps" and g: "grad (snd np) = Some g" and gd: "gd = dtype g" and s2: "s2 = s1"
    by (auto dest!: lift_InrD simp: get_param_grad_dtype_def split: list.splits option.splits)
  from st3 have w: "w = (case allreduce_grad_dtype (self s) of None \<Rightarrow> dtype g | Some d \<Rightarrow> d)"
    and s3: "s3 = s2"
    using gd by (auto simp: s2 s1 s0)
  from st4 have n: "sum_grad_size params = Inr n" and s4: "s4 = s3"
    by (auto dest!: lift_InrD)
  from st5 obtain A1 B1 T1 where
    s5: "s5 = s4\<lparr>self := (self s4)\<lparr>gpu_allreduce_buffer_a := A1, gpu_allreduce_buffer_b := B1,
                                 gpu_tmp_buffer := T1\<rparr>\<rparr>" and
    T1: "gd = w \<longrightarrow> T1 = gpu_tmp_buffer (self s4)"
    by (elim PureNccl_assign_InrE) blast
  from st6 n obtain A2 T2 where
    s6: "s6 = s5\<lparr>self := (self s5)\<lparr>gpu_allreduce_buffer_a := A2, gpu_tmp_buffer := T2\<rparr>\<rparr>" and
    A2: "take (itemsize w * n) A2 =
           (if gd = w then packed params (itemsize w) Grad
            else take (itemsize w * n) (astype ev gd w (packed params (itemsize gd) Grad)))" and
    T2: "gd = w \<longrightarrow> T2 = gpu_tmp_buffer (self s5)" and
    views: "\<forall>np \<in> set params. \<exists>v. getattr (snd np) Grad = Some v \<and>
              nelems v * itemsize gd \<le> length (raw v)"
    by (elim PureNccl_pack_params_to_buffer_InrE) blast
  from st7 have s7: "s7 = s6\<lparr>trace := trace s6 @ (if ?st \<noteq> NullStream then [Synchronize NullStream] else [])\<rparr>"
    by (auto simp: emit_def ret_def split: if_splits)
  from st8 obtain h' t B2 where
    h': "nccl_comm (self s7) = Some h'" and t: "get_nccl_type_id w = Inr t" and
    s8: "s8 = s7\<lparr>self := (self s7)\<lparr>gpu_allreduce_buffer_b := B2\<rparr>,
               trace := trace s7 @
                 [AllReduce h' (take (itemsize w * n) (gpu_allreduce_buffer_a (self s7))) n t NCCL_SUM ?st]\<rparr>" and
    B2: "take (itemsize w * n) B2 =
           take (itemsize w * n)
             (reduce_sum ev h' t n (take (itemsize w * n) (gpu_allreduce_buffer_a (self s7))))"
    by (elim PureNccl_allReduce_InrE) blast
  from h' have hh: "h' = h"
    by (simp add: s7 s6 s5 s4 s3 s2 s1 s0)
  from st9 have s9: "s9 = s8\<lparr>trace := trace s8 @ (if ?st \<noteq> NullStream then [Synchronize ?st] else [])\<rparr>"
    by (auto simp: emit_def ret_def split: if_splits)
  from st10 obtain B3 where
    s10: "s10 = s9\<lparr>self := (self s9)\<lparr>gpu_allreduce_buffer_b := B3\<rparr>\<rparr>" and
    pos: "0 < comm_size_of (self s9)" and
    B3: "take (itemsize w * n) B3 =
           take (itemsize w * n)
             (times_inv ev w (comm_size_of (self s9))
                (take (itemsize w * n) (gpu_allreduce_buffer_b (self s9))))"
    by (elim PureNccl_average_InrE) blast
  from st11 obtain T3 nps' where
    s': "s' = s10\<lparr>self := (self s10)\<lparr>gpu_tmp_buffer := T3\<rparr>, model := store_params nps' (model s10)\<rparr>" and
    T3same: "gd = w \<longrightarrow> T3 = gpu_tmp_buffer (self s10)" and
    up1: "gd = w \<longrightarrow>
            unpack_params params (itemsize w) Grad 0 (gpu_allreduce_buffer_b (self s10)) = Inr nps'" and
    T3conv: "gd \<noteq> w \<longrightarrow>
            take (itemsize gd * n) T3 =
              take (itemsize gd * n)
                (astype ev w gd (take (itemsize w * n) (gpu_allreduce_buffer_b (self s10))))" and
    up2: "gd \<noteq> w \<longrightarrow> unpack_params params (itemsize gd) Grad 0 T3 = Inr nps'"
    by (elim PureNccl_unpack_params_from_buffer_InrE) blast
  note chain = s10 s9 s8 s7 s6 s5 s4 s3 s2 s1 s0
  let ?sent = "if dtype g = w then packed (np # nps) (itemsize w) Grad
               else take (itemsize w * n)
                      (astype ev (dtype g) w (packed (np # nps) (itemsize (dtype g)) Grad))"
  have sizes: "comm_size_of (self s9) = comm_size_of (self s)"
    by (simp add: chain comm_size_of_def)
  have A7: "gpu_allreduce_buffer_a (self s7) = A2"
    by (simp add: chain)
  have B9: "gpu_allreduce_buffer_b (self s9) = B2"
    by (simp add: chain)
  have sentA: "take (itemsize w * n) A2 = ?sent"
    using A2 by (simp add: gd pcons)
  show thesis
  proof (rule that[where np = np and nps = nps and g = g and w = w and n = n and h = h
        and t = t and sent = ?sent and nps' = nps'])
    show "extract_params (model s) = np # nps" using params pcons by simp
    show "grad (snd np) = Some g" by (rule g)
    show "w = (case allreduce_grad_dtype (self s) of None \<Rightarrow> dtype g | Some d \<Rightarrow> d)" by (rule w)
    show "sum_grad_size (np # nps) = Inr n" using n pcons by simp
    show "get_nccl_type_id w = Inr t" by (rule t)
    show "h = (case nccl_comm (self s) of None \<Rightarrow> NcclComm (constructions (trace s)) | Some h0 \<Rightarrow> h0)"
      by (rule h)
    show "nccl_comm (self s') = Some h" by (simp add: s' chain)
    show "?sent = ?sent" ..
    show "trace s' = trace s @
           (if nccl_comm (self s) = None then [InitNcclComm h] else []) @
           (if stream \<noteq> None \<and> stream \<noteq> Some NullStream then [Synchronize NullStream] else []) @
           [AllReduce h ?sent n t NCCL_SUM ?st] @
           (if stream \<noteq> None \<and> stream \<noteq> Some NullStream then [Synchronize ?st] else [])"
      using sentA by (cases stream) (simp_all add: s' chain hh)
    show "take (itemsize w * n) (gpu_allreduce_buffer_a (self s')) = ?sent"
      using sentA by (simp add: s' chain)
    show "take (itemsize w * n) (gpu_allreduce_buffer_b (self s')) =
           take (itemsize w * n)
             (times_inv ev w (comm_size_of (self s))
                (take (itemsize w * n) (reduce_sum ev h t n ?sent)))"
      using B3 B2 sentA unfolding sizes B9 A7 hh by (simp add: s' s10)
    show "0 < comm_size_of (self s)" using pos sizes by simp
    show "dtype g = w \<longrightarrow> gpu_tmp_buffer (self s') = gpu_tmp_buffer (self s)"
      using T1 T2 T3same by (simp add: gd s' chain)
    show "dtype g \<noteq> w \<longrightarrow>
           take (itemsize (dtype g) * n) (gpu_tmp_buffer (self s')) =
             take (itemsize (dtype g) * n)
               (astype ev w (dtype g) (take (itemsize w * n) (gpu_allreduce_buffer_b (self s'))))"
      using T3conv by (simp add: gd s' s10)
    show "unpack_params (np # nps) (itemsize (dtype g)) Grad 0
           (if dtype g = w then gpu_allreduce_buffer_b (self s') else gpu_tmp_buffer (self s'))
         = Inr nps'"
      using up1 up2 by (cases "dtype g = w") (simp_all add: gd pcons s' s10)
    show "model s' = store_params nps' (model s)" by (simp add: s' chain)
    show "\<forall>q \<in> set (np # nps). \<exists>v. getattr (snd q) Grad = Some v \<and>
           nelems v * itemsize (dtype g) \<le> length (raw v)"
      using views by (simp add: gd pcons)
  qed
  qed
qed

subsection \<open>Successful calls of the single-node communicator\<close>

lemma sum_grad_size_Inr_grads:
  "sum_grad_size nps = Inr n \<Longrightarrow> \<forall>np \<in> set nps. grad (snd np) \<noteq> None"
  by (induction nps arbitrary: n) (auto split: option.splits sum.splits)

lemma sum_grad_size_Inl:
  "np \<in> set nps \<Longrightarrow> grad (snd np) = None \<Longrightarrow> sum_grad_size nps = Inl AttributeError"
  by (induction nps) (auto split: option.splits sum.splits)

lemma set_sorted_namedparams [simp]: "set (sorted_namedparams m) = set m"
  by (simp add: sorted_namedparams_def)

lemma SingleNode_init_comms_InrE:
  assumes "SingleNode_init_comms ev s = (Inr x, s')"
  obtains h where
    "inter_mpi_comm (self s) = None \<longrightarrow> h = NcclComm (constructions (trace s)) \<and> nccl_available ev"
    and "inter_mpi_comm (self s) \<noteq> None \<longrightarrow> intra_nccl_comm (self s) = Some h"
    and "s' = s\<lparr>self := (self s)\<lparr>intra_nccl_comm := Some h\<rparr>,
               trace := trace s @
                 (if inter_mpi_comm (self s) = None
                  then [InitIntraNcclComm h (intra_rank (self s)) (intra_size (self s))]
                  else [])\<rparr>"
  using assms
  by (cases "inter_mpi_comm (self s)"; cases "intra_nccl_comm (self s)")
     (auto simp: SingleNode_init_comms_def Let_def split: if_splits)

lemma SingleNode_allReduce_InrE:
  assumes "SingleNode_allReduce ev n st s = (Inr x, s')"
  obtains h B2 where
    "intra_nccl_comm (self s) = Some h"
    and "s' = s\<lparr>self := (self s)\<lparr>gpu_buffer_b := B2\<rparr>,
               trace := trace s @
                 [AllReduce h (take (n * 4) (gpu_buffer_a (self s))) n NCCL_FLOAT NCCL_SUM st]\<rparr>"
    and "n * 4 \<le> length (gpu_buffer_a (self s))"
    and "n * 4 \<le> length (gpu_buffer_b (self s))"
    and "length B2 = length (gpu_buffer_b (self s))"
    and "take (n * 4) B2 =
           take (n * 4) (reduce_sum ev h NCCL_FLOAT n (take (n * 4) (gpu_buffer_a (self s))))"
proof -
  from assms obtain h sent B2 where
    h: "intra_nccl_comm (self s) = Some h" and
    ar: "nccl_allReduce ev h (gpu_buffer_a (self s)) (gpu_buffer_b (self s)) n NCCL_FLOAT
           = Inr (sent, B2)" and
    s': "s' = s\<lparr>self := (self s)\<lparr>gpu_buffer_b := B2\<rparr>,
               trace := trace s @ [AllReduce h sent n NCCL_FLOAT NCCL_SUM st]\<rparr>"
    by (auto simp: SingleNode_allReduce_def split: option.splits sum.splits prod.splits)
  show thesis
    using nccl_allReduce_InrD[OF ar] h s'
    by (intro that[where h = h and ?B2.0 = B2]) simp_all
qed

lemma SingleNode_average_InrE:
  assumes "SingleNode_average ev n s = (Inr x, s')"
  obtains B3 where
    "s' = s\<lparr>self := (self s)\<lparr>gpu_buffer_b := B3\<rparr>\<rparr>"
    and "length B3 = length (gpu_buffer_b (self s))"
    and "0 < comm_size_of (self s)"
    and "take (n * 4) B3 =
           take (n * 4)
             (times_inv ev Float32 (comm_size_of (self s)) (take (n * 4) (gpu_buffer_b (self s))))"
proof -
  from assms obtain v s1 scaled s2 where
    st1: "read_buffer gpu_buffer_b (array n Float32) s = (Inr v, s1)" and
    st2: "times_inv_size ev (comm_size_of (self s1)) v = Inr scaled" "s2 = s1" and
    st3: "with_buffer gpu_buffer_b gpu_buffer_b_update
            (from_device scaled (n * itemsize Float32) 0) s2 = (Inr x, s')"
    unfolding SingleNode_average_def by (auto elim!: bind_InrE)
  from st1 have v: "v = \<lparr>dtype = Float32, raw = take (n * 4) (gpu_buffer_b (self s))\<rparr>"
    and s1: "s1 = s"
    by (auto dest!: read_buffer_InrD array_InrD)
  from st2 have pos: "0 < comm_size_of (self s)"
    and scaled: "scaled = times_inv ev Float32 (comm_size_of (self s))
                   (take (n * 4) (gpu_buffer_b (self s)))"
    by (auto simp: times_inv_size_def v s1 split: if_splits)
  from st3 obtain B3 where
    fd: "from_device scaled (n * 4) 0 (gpu_buffer_b (self s)) = Inr B3" and
    s': "s' = s\<lparr>self := (self s)\<lparr>gpu_buffer_b := B3\<rparr>\<rparr>"
    by (elim with_buffer_InrE) (simp add: st2 s1)
  from fd have "take (n * 4) B3 = take (n * 4) scaled"
    by (auto simp: from_device_Inr)
  with fd s' pos show thesis
    by (intro that[where ?B3.0 = B3]) (simp_all add: from_device_length scaled)
qed

lemma SingleNode_allreduce_grad_run:
  assumes run: "SingleNode_allreduce_grad ev s = (Inr (), s')"
  obtains n h nps' where
    "sum_grad_size (extract_params (model s)) = Inr n"
    and "inter_mpi_comm (self s) = None \<longrightarrow> h = NcclComm (constructions (trace s))"
    and "inter_mpi_comm (self s) \<noteq> None \<longrightarrow> intra_nccl_comm (self s) = Some h"
    and "intra_nccl_comm (self s') = Some h"
    and "trace s' = trace s @
           (if inter_mpi_comm (self s) = None
            then [InitIntraNcclComm h (intra_rank (self s)) (intra_size (self s))] else []) @
           [AllReduce h (packed (extract_params (model s)) 4 Grad) n NCCL_FLOAT NCCL_SUM NullStream]"
    and "take (n * 4) (gpu_buffer_a (self s')) = packed (extract_params (model s)) 4 Grad"
    and "take (n * 4) (gpu_buffer_b (self s')) =
           take (n * 4)
             (times_inv ev Float32 (comm_size_of (self s))
                (take (n * 4)
                   (reduce_sum ev h NCCL_FLOAT n (packed (extract_params (model s)) 4 Grad))))"
    and "0 < comm_size_of (self s)"
    and "unpack_params (extract_params (model s)) 4 Grad 0 (gpu_buffer_b (self s')) = Inr nps'"
    and "model s' = store_params nps' (model s)"
    and "\<forall>q \<in> set (extract_params (model s)). \<exists>v. getattr (snd q) Grad = Some v \<and>
           nelems v * 4 \<le> length (raw v)"
proof -
  from run show thesis
    unfolding SingleNode_allreduce_grad_def Let_def
  proof (elim bind_InrE)
    fix u0 s0 params s1 n s2 u3 s3 u4 s4 u5 s5 u6 s6 u7 s7
    assume
    st0: "SingleNode_init_comms ev s = (Inr u0, s0)" and
    st1: "(Inr (extract_params (model s0)) :: error + named_param list, s0) = (Inr params, s1)" and
    st2: "lift (sum_grad_size params) s1 = (Inr n, s2)" and
    st3: "with_buffer gpu_buffer_a gpu_buffer_a_update (assign ev (n * 4)) s2 = (Inr u3, s3)" and
    st4: "with_buffer gpu_buffer_b gpu_buffer_b_update (assign ev (n * 4)) s3 = (Inr u4, s4)" and
    st5: "with_buffer gpu_buffer_a gpu_buffer_a_update (pack_params params 4 Grad 0) s4 = (Inr u5, s5)" and
    st6: "SingleNode_allReduce ev n NullStream s5 = (Inr u6, s6)" and
    st7: "SingleNode_average ev n s6 = (Inr u7, s7)" and
    st8: "unpack_into_model gpu_buffer_b params 4 Grad s7 = (Inr (), s')"
  from st0 obtain h where
    h1: "inter_mpi_comm (self s) = None \<longrightarrow> h = NcclComm (constructions (trace s)) \<and> nccl_available ev" and
    h2: "inter_mpi_comm (self s) \<noteq> None \<longrightarrow> intra_nccl_comm (self s) = Some h" and
    s0: "s0 = s\<lparr>self := (self s)\<lparr>intra_nccl_comm := Some h\<rparr>,
               trace := trace s @
                 (if inter_mpi_comm (self s) = None
                  then [InitIntraNcclComm h (intra_rank (self s)) (intra_size (self s))]
                  else [])\<rparr>"
    by (rule SingleNode_init_comms_InrE)
  from st1 have params: "params = extract_params (model s)" and s1: "s1 = s0"
    by (simp_all add: s0)
  from st2 have n: "sum_grad_size params = Inr n" and s2: "s2 = s1"
    by (auto dest!: lift_InrD)
  from st3 obtain A1 where
    s3: "s3 = s2\<lparr>self := (self s2)\<lparr>gpu_buffer_a := A1\<rparr>\<rparr>"
    by (elim with_buffer_InrE) blast
  from st4 obtain B1 where
    s4: "s4 = s3\<lparr>self := (self s3)\<lparr>gpu_buffer_b := B1\<rparr>\<rparr>"
    by (elim with_buffer_InrE) blast
  from st5 obtain A2 where
    pk: "pack_params params 4 Grad 0 (gpu_buffer_a (self s4)) = Inr A2" and
    s5: "s5 = s4\<lparr>self := (self s4)\<lparr>gpu_buffer_a := A2\<rparr>\<rparr>"
    by (elim with_buffer_InrE) blast
  let ?p = "packed params 4 Grad"
  from pack_params_views[OF pk] have views:
    "\<forall>np \<in> set params. \<exists>v. getattr (snd np) Grad = Some v \<and> nelems v * 4 \<le> length (raw v)" .
  from packed_length_grad[OF n views] have len: "length ?p = n * 4" .
  from pack_params_Inr[OF pk] have A2: "A2 = ?p @ drop (length ?p) (gpu_buffer_a (self s4))"
    by simp
  have sentA: "take (n * 4) A2 = ?p" using len by (simp add: A2)
  from st6 obtain h' B2 where
    h': "intra_nccl_comm (self s5) = Some h'" and
    s6: "s6 = s5\<lparr>self := (self s5)\<lparr>gpu_buffer_b := B2\<rparr>,
               trace := trace s5 @
                 [AllReduce h' (take (n * 4) (gpu_buffer_a (self s5))) n NCCL_FLOAT NCCL_SUM NullStream]\<rparr>" and
    B2: "take (n * 4) B2 =
           take (n * 4) (reduce_sum ev h' NCCL_FLOAT n (take (n * 4) (gpu_buffer_a (self s5))))"
    by (elim SingleNode_allReduce_InrE) blast
  from h' have hh: "h' = h"
    by (simp add: s5 s4 s3 s2 s1 s0)
  from st7 obtain B3 where
    s7: "s7 = s6\<lparr>self := (self s6)\<lparr>gpu_buffer_b := B3\<rparr>\<rparr>" and
    pos: "0 < comm_size_of (self s6)" and
    B3: "take (n * 4) B3 =
           take (n * 4)
             (times_inv ev Float32 (comm_size_of (self s6)) (take (n * 4) (gpu_buffer_b (self s6))))"
    by (elim SingleNode_average_InrE) blast
  from st8 obtain nps' where
    up: "unpack_params params 4 Grad 0 (gpu_buffer_b (self s7)) = Inr nps'" and
    s': "s' = s7\<lparr>model := store_params nps' (model s7)\<rparr>"
    by (elim unpack_into_model_InrE) blast
  note chain = s7 s6 s5 s4 s3 s2 s1 s0
  have sizes: "comm_size_of (self s6) = comm_size_of (self s)"
    by (simp add: chain comm_size_of_def)
  have A5: "gpu_buffer_a (self s5) = A2" by (simp add: chain)
  have B6: "gpu_buffer_b (self s6) = B2" by (simp add: chain)
  show thesis
  proof (rule that[where n = n and h = h and nps' = nps'])
    show "sum_grad_size (extract_params (model s)) = Inr n" using n params by simp
    show "inter_mpi_comm (self s) = None \<longrightarrow> h = NcclComm (constructions (trace s))"
      using h1 by simp
    show "inter_mpi_comm (self s) \<noteq> None \<longrightarrow> intra_nccl_comm (self s) = Some h" by (rule h2)
    show "intra_nccl_comm (self s') = Some h" by (simp add: s' chain)
    show "trace s' = trace s @
           (if inter_mpi_comm (self s) = None
            then [InitIntraNcclComm h (intra_rank (self s)) (intra_size (self s))] else []) @
           [AllReduce h (packed (extract_params (model s)) 4 Grad) n NCCL_FLOAT NCCL_SUM NullStream]"
      using sentA by (simp add: s' chain hh params)
    show "take (n * 4) (gpu_buffer_a (self s')) = packed (extract_params (model s)) 4 Grad"
      using sentA by (simp add: s' chain params)
    show "take (n * 4) (gpu_buffer_b (self s')) =
           take (n * 4)
             (times_inv ev Float32 (comm_size_of (self s))
                (take (n * 4)
                   (reduce_sum ev h NCCL_FLOAT n (packed (extract_params (model s)) 4 Grad))))"
      using B3 B2 sentA unfolding sizes B6 A5 hh by (simp add: s' s7 params)
    show "0 < comm_size_of (self s)" using pos sizes by simp
    show "unpack_params (extract_params (model s)) 4 Grad 0 (gpu_buffer_b (self s')) = Inr nps'"
      using up by (simp add: s' params)
    show "model s' = store_params nps' (model s)" by (simp add: s' chain)
    show "\<forall>q \<in> set (extract_params (model s)). \<exists>v. getattr (snd q) Grad = Some v \<and>
           nelems v * 4 \<le> length (raw v)"
      using views params by simp
  qed
  qed
qed

lemma nccl_bcast_InrD:
  assumes "nccl_bcast ev h buf n t root = Inr (sent, buf')"
  shows "n * nccl_itemsize t \<le> length buf"
    and "sent = take (n * nccl_itemsize t) buf"
    and "length buf' = length buf"
    and "buf' = take (n * nccl_itemsize t) (bcast_root ev h t n root sent) @
                drop (n * nccl_itemsize t) buf"
  using assms
  by (auto simp: nccl_bcast_def Let_def from_device_Inr split: if_splits sum.splits)

lemma SingleNode_bcast_InrE:
  assumes "SingleNode_bcast ev n st s = (Inr x, s')"
  obtains h A3 where
    "intra_nccl_comm (self s) = Some h"
    and "s' = s\<lparr>self := (self s)\<lparr>gpu_buffer_a := A3\<rparr>,
               trace := trace s @
                 [Bcast h (take (n * 4) (gpu_buffer_a (self s))) n NCCL_FLOAT 0 st]\<rparr>"
    and "n * 4 \<le> length (gpu_buffer_a (self s))"
    and "length A3 = length (gpu_buffer_a (self s))"
    and "A3 = take (n * 4) (bcast_root ev h NCCL_FLOAT n 0 (take (n * 4) (gpu_buffer_a (self s)))) @
              drop (n * 4) (gpu_buffer_a (self s))"
proof -
  from assms obtain h sent A3 where
    h: "intra_nccl_comm (self s) = Some h" and
    bc: "nccl_bcast ev h (gpu_buffer_a (self s)) n NCCL_FLOAT 0 = Inr (sent, A3)" and
    s': "s' = s\<lparr>self := (self s)\<lparr>gpu_buffer_a := A3\<rparr>,
               trace := trace s @ [Bcast h sent n NCCL_FLOAT 0 st]\<rparr>"
    by (auto simp: SingleNode_bcast_def split: option.splits sum.splits prod.splits)
  show thesis
    using nccl_bcast_InrD[OF bc] h s'
    by (intro that[where h = h and ?A3.0 = A3]) simp_all
qed

lemma SingleNode_broadcast_data_run:
  assumes run: "SingleNode_broadcast_data ev s = (Inr (), s')"
  obtains n h rest nps' where
    "sum_grad_size (sorted_namedparams (model s)) = Inr n"
    and "inter_mpi_comm (self s) = None \<longrightarrow> h = NcclComm (constructions (trace s))"
    and "inter_mpi_comm (self s) \<noteq> None \<longrightarrow> intra_nccl_comm (self s) = Some h"
    and "intra_nccl_comm (self s') = Some h"
    and "trace s' = trace s @
           (if inter_mpi_comm (self s) = None
            then [InitIntraNcclComm h (intra_rank (self s)) (intra_size (self s))] else []) @
           [Bcast h (take (n * 4) (packed (sorted_namedparams (model s)) 4 Data @ rest))
              n NCCL_FLOAT 0 NullStream]"
    and "n * 4 \<le> length (gpu_buffer_a (self s'))"
    and "gpu_buffer_a (self s') =
           take (n * 4)
             (bcast_root ev h NCCL_FLOAT n 0
                (take (n * 4) (packed (sorted_namedparams (model s)) 4 Data @ rest))) @
           drop (n * 4) (packed (sorted_namedparams (model s)) 4 Data @ rest)"
    and "unpack_params (sorted_namedparams (model s)) 4 Data 0 (gpu_buffer_a (self s')) = Inr nps'"
    and "model s' = store_params nps' (model s)"
    and "gpu_buffer_b (self s') = gpu_buffer_b (self s)"
proof -
  from run show thesis
    unfolding SingleNode_broadcast_data_def Let_def
  proof (elim bind_InrE)
    fix u0 s0 params s1 n s2 u3 s3 u4 s4 u5 s5
    assume
      st0: "SingleNode_init_comms ev s = (Inr u0, s0)" and
      st1: "(Inr (sorted_namedparams (model s0)) :: error + named_param list, s0) = (Inr params, s1)" and
      st2: "lift (sum_grad_size params) s1 = (Inr n, s2)" and
      st3: "with_buffer gpu_buffer_a gpu_buffer_a_update (assign ev (n * 4)) s2 = (Inr u3, s3)" and
      st4: "with_buffer gpu_buffer_a gpu_buffer_a_update (pack_params params 4 Data 0) s3 = (Inr u4, s4)" and
      st5: "SingleNode_bcast ev n NullStream s4 = (Inr u5, s5)" and
      st6: "unpack_into_model gpu_buffer_a params 4 Data s5 = (Inr (), s')"
    from st0 obtain h where
      h1: "inter_mpi_comm (self s) = None \<longrightarrow> h = NcclComm (constructions (trace s)) \<and> nccl_available ev" and
      h2: "inter_mpi_comm (self s) \<noteq> None \<longrightarrow> intra_nccl_comm (self s) = Some h" and
      s0: "s0 = s\<lparr>self := (self s)\<lparr>intra_nccl_comm := Some h\<rparr>,
               trace := trace s @
                 (if inter_mpi_comm (self s) = None
                  then [InitIntraNcclComm h (intra_rank (self s)) (intra_size (self s))]
                  else [])\<rparr>"
      by (rule SingleNode_init_comms_InrE)
    from st1 have params: "params = sorted_namedparams (model s)" and s1: "s1 = s0"
      by (simp_all add: s0)
    from st2 have n: "sum_grad_size params = Inr n" and s2: "s2 = s1"
      by (auto dest!: lift_InrD)
    from st3 obtain A1 where
      s3: "s3 = s2\<lparr>self := (self s2)\<lparr>gpu_buffer_a := A1\<rparr>\<rparr>"
      by (elim with_buffer_InrE) blast
    from st4 obtain A2 where
      pk: "pack_params params 4 Data 0 (gpu_buffer_a (self s3)) = Inr A2" and
      s4: "s4 = s3\<lparr>self := (self s3)\<lparr>gpu_buffer_a := A2\<rparr>\<rparr>"
      by (elim with_buffer_InrE) blast
    let ?p = "packed params 4 Data"
    from pack_params_Inr[OF pk] have A2: "A2 = ?p @ drop (length ?p) (gpu_buffer_a (self s3))"
      by simp
    from st5 obtain h' A3 where
      h': "intra_nccl_comm (self s4) = Some h'" and
      s5: "s5 = s4\<lparr>self := (self s4)\<lparr>gpu_buffer_a := A3\<rparr>,
               trace := trace s4 @
                 [Bcast h' (take (n * 4) (gpu_buffer_a (self s4))) n NCCL_FLOAT 0 NullStream]\<rparr>" and
      b: "n * 4 \<le> length (gpu_buffer_a (self s4))" and
      lenA3': "length A3 = length (gpu_buffer_a (self s4))" and
      A3: "A3 = take (n * 4) (bcast_root ev h' NCCL_FLOAT n 0 (take (n * 4) (gpu_buffer_a (self s4)))) @
              drop (n * 4) (gpu_buffer_a (self s4))"
      by (rule SingleNode_bcast_InrE)
    from h' have hh: "h' = h"
      by (simp add: s4 s3 s2 s1 s0)
    from st6 obtain nps' where
      up: "unpack_params params 4 Data 0 (gpu_buffer_a (self s5)) = Inr nps'" and
      s': "s' = s5\<lparr>model := store_params nps' (model s5)\<rparr>"
      by (elim unpack_into_model_InrE) blast
    note chain = s5 s4 s3 s2 s1 s0
    have A4: "gpu_buffer_a (self s4) = A2" by (simp add: chain)
    have lenA3: "length A3 = length A2"
      using lenA3' unfolding A4 .
    show thesis
    proof (rule that[where n = n and h = h and nps' = nps'
          and rest = "drop (length ?p) (gpu_buffer_a (self s3))"])
      show "sum_grad_size (sorted_namedparams (model s)) = Inr n" using n params by simp
      show "inter_mpi_comm (self s) = None \<longrightarrow> h = NcclComm (constructions (trace s))"
        using h1 by simp
      show "inter_mpi_comm (self s) \<noteq> None \<longrightarrow> intra_nccl_comm (self s) = Some h" by (rule h2)
      show "intra_nccl_comm (self s') = Some h" by (simp add: s' chain)
      show "trace s' = trace s @
           (if inter_mpi_comm (self s) = None
            then [InitIntraNcclComm h (intra_rank (self s)) (intra_size (self s))] else []) @
           [Bcast h (take (n * 4) (packed (sorted_namedparams (model s)) 4 Data @
                       drop (length ?p) (gpu_buffer_a (self s3))))
              n NCCL_FLOAT 0 NullStream]"
        using A2 A4 by (simp add: s' s5 hh params[symmetric]) (simp add: chain)
      show "n * 4 \<le> length (gpu_buffer_a (self s'))"
        using b lenA3 A4 by (simp add: s' s5)
      show "gpu_buffer_a (self s') =
           take (n * 4)
             (bcast_root ev h NCCL_FLOAT n 0
                (take (n * 4) (packed (sorted_namedparams (model s)) 4 Data @
                   drop (length ?p) (gpu_buffer_a (self s3))))) @
           drop (n * 4) (packed (sorted_namedparams (model s)) 4 Data @
                   drop (length ?p) (gpu_buffer_a (self s3)))"
        using A3 A2 A4 by (simp add: s' s5 hh params[symmetric])
      show "unpack_params (sorted_namedparams (model s)) 4 Data 0 (gpu_buffer_a (self s')) = Inr nps'"
        using up by (simp add: s' params)
      show "model s' = store_params nps' (model s)" by (simp add: s' chain)
      show "gpu_buffer_b (self s') = gpu_buffer_b (self s)" by (simp add: s' chain)
    qed
  qed
qed

lemma SingleNode_broadcast_data_no_grad:
  assumes "np \<in> set (model s)" and "grad (snd np) = None"
  shows "SingleNode_broadcast_data ev s =
           (case SingleNode_init_comms ev s of
              (Inl e, s1) \<Rightarrow> (Inl e, s1)
            | (Inr u, s1) \<Rightarrow> (Inl AttributeError, s1))"
proof -
  have frame: "model (snd (SingleNode_init_comms ev s)) = model s"
    by (simp add: SingleNode_init_comms_def Let_def)
  have "sum_grad_size (sorted_namedparams (model s)) = Inl AttributeError"
    using assms by (intro sum_grad_size_Inl[of np]) simp_all
  with frame show ?thesis
    by (auto simp: SingleNode_broadcast_data_def bind_def lift_def Let_def
        split: prod.splits sum.splits)
qed

subsection \<open>What a call leaves alone\<close>

lemma keepsD: "keeps F p \<Longrightarrow> F (snd (p s)) = F s"
  by (simp add: keeps_def)

lemma keeps_bind: "keeps F m \<Longrightarrow> (\<And>x. keeps F (f x)) \<Longrightarrow> keeps F (bind m f)"
  unfolding keeps_def bind_def
  by (auto split: prod.splits sum.splits) (metis snd_conv)+

lemma keeps_query: "keeps F (\<lambda>s. (r s, s))"
  by (simp add: keeps_def)

lemma keeps_lift: "keeps F (lift r)"
  by (simp add: keeps_def lift_def)

lemma keeps_ret: "keeps F (ret x)"
  by (simp add: keeps_def ret_def)

lemma keeps_if: "keeps F p \<Longrightarrow> keeps F q \<Longrightarrow> keeps F (if b then p else q)"
  by simp

lemma keeps_read_buffer: "keeps F (read_buffer g f)"
  by (simp add: keeps_def read_buffer_def)

lemma keeps_with_buffer:
  "(\<And>s m. F (s\<lparr>self := u (\<lambda>_. m) (self s)\<rparr>) = F s) \<Longrightarrow> keeps F (with_buffer g u f)"
  by (auto simp: keeps_def with_buffer_def split: sum.splits)

lemma keeps_unpack_into_model:
  "(\<And>s m. F (s\<lparr>model := m\<rparr>) = F s) \<Longrightarrow> keeps F (unpack_into_model g params isz a)"
  by (auto simp: keeps_def unpack_into_model_def split: sum.splits)

lemma keeps_emit:
  "(\<And>s. F (s\<lparr>trace := trace s @ [e]\<rparr>) = F s) \<Longrightarrow> keeps F (emit e)"
  by (simp add: keeps_def emit_def)

lemma snd_bind_keeps:
  assumes "\<And>x. keeps F (f x)"
  shows "F (snd (bind m f s)) = F (snd (m s))"
proof (cases "m s")
  case (Pair r s1)
  then show ?thesis
    using assms by (cases r) (simp_all add: bind_def keeps_def)
qed

lemma constructions_append [simp]:
  "constructions (tr @ es) = constructions tr + constructions es"
  by (simp add: constructions_def)

lemma constructions_single [simp]:
  "constructions [e] = (if is_construction e then 1 else 0)"
  by (simp add: constructions_def)

lemma keeps_PureNccl_allReduce: "keeps pure_handle (PureNccl_allReduce ev n w st)"
  by (auto simp: keeps_def PureNccl_allReduce_def pure_handle_def
      split: option.splits sum.splits prod.splits)

lemma keeps_SingleNode_allReduce: "keeps single_handle (SingleNode_allReduce ev n st)"
  by (auto simp: keeps_def SingleNode_allReduce_def single_handle_def
      split: option.splits sum.splits prod.splits)

lemma keeps_SingleNode_bcast: "keeps single_handle (SingleNode_bcast ev n st)"
  by (auto simp: keeps_def SingleNode_bcast_def single_handle_def
      split: option.splits sum.splits prod.splits)

lemmas keeps_intros =
  keeps_bind keeps_query keeps_lift keeps_ret keeps_if keeps_read_buffer keeps_with_buffer
  keeps_unpack_into_model keeps_emit keeps_PureNccl_allReduce keeps_SingleNode_allReduce
  keeps_SingleNode_bcast

lemma PureNccl_allreduce_grad_handle:
  "pure_handle (snd (PureNccl_allreduce_grad ev stream s)) =
   pure_handle (snd (PureNccl_init_comms ev s))"
  unfolding PureNccl_allreduce_grad_def Let_def PureNccl_assign_def
    PureNccl_pack_params_to_buffer_def PureNccl_average_def
    PureNccl_unpack_params_from_buffer_def
  by (rule snd_bind_keeps) (intro keeps_intros; simp add: pure_handle_def)

lemma SingleNode_allreduce_grad_handle:
  "single_handle (snd (SingleNode_allreduce_grad ev s)) =
   single_handle (snd (SingleNode_init_comms ev s))"
  unfolding SingleNode_allreduce_grad_def Let_def SingleNode_average_def
  by (rule snd_bind_keeps) (intro keeps_intros; simp add: single_handle_def)

lemma SingleNode_broadcast_data_handle:
  "single_handle (snd (SingleNode_broadcast_data ev s)) =
   single_handle (snd (SingleNode_init_comms ev s))"
  unfolding SingleNode_broadcast_data_def Let_def
  by (rule snd_bind_keeps) (intro keeps_intros; simp add: single_handle_def)

lemma PureNccl_init_comms_handle:
  "pure_handle (snd (PureNccl_init_comms ev s)) =
     (if nccl_comm (self s) = None \<and> nccl_available ev
      then (Some (NcclComm (constructions (trace s))), Suc (constructions (trace s)))
      else pure_handle s)"
  by (simp add: PureNccl_init_comms_def pure_handle_def Let_def)

lemma SingleNode_init_comms_handle:
  "single_handle (snd (SingleNode_init_comms ev s)) =
     (if inter_mpi_comm (self s) = None \<and> nccl_available ev
      then (Some (NcclComm (constructions (trace s))), Suc (constructions (trace s)))
      else single_handle s)"
  by (simp add: SingleNode_init_comms_def single_handle_def Let_def)

lemma SingleNode_init_comms_base_set:
  "inter_mpi_comm (self s) \<noteq> None \<Longrightarrow> intra_nccl_comm (self s) = None \<Longrightarrow>
   SingleNode_init_comms ev s = (Inl AssertionError, s)"
  by (simp add: SingleNode_init_comms_def)

lemma PureNcclCommunicator_init_no_handle:
  "PureNcclCommunicator_init ev base_inter mpi dt = Inr c \<Longrightarrow> nccl_comm c = None"
  by (cases "my_ranks mpi")
     (auto simp: PureNcclCommunicator_init_def PureNccl_init_ranks_def CommunicatorBase_init_def
        Let_def split: if_splits option.splits)

lemma SingleNodeCommunicator_init_no_handle:
  "SingleNodeCommunicator_init base_inter mpi = Inr c \<Longrightarrow> intra_nccl_comm c = None"
  by (cases "my_ranks mpi")
     (auto simp: SingleNodeCommunicator_init_def CommunicatorBase_init_def Let_def
        split: if_splits)

text \<open>
  Whatever its outcome, a call of \<^verbatim>\<open>allreduce_grad\<close> issues at most one collective: the
  sum of the packed gradients, as they are.
\<close>

lemma keepsE: "keeps F p \<Longrightarrow> p s = (r, s') \<Longrightarrow> F s' = F s"
  by (metis keepsD snd_conv)

lemma bind_cases:
  assumes "bind m f s = (r, s'')"
  obtains (raised) e where "m s = (Inl e, s'')" and "r = Inl e"
        | (returned) x s' where "m s = (Inr x, s')" and "f x s' = (r, s'')"
  using assms by (auto simp: bind_def split: prod.splits sum.splits)

lemma quiet_PureNccl_init_comms: "keeps collectives (PureNccl_init_comms ev)"
  by (simp add: keeps_def PureNccl_init_comms_def collectives_def Let_def)

lemma quiet_PureNccl_assign: "keeps collectives (PureNccl_assign ev g w n)"
  unfolding PureNccl_assign_def Let_def
  by (intro keeps_intros; simp add: collectives_def)

lemma quiet_PureNccl_pack: "keeps collectives (PureNccl_pack_params_to_buffer ev params g w n)"
  unfolding PureNccl_pack_params_to_buffer_def Let_def
  by (intro keeps_intros; simp add: collectives_def)

lemma quiet_sync: "keeps collectives (if b then emit (Synchronize st) else ret ())"
  by (intro keeps_intros; simp add: collectives_def)

lemma quiet_PureNccl_average: "keeps collectives (PureNccl_average ev n w)"
  unfolding PureNccl_average_def Let_def
  by (intro keeps_intros; simp add: collectives_def)

lemma quiet_PureNccl_unpack:
  "keeps collectives (PureNccl_unpack_params_from_buffer ev params g w n)"
  unfolding PureNccl_unpack_params_from_buffer_def Let_def
  by (intro keeps_intros; simp add: collectives_def)

lemma PureNccl_allReduce_Inl: "PureNccl_allReduce ev n w st s = (Inl e, s') \<Longrightarrow> s' = s"
  by (auto simp: PureNccl_allReduce_def split: option.splits sum.splits prod.splits)

lemma PureNccl_allreduce_grad_reach:
  assumes
    st0: "PureNccl_init_comms ev s = (Inr u0, s0)" and
    st1: "(Inr (extract_params (model s0)) :: error + named_param list, s0) = (Inr params, s1)" and
    st2: "lift (case params of [] \<Rightarrow> Inl IndexError | np # _ \<Rightarrow> get_param_grad_dtype (snd np)) s1
            = (Inr gd, s2)" and
    st3: "(Inr (case allreduce_grad_dtype (self s2) of None \<Rightarrow> gd | Some d \<Rightarrow> d) :: error + dtype, s2)
            = (Inr w, s3)" and
    st4: "lift (sum_grad_size params) s3 = (Inr n, s4)" and
    st5: "PureNccl_assign ev gd w n s4 = (Inr u5, s5)" and
    st6: "PureNccl_pack_params_to_buffer ev params gd w n s5 = (Inr u6, s6)" and
    st7: "(if st \<noteq> NullStream then emit (Synchronize NullStream) else ret ()) s6 = (Inr u7, s7)" and
    st8: "PureNccl_allReduce ev n w st s7 = (Inr u8, s8)"
  shows "\<exists>np nps g h t.
     extract_params (model s) = np # nps \<and> params = np # nps \<and> grad (snd np) = Some g \<and>
     gd = dtype g \<and>
     w = (case allreduce_grad_dtype (self s) of None \<Rightarrow> dtype g | Some d \<Rightarrow> d) \<and>
     sum_grad_size (np # nps) = Inr n \<and> get_nccl_type_id w = Inr t \<and>
     collectives s8 = collectives s @
       [AllReduce h
          (if dtype g = w then packed (np # nps) (itemsize w) Grad
           else take (itemsize w * n)
                  (astype ev (dtype g) w (packed (np # nps) (itemsize (dtype g)) Grad)))
          n t NCCL_SUM st]"
proof -
  from st0 have c0: "collectives s0 = collectives s"
    and d0: "allreduce_grad_dtype (self s0) = allreduce_grad_dtype (self s)"
    and m0: "model s0 = model s"
    by (auto simp: PureNccl_init_comms_def collectives_def Let_def split: if_splits)
  from st1 have params: "params = extract_params (model s)" and s1: "s1 = s0"
    by (simp_all add: m0)
  from st2 obtain np nps g where
    pcons: "params = np # nps" and g: "grad (snd np) = Some g" and gd: "gd = dtype g" and s2: "s2 = s1"
    by (auto dest!: lift_InrD simp: get_param_grad_dtype_def split: list.splits option.splits)
  from st3 have w: "w = (case allreduce_grad_dtype (self s) of None \<Rightarrow> dtype g | Some d \<Rightarrow> d)"
    and s3: "s3 = s2"
    using gd by (auto simp: s2 s1 d0)
  from st4 have n: "sum_grad_size params = Inr n" and s4: "s4 = s3"
    by (auto dest!: lift_InrD)
  have c5: "collectives s5 = collectives s4"
    using st5 by (rule keepsE[OF quiet_PureNccl_assign])
  from st6 n obtain A2 T2 where
    s6: "s6 = s5\<lparr>self := (self s5)\<lparr>gpu_allreduce_buffer_a := A2, gpu_tmp_buffer := T2\<rparr>\<rparr>" and
    A2: "take (itemsize w * n) A2 =
           (if gd = w then packed params (itemsize w) Grad
            else take (itemsize w * n) (astype ev gd w (packed params (itemsize gd) Grad)))"
    by (elim PureNccl_pack_params_to_buffer_InrE) blast
  from st7 have s7: "s7 = s6\<lparr>trace := trace s6 @ (if st \<noteq> NullStream then [Synchronize NullStream] else [])\<rparr>"
    by (auto simp: emit_def ret_def split: if_splits)
  from st8 obtain h t B2 where
    t: "get_nccl_type_id w = Inr t" and
    s8: "s8 = s7\<lparr>self := (self s7)\<lparr>gpu_allreduce_buffer_b := B2\<rparr>,
               trace := trace s7 @
                 [AllReduce h (take (itemsize w * n) (gpu_allreduce_buffer_a (self s7))) n t NCCL_SUM st]\<rparr>"
    by (elim PureNccl_allReduce_InrE) blast
  have A7: "gpu_allreduce_buffer_a (self s7) = A2"
    by (simp add: s7 s6)
  have "collectives s8 = collectives s @
       [AllReduce h
          (if dtype g = w then packed (np # nps) (itemsize w) Grad
           else take (itemsize w * n)
                  (astype ev (dtype g) w (packed (np # nps) (itemsize (dtype g)) Grad)))
          n t NCCL_SUM st]"
    using c0 c5 A2 unfolding s8 A7
    by (simp add: collectives_def s7 s6 s4 s3 s2 s1 gd pcons)
  moreover have "extract_params (model s) = np # nps" using params pcons by simp
  moreover have "sum_grad_size (np # nps) = Inr n" using n pcons by simp
  moreover note pcons g gd w t
  ultimately show ?thesis
    apply -
    apply (rule exI[of _ np], rule exI[of _ nps], rule exI[of _ g], rule exI[of _ h],
        rule exI[of _ t])
    apply (intro conjI; assumption)
    done
qed

lemma PureNccl_allreduce_grad_collectives:
  assumes run: "PureNccl_allreduce_grad ev stream s = (r, s')"
  shows "collectives s' = collectives s \<or>
     (\<exists>np nps g w n h t.
        extract_params (model s) = np # nps \<and> grad (snd np) = Some g \<and>
        w = (case allreduce_grad_dtype (self s) of None \<Rightarrow> dtype g | Some d \<Rightarrow> d) \<and>
        sum_grad_size (np # nps) = Inr n \<and> get_nccl_type_id w = Inr t \<and>
        collectives s' = collectives s @
          [AllReduce h
             (if dtype g = w then packed (np # nps) (itemsize w) Grad
              else take (itemsize w * n)
                     (astype ev (dtype g) w (packed (np # nps) (itemsize (dtype g)) Grad)))
             n t NCCL_SUM (case stream of None \<Rightarrow> NullStream | Some x \<Rightarrow> x)])"
  using run unfolding PureNccl_allreduce_grad_def Let_def
proof (elim bind_cases, goal_cases)
  case 1
  then show ?case
    by (auto dest!: keepsE[OF quiet_PureNccl_init_comms])
next
  case 2
  then show ?case
    by (auto dest!: keepsE[OF quiet_PureNccl_init_comms])
next
  case 3
  then show ?case
    by (auto dest!: keepsE[OF quiet_PureNccl_init_comms] simp: lift_def)
next
  case 4
  then show ?case
    by (auto dest!: keepsE[OF quiet_PureNccl_init_comms] simp: lift_def)
next
  case 5
  then show ?case
    by (auto dest!: keepsE[OF quiet_PureNccl_init_comms] simp: lift_def)
next
  case 6
  then show ?case
    by (auto dest!: keepsE[OF quiet_PureNccl_init_comms] keepsE[OF quiet_PureNccl_assign]
        simp: lift_def)
next
  case 7
  then show ?case
    by (auto dest!: keepsE[OF quiet_PureNccl_init_comms] keepsE[OF quiet_PureNccl_assign]
        keepsE[OF quiet_PureNccl_pack] simp: lift_def)
next
  case 8
  then show ?case
    by (auto dest!: keepsE[OF quiet_PureNccl_init_comms] keepsE[OF quiet_PureNccl_assign]
        keepsE[OF quiet_PureNccl_pack] keepsE[OF quiet_sync] simp: lift_def)
next
  case 9
  then show ?case
    by (auto dest!: keepsE[OF quiet_PureNccl_init_comms] keepsE[OF quiet_PureNccl_assign]
        keepsE[OF quiet_PureNccl_pack] keepsE[OF quiet_sync] PureNccl_allReduce_Inl
        simp: lift_def)
next
  case 10
  from PureNccl_allreduce_grad_reach[OF 10(1-9)] keepsE[OF quiet_sync 10(10)]
  show ?case by (simp only:) blast
next
  case 11
  from PureNccl_allreduce_grad_reach[OF 11(1-9)] keepsE[OF quiet_sync 11(10)]
    keepsE[OF quiet_PureNccl_average 11(11)]
  show ?case by (simp only:) blast
next
  case 12
  from PureNccl_allreduce_grad_reach[OF 12(1-9)] keepsE[OF quiet_sync 12(10)]
    keepsE[OF quiet_PureNccl_average 12(11)] keepsE[OF quiet_PureNccl_unpack 12(12)]
  show ?case by (simp only:) blast
qed

lemma quiet_SingleNode_init_comms: "keeps collectives (SingleNode_init_comms ev)"
  by (simp add: keeps_def SingleNode_init_comms_def collectives_def Let_def)

lemma quiet_with_buffer:
  "(\<And>s m. collectives (s\<lparr>self := u (\<lambda>_. m) (self s)\<rparr>) = collectives s) \<Longrightarrow>
   keeps collectives (with_buffer g u f)"
  by (rule keeps_with_buffer)

lemma quiet_SingleNode_average: "keeps collectives (SingleNode_average ev n)"
  unfolding SingleNode_average_def
  by (intro keeps_intros; simp add: collectives_def)

lemma quiet_unpack_into_model: "keeps collectives (unpack_into_model g params isz a)"
  by (intro keeps_intros; simp add: collectives_def)

lemma quiet_gpu_buffer_a:
  "keeps collectives (with_buffer gpu_buffer_a gpu_buffer_a_update f)"
  by (intro keeps_intros; simp add: collectives_def)

lemma quiet_gpu_buffer_b:
  "keeps collectives (with_buffer gpu_buffer_b gpu_buffer_b_update f)"
  by (intro keeps_intros; simp add: collectives_def)

lemma SingleNode_allReduce_Inl: "SingleNode_allReduce ev n st s = (Inl e, s') \<Longrightarrow> s' = s"
  by (auto simp: SingleNode_allReduce_def split: option.splits sum.splits prod.splits)

lemma SingleNode_allreduce_grad_reach:
  assumes
    st0: "SingleNode_init_comms ev s = (Inr u0, s0)" and
    st1: "(Inr (extract_params (model s0)) :: error + named_param list, s0) = (Inr params, s1)" and
    st2: "lift (sum_grad_size params) s1 = (Inr n, s2)" and
    st3: "with_buffer gpu_buffer_a gpu_buffer_a_update (assign ev (n * 4)) s2 = (Inr u3, s3)" and
    st4: "with_buffer gpu_buffer_b gpu_buffer_b_update (assign ev (n * 4)) s3 = (Inr u4, s4)" and
    st5: "with_buffer gpu_buffer_a gpu_buffer_a_update (pack_params params 4 Grad 0) s4 = (Inr u5, s5)" and
    st6: "SingleNode_allReduce ev n NullStream s5 = (Inr u6, s6)"
  shows "\<exists>h.
     params = extract_params (model s) \<and> sum_grad_size (extract_params (model s)) = Inr n \<and>
     collectives s6 = collectives s @
       [AllReduce h (packed (extract_params (model s)) 4 Grad) n NCCL_FLOAT NCCL_SUM NullStream]"
proof -
  from st0 have c0: "collectives s0 = collectives s" and m0: "model s0 = model s"
    by (auto simp: SingleNode_init_comms_def collectives_def Let_def split: if_splits)
  from st1 have params: "params = extract_params (model s)" and s1: "s1 = s0"
    by (simp_all add: m0)
  from st2 have n: "sum_grad_size params = Inr n" and s2: "s2 = s1"
    by (auto dest!: lift_InrD)
  have c3: "collectives s3 = collectives s2"
    using st3 by (rule keepsE[OF quiet_gpu_buffer_a])
  have c4: "collectives s4 = collectives s3"
    using st4 by (rule keepsE[OF quiet_gpu_buffer_b])
  from st5 obtain A2 where
    pk: "pack_params params 4 Grad 0 (gpu_buffer_a (self s4)) = Inr A2" and
    s5: "s5 = s4\<lparr>self := (self s4)\<lparr>gpu_buffer_a := A2\<rparr>\<rparr>"
    by (elim with_buffer_InrE) blast
  let ?p = "packed params 4 Grad"
  from pack_params_views[OF pk] have views:
    "\<forall>np \<in> set params. \<exists>v. getattr (snd np) Grad = Some v \<and> nelems v * 4 \<le> length (raw v)" .
  from packed_length_grad[OF n views] have len: "length ?p = n * 4" .
  from pack_params_Inr[OF pk] have A2: "A2 = ?p @ drop (length ?p) (gpu_buffer_a (self s4))"
    by simp
  have sentA: "take (n * 4) A2 = ?p" using len by (simp add: A2)
  from st6 obtain h B2 where
    s6: "s6 = s5\<lparr>self := (self s5)\<lparr>gpu_buffer_b := B2\<rparr>,
               trace := trace s5 @
                 [AllReduce h (take (n * 4) (gpu_buffer_a (self s5))) n NCCL_FLOAT NCCL_SUM NullStream]\<rparr>"
    by (elim SingleNode_allReduce_InrE) blast
  have "collectives s6 = collectives s @ [AllReduce h ?p n NCCL_FLOAT NCCL_SUM NullStream]"
    using c0 c3 c4 sentA unfolding s6
    by (simp add: collectives_def s5 s2 s1)
  with params n show ?thesis
    by auto
qed

lemma SingleNode_allreduce_grad_collectives:
  assumes run: "SingleNode_allreduce_grad ev s = (r, s')"
  shows "collectives s' = collectives s \<or>
     (\<exists>n h.
        sum_grad_size (extract_params (model s)) = Inr n \<and>
        collectives s' = collectives s @
          [AllReduce h (packed (extract_params (model s)) 4 Grad) n NCCL_FLOAT NCCL_SUM NullStream])"
  using run unfolding SingleNode_allreduce_grad_def Let_def
proof (elim bind_cases, goal_cases)
  case 1
  then show ?case
    by (auto dest!: keepsE[OF quiet_SingleNode_init_comms])
next
  case 2
  then show ?case
    by (auto dest!: keepsE[OF quiet_SingleNode_init_comms])
next
  case 3
  then show ?case
    by (auto dest!: keepsE[OF quiet_SingleNode_init_comms] simp: lift_def)
next
  case 4
  then show ?case
    by (auto dest!: keepsE[OF quiet_SingleNode_init_comms] keepsE[OF quiet_gpu_buffer_a]
        simp: lift_def)
next
  case 5
  then show ?case
    by (auto dest!: keepsE[OF quiet_SingleNode_init_comms] keepsE[OF quiet_gpu_buffer_a]
        keepsE[OF quiet_gpu_buffer_b] simp: lift_def)
next
  case 6
  then show ?case
    by (auto dest!: keepsE[OF quiet_SingleNode_init_comms] keepsE[OF quiet_gpu_buffer_a]
        keepsE[OF quiet_gpu_buffer_b] simp: lift_def)
next
  case 7
  then show ?case
    by (auto dest!: keepsE[OF quiet_SingleNode_init_comms] keepsE[OF quiet_gpu_buffer_a]
        keepsE[OF quiet_gpu_buffer_b] SingleNode_allReduce_Inl simp: lift_def)
next
  case 8
  from SingleNode_allreduce_grad_reach[OF 8(1-7)] keepsE[OF quiet_SingleNode_average 8(8)]
  show ?case by (simp only:) blast
next
  case 9
  from SingleNode_allreduce_grad_reach[OF 9(1-7)] keepsE[OF quiet_SingleNode_average 9(8)]
    keepsE[OF quiet_unpack_into_model 9(9)]
  show ?case by (simp only:) blast
qed

subsection \<open>A model without gradients\<close>

lemma PureNccl_allreduce_grad_no_params:
  "extract_params (model s) = [] \<Longrightarrow>
   fst (PureNccl_allreduce_grad ev stream s) =
     Inl (if nccl_comm (self s) = None \<and> \<not> nccl_available ev then RuntimeError else IndexError) \<and>
   model (snd (PureNccl_allreduce_grad ev stream s)) = model s"
  by (simp add: PureNccl_allreduce_grad_def PureNccl_init_comms_def bind_def lift_def Let_def)

lemma store_params_Nil [simp]: "store_params [] m = m"
  by (simp add: store_params_def)

lemma SingleNode_allreduce_grad_no_params:
  assumes "extract_params (model s) = []" and "inter_mpi_comm (self s) = None"
    and "nccl_available ev" and "0 < comm_size (mpi_comm (self s))"
  shows "SingleNode_allreduce_grad ev s =
     (Inr (), s\<lparr>self := (self s)\<lparr>intra_nccl_comm := Some (NcclComm (constructions (trace s)))\<rparr>,
        trace := trace s @
          [InitIntraNcclComm (NcclComm (constructions (trace s))) (intra_rank (self s)) (intra_size (self s)),
           AllReduce (NcclComm (constructions (trace s))) [] 0 NCCL_FLOAT NCCL_SUM NullStream]\<rparr>)"
  using assms
  by (simp add: SingleNode_allreduce_grad_def SingleNode_init_comms_def bind_def lift_def Let_def
      with_buffer_def assign_def SingleNode_allReduce_def nccl_allReduce_def from_device_def
      SingleNode_average_def read_buffer_def array_def times_inv_size_def comm_size_of_def
      unpack_into_model_def)

lemma extract_params_no_grad: "extract_params model_no_grad = []"
  by (simp add: extract_params_def sorted_namedparams_def model_no_grad_def)

text \<open>
  C1. The claim is that \<^verbatim>\<open>allreduce_grad\<close> on a model with no gradient is a no-op that
  does not raise, for both communicators. The pure NCCL communicator reads
  \<^verbatim>\<open>params[0]\<close> before anything else and raises \<^verbatim>\<open>IndexError\<close> on the empty model and
  on a model whose only parameter has no gradient; the single-node communicator returns on
  the same model and leaves it as it was.
\<close>

theorem C1_pure_nccl_raises_on_no_gradients:
  "fst (PureNccl_allreduce_grad env_single None (pure_nccl_start None [])) = Inl IndexError \<and>
   fst (PureNccl_allreduce_grad env_single None (pure_nccl_start None model_no_grad)) = Inl IndexError \<and>
   fst (SingleNode_allreduce_grad env_single (single_node_start model_no_grad)) = Inr () \<and>
   model (snd (SingleNode_allreduce_grad env_single (single_node_start model_no_grad))) = model_no_grad"
proof -
  have e: "extract_params (model (pure_nccl_start None [])) = []"
    by (simp add: pure_nccl_start_def extract_params_def sorted_namedparams_def)
  have n: "extract_params (model (pure_nccl_start None model_no_grad)) = []"
    by (simp add: pure_nccl_start_def extract_params_no_grad)
  have sn: "extract_params (model (single_node_start model_no_grad)) = []"
    by (simp add: single_node_start_def extract_params_no_grad)
  show ?thesis
    using PureNccl_allreduce_grad_no_params[OF e, of env_single None]
      PureNccl_allreduce_grad_no_params[OF n, of env_single None]
      SingleNode_allreduce_grad_no_params[OF sn, of env_single]
    by (simp add: env_single_def single_node_start_def single_node_fresh_def mpi_single_def)
qed

lemma run_collapse: "fst (p s) = Inr () \<Longrightarrow> p s = (Inr (), snd (p s))"
  by (metis prod.collapse)

subsection \<open>Lazy construction of the collective handle\<close>

text \<open>
  C2, as amended. Neither constructor constructs the collective handle. In the pure NCCL
  communicator the handle is constructed once, by the first call of \<^verbatim>\<open>allreduce_grad\<close> made
  while the library is available, whether or not that call goes on to raise;
  \<^verbatim>\<open>broadcast_data\<close> goes through MPI and neither uses nor constructs it; and once the
  handle exists \<^verbatim>\<open>_init_comms\<close> is a no-op and \<^verbatim>\<open>allreduce_grad\<close> reuses the handle. In
  the single-node communicator, whose base class leaves \<^verbatim>\<open>inter_mpi_comm\<close> unset, the
  handle is constructed by the first call of \<^verbatim>\<open>broadcast_data\<close> or \<^verbatim>\<open>allreduce_grad\<close>
  made while the library is available.
\<close>

theorem C2_lazy_handle_construction:
  "(PureNcclCommunicator_init ev base_inter mpi dt = Inr c \<longrightarrow> nccl_comm c = None) \<and>
   (SingleNodeCommunicator_init base_inter mpi = Inr c' \<longrightarrow> intra_nccl_comm c' = None) \<and>
   (nccl_comm (self s) = None \<and> nccl_available ev \<longrightarrow>
      nccl_comm (self (snd (PureNccl_allreduce_grad ev stream s))) =
        Some (NcclComm (constructions (trace s))) \<and>
      constructions (trace (snd (PureNccl_allreduce_grad ev stream s))) =
        Suc (constructions (trace s))) \<and>
   (nccl_comm (self s) \<noteq> None \<longrightarrow>
      PureNccl_init_comms ev s = (Inr (), s) \<and>
      nccl_comm (self (snd (PureNccl_allreduce_grad ev stream s))) = nccl_comm (self s) \<and>
      constructions (trace (snd (PureNccl_allreduce_grad ev stream s))) =
        constructions (trace s)) \<and>
   (nccl_comm (self (snd (PureNccl_broadcast_data ev s))) = nccl_comm (self s) \<and>
    constructions (trace (snd (PureNccl_broadcast_data ev s))) = constructions (trace s)) \<and>
   (intra_nccl_comm (self t) = None \<and> inter_mpi_comm (self t) = None \<and> nccl_available ev \<longrightarrow>
      intra_nccl_comm (self (snd (SingleNode_broadcast_data ev t))) =
        Some (NcclComm (constructions (trace t))) \<and>
      constructions (trace (snd (SingleNode_broadcast_data ev t))) =
        Suc (constructions (trace t)) \<and>
      intra_nccl_comm (self (snd (SingleNode_allreduce_grad ev t))) =
        Some (NcclComm (constructions (trace t))) \<and>
      constructions (trace (snd (SingleNode_allreduce_grad ev t))) =
        Suc (constructions (trace t)))"
proof -
  have pa: "pure_handle (snd (PureNccl_allreduce_grad ev stream s)) =
     (if nccl_comm (self s) = None \<and> nccl_available ev
      then (Some (NcclComm (constructions (trace s))), Suc (constructions (trace s)))
      else pure_handle s)"
    by (simp only: PureNccl_allreduce_grad_handle PureNccl_init_comms_handle)
  have sb: "single_handle (snd (SingleNode_broadcast_data ev t)) =
     (if inter_mpi_comm (self t) = None \<and> nccl_available ev
      then (Some (NcclComm (constructions (trace t))), Suc (constructions (trace t)))
      else single_handle t)"
    by (simp only: SingleNode_broadcast_data_handle SingleNode_init_comms_handle)
  have sa: "single_handle (snd (SingleNode_allreduce_grad ev t)) =
     (if inter_mpi_comm (self t) = None \<and> nccl_available ev
      then (Some (NcclComm (constructions (trace t))), Suc (constructions (trace t)))
      else single_handle t)"
    by (simp only: SingleNode_allreduce_grad_handle SingleNode_init_comms_handle)
  have noop: "nccl_comm (self s) \<noteq> None \<longrightarrow> PureNccl_init_comms ev s = (Inr (), s)"
    by (simp add: PureNccl_init_comms_def)
  have bc: "nccl_comm (self (snd (PureNccl_broadcast_data ev s))) = nccl_comm (self s) \<and>
    constructions (trace (snd (PureNccl_broadcast_data ev s))) = constructions (trace s)"
    by (simp add: PureNccl_broadcast_data_def)
  show ?thesis
    using PureNcclCommunicator_init_no_handle[of ev base_inter mpi dt c]
      SingleNodeCommunicator_init_no_handle[of base_inter mpi c'] pa sb sa noop bc
    by (auto simp: pure_handle_def single_handle_def split: if_splits)
qed

text \<open>
  The claim as stated fails twice. A first call of \<^verbatim>\<open>broadcast_data\<close> on the pure NCCL
  communicator constructs nothing. And the guard of the single-node \<^verbatim>\<open>_init_comms\<close> reads
  \<^verbatim>\<open>inter_mpi_comm\<close>, which nothing in the class assigns: a second call is no no-op, it
  constructs a second handle, and two calls of \<^verbatim>\<open>allreduce_grad\<close> construct two.
\<close>

theorem C2_lazy_handle_construction_counterexample:
  "nccl_comm (self (snd (PureNccl_broadcast_data env_single (pure_nccl_start None model_two)))) = None \<and>
   constructions (trace (snd (PureNccl_broadcast_data env_single (pure_nccl_start None model_two)))) = 0 \<and>
   intra_nccl_comm (self (snd (SingleNode_init_comms env_single (single_node_start model_two)))) =
     Some (NcclComm 0) \<and>
   SingleNode_init_comms env_single
      (snd (SingleNode_init_comms env_single (single_node_start model_two))) \<noteq>
     (Inr (), snd (SingleNode_init_comms env_single (single_node_start model_two))) \<and>
   intra_nccl_comm (self (snd (SingleNode_init_comms env_single
      (snd (SingleNode_init_comms env_single (single_node_start model_two)))))) = Some (NcclComm 1) \<and>
   constructions (trace (snd (SingleNode_allreduce_grad env_single
      (snd (SingleNode_allreduce_grad env_single (single_node_start model_two)))))) = 2"
  by (intro conjI; code_simp)

theorem C2_lazy_handle_construction_witness:
  "PureNcclCommunicator_init env_single None mpi_single None = Inr (pure_nccl_fresh None) \<and>
   nccl_comm (pure_nccl_fresh None) = None \<and>
   SingleNodeCommunicator_init None mpi_single = Inr single_node_fresh \<and>
   intra_nccl_comm single_node_fresh = None \<and>
   nccl_available env_single \<and>
   nccl_comm (self (snd (PureNccl_allreduce_grad env_single None (pure_nccl_start None model_two)))) =
     Some (NcclComm 0) \<and>
   constructions (trace (snd (PureNccl_allreduce_grad env_single None
      (pure_nccl_start None model_two)))) = 1 \<and>
   nccl_comm (self (snd (PureNccl_allreduce_grad env_single None
      (snd (PureNccl_allreduce_grad env_single None (pure_nccl_start None model_two)))))) =
     Some (NcclComm 0) \<and>
   constructions (trace (snd (PureNccl_allreduce_grad env_single None
      (snd (PureNccl_allreduce_grad env_single None (pure_nccl_start None model_two)))))) = 1 \<and>
   intra_nccl_comm (self (snd (SingleNode_broadcast_data env_single (single_node_start model_two)))) =
     Some (NcclComm 0) \<and>
   intra_nccl_comm (self (snd (SingleNode_allreduce_grad env_single (single_node_start model_two)))) =
     Some (NcclComm 0)"
proof -
  let ?s0 = "pure_nccl_start None model_two"
  let ?s1 = "snd (PureNccl_allreduce_grad env_single None ?s0)"
  let ?t0 = "single_node_start model_two"
  have av: "nccl_available env_single" by (simp add: env_single_def)
  have s0: "nccl_comm (self ?s0) = None" "constructions (trace ?s0) = 0"
    by (simp_all add: pure_nccl_start_def pure_nccl_fresh_def constructions_def)
  have t0: "intra_nccl_comm (self ?t0) = None" "inter_mpi_comm (self ?t0) = None"
    "constructions (trace ?t0) = 0"
    by (simp_all add: single_node_start_def single_node_fresh_def constructions_def)
  have pi: "PureNcclCommunicator_init env_single None mpi_single None = Inr (pure_nccl_fresh None)"
    by (simp add: PureNcclCommunicator_init_fresh)
  have si: "SingleNodeCommunicator_init None mpi_single = Inr single_node_fresh"
    by (simp add: SingleNodeCommunicator_init_def CommunicatorBase_init_def Let_def
        mpi_single_def single_node_fresh_def DeviceMemory_init_def)
  note first = C2_lazy_handle_construction [of env_single None mpi_single None "pure_nccl_fresh None"
      single_node_fresh ?s0 None ?t0]
  from first pi si av s0 t0 have one:
    "nccl_comm (pure_nccl_fresh None) = None" "intra_nccl_comm single_node_fresh = None"
    "nccl_comm (self ?s1) = Some (NcclComm 0)" "constructions (trace ?s1) = 1"
    "intra_nccl_comm (self (snd (SingleNode_broadcast_data env_single ?t0))) = Some (NcclComm 0)"
    "intra_nccl_comm (self (snd (SingleNode_allreduce_grad env_single ?t0))) = Some (NcclComm 0)"
    by simp_all
  note second = C2_lazy_handle_construction [of env_single None mpi_single None "pure_nccl_fresh None"
      single_node_fresh ?s1 None ?t0]
  from second one(3,4) have two:
    "nccl_comm (self (snd (PureNccl_allreduce_grad env_single None ?s1))) = Some (NcclComm 0)"
    "constructions (trace (snd (PureNccl_allreduce_grad env_single None ?s1))) = 1"
    by simp_all
  from pi si av one two show ?thesis
    by (intro conjI)
qed

subsection \<open>The single-node all-reduce\<close>

text \<open>
  C6. A call of the single-node \<^verbatim>\<open>allreduce_grad\<close> that returns has done exactly this:
  built the intra-node handle if the guard let it, packed the gradients at 4 bytes an
  element into buffer A, issued one collective, a sum of buffer A into buffer B with the
  4-byte float tag on the intra-node handle, multiplied buffer B by \<open>1.0 / size\<close>, and
  unpacked buffer B at 4 bytes an element into the gradients.
\<close>

theorem C6_single_node_allreduce_sequence:
  assumes "SingleNode_allreduce_grad ev s = (Inr (), s')"
  shows "\<exists>n h nps'.
     sum_grad_size (extract_params (model s)) = Inr n \<and>
     intra_nccl_comm (self s') = Some h \<and>
     trace s' = trace s @
       (if inter_mpi_comm (self s) = None
        then [InitIntraNcclComm h (intra_rank (self s)) (intra_size (self s))] else []) @
       [AllReduce h (packed (extract_params (model s)) 4 Grad) n NCCL_FLOAT NCCL_SUM NullStream] \<and>
     nccl_itemsize NCCL_FLOAT = 4 \<and>
     take (n * 4) (gpu_buffer_a (self s')) = packed (extract_params (model s)) 4 Grad \<and>
     take (n * 4) (gpu_buffer_b (self s')) =
       take (n * 4)
         (times_inv ev Float32 (comm_size_of (self s))
            (take (n * 4)
               (reduce_sum ev h NCCL_FLOAT n (packed (extract_params (model s)) 4 Grad)))) \<and>
     unpack_params (extract_params (model s)) 4 Grad 0 (gpu_buffer_b (self s')) = Inr nps' \<and>
     model s' = store_params nps' (model s)"
  using assms
proof (rule SingleNode_allreduce_grad_run)
  fix n h nps'
  assume facts: "sum_grad_size (extract_params (model s)) = Inr n"
    "intra_nccl_comm (self s') = Some h"
    "trace s' = trace s @
           (if inter_mpi_comm (self s) = None
            then [InitIntraNcclComm h (intra_rank (self s)) (intra_size (self s))] else []) @
           [AllReduce h (packed (extract_params (model s)) 4 Grad) n NCCL_FLOAT NCCL_SUM NullStream]"
    "take (n * 4) (gpu_buffer_a (self s')) = packed (extract_params (model s)) 4 Grad"
    "take (n * 4) (gpu_buffer_b (self s')) =
           take (n * 4)
             (times_inv ev Float32 (comm_size_of (self s))
                (take (n * 4)
                   (reduce_sum ev h NCCL_FLOAT n (packed (extract_params (model s)) 4 Grad))))"
    "unpack_params (extract_params (model s)) 4 Grad 0 (gpu_buffer_b (self s')) = Inr nps'"
    "model s' = store_params nps' (model s)"
  show ?thesis
    apply (rule exI[of _ n], rule exI[of _ h], rule exI[of _ nps'])
    using facts by simp
qed

theorem C6_single_node_allreduce_sequence_witness:
  "SingleNode_allreduce_grad env_single (single_node_start model_two) = (Inr (), snd (SingleNode_allreduce_grad env_single (single_node_start model_two))) \<and>
   (\<exists>n h nps'.
     sum_grad_size (extract_params (model (single_node_start model_two))) = Inr n \<and>
     intra_nccl_comm (self (snd (SingleNode_allreduce_grad env_single (single_node_start model_two)))) = Some h \<and>
     trace (snd (SingleNode_allreduce_grad env_single (single_node_start model_two))) = trace (single_node_start model_two) @
       (if inter_mpi_comm (self (single_node_start model_two)) = None
        then [InitIntraNcclComm h (intra_rank (self (single_node_start model_two))) (intra_size (self (single_node_start model_two)))] else []) @
       [AllReduce h (packed (extract_params (model (single_node_start model_two))) 4 Grad) n NCCL_FLOAT NCCL_SUM NullStream] \<and>
     nccl_itemsize NCCL_FLOAT = 4 \<and>
     take (n * 4) (gpu_buffer_a (self (snd (SingleNode_allreduce_grad env_single (single_node_start model_two))))) = packed (extract_params (model (single_node_start model_two))) 4 Grad \<and>
     take (n * 4) (gpu_buffer_b (self (snd (SingleNode_allreduce_grad env_single (single_node_start model_two))))) =
       take (n * 4)
         (times_inv env_single Float32 (comm_size_of (self (single_node_start model_two)))
            (take (n * 4)
               (reduce_sum env_single h NCCL_FLOAT n (packed (extract_params (model (single_node_start model_two))) 4 Grad)))) \<and>
     unpack_params (extract_params (model (single_node_start model_two))) 4 Grad 0 (gpu_buffer_b (self (snd (SingleNode_allreduce_grad env_single (single_node_start model_two))))) = Inr nps' \<and>
     model (snd (SingleNode_allreduce_grad env_single (single_node_start model_two))) = store_params nps' (model (single_node_start model_two)))"
proof -
  have "fst (SingleNode_allreduce_grad env_single (single_node_start model_two)) = Inr ()"
    by code_simp
  then have run: "SingleNode_allreduce_grad env_single (single_node_start model_two) = (Inr (), snd (SingleNode_allreduce_grad env_single (single_node_start model_two)))"
    by (rule run_collapse)
  from run C6_single_node_allreduce_sequence [OF run] show ?thesis
    by (rule conjI)
qed

subsection \<open>The mixed-precision all-reduce\<close>

text \<open>
  C3. In a call of the pure NCCL \<^verbatim>\<open>allreduce_grad\<close> that returns, the wire type is the
  constructor's override when there is one and the dtype of the first gradient otherwise.
  When the two differ, buffer A holds the conversion to the wire type of the gradients
  packed at native width, and the gradients are unpacked at native width from the
  temporary buffer, which holds the conversion back of buffer B. When they are equal,
  buffer A holds the gradients packed at wire width, the temporary buffer is untouched and
  the gradients are unpacked from buffer B.
\<close>

theorem C3_wire_type_and_staging:
  assumes "PureNccl_allreduce_grad ev stream s = (Inr (), s')"
  shows "\<exists>np nps g w n h t nps'.
     extract_params (model s) = np # nps \<and> grad (snd np) = Some g \<and>
     w = (case allreduce_grad_dtype (self s) of None \<Rightarrow> dtype g | Some d \<Rightarrow> d) \<and>
     sum_grad_size (np # nps) = Inr n \<and> get_nccl_type_id w = Inr t \<and>
     AllReduce h (take (itemsize w * n) (gpu_allreduce_buffer_a (self s'))) n t NCCL_SUM
       (case stream of None \<Rightarrow> NullStream | Some x \<Rightarrow> x) \<in> set (trace s') \<and>
     (if dtype g = w then
        take (itemsize w * n) (gpu_allreduce_buffer_a (self s')) =
          packed (np # nps) (itemsize w) Grad \<and>
        gpu_tmp_buffer (self s') = gpu_tmp_buffer (self s) \<and>
        unpack_params (np # nps) (itemsize w) Grad 0 (gpu_allreduce_buffer_b (self s')) = Inr nps'
      else
        take (itemsize w * n) (gpu_allreduce_buffer_a (self s')) =
          take (itemsize w * n)
            (astype ev (dtype g) w (packed (np # nps) (itemsize (dtype g)) Grad)) \<and>
        take (itemsize (dtype g) * n) (gpu_tmp_buffer (self s')) =
          take (itemsize (dtype g) * n)
            (astype ev w (dtype g) (take (itemsize w * n) (gpu_allreduce_buffer_b (self s')))) \<and>
        unpack_params (np # nps) (itemsize (dtype g)) Grad 0 (gpu_tmp_buffer (self s')) = Inr nps') \<and>
     model s' = store_params nps' (model s)"
  using assms
proof (rule PureNccl_allreduce_grad_run)
  fix np nps g w n h t sent nps'
  let ?st = "case stream of None \<Rightarrow> NullStream | Some x \<Rightarrow> x"
  assume ex: "extract_params (model s) = np # nps" and g: "grad (snd np) = Some g"
    and w: "w = (case allreduce_grad_dtype (self s) of None \<Rightarrow> dtype g | Some d \<Rightarrow> d)"
    and n: "sum_grad_size (np # nps) = Inr n" and t: "get_nccl_type_id w = Inr t"
    and sent: "sent = (if dtype g = w then packed (np # nps) (itemsize w) Grad
                 else take (itemsize w * n)
                        (astype ev (dtype g) w (packed (np # nps) (itemsize (dtype g)) Grad)))"
    and tr: "trace s' = trace s @
           (if nccl_comm (self s) = None then [InitNcclComm h] else []) @
           (if stream \<noteq> None \<and> stream \<noteq> Some NullStream then [Synchronize NullStream] else []) @
           [AllReduce h sent n t NCCL_SUM ?st] @
           (if stream \<noteq> None \<and> stream \<noteq> Some NullStream then [Synchronize ?st] else [])"
    and A: "take (itemsize w * n) (gpu_allreduce_buffer_a (self s')) = sent"
    and T1: "dtype g = w \<longrightarrow> gpu_tmp_buffer (self s') = gpu_tmp_buffer (self s)"
    and T2: "dtype g \<noteq> w \<longrightarrow>
           take (itemsize (dtype g) * n) (gpu_tmp_buffer (self s')) =
             take (itemsize (dtype g) * n)
               (astype ev w (dtype g) (take (itemsize w * n) (gpu_allreduce_buffer_b (self s'))))"
    and up: "unpack_params (np # nps) (itemsize (dtype g)) Grad 0
           (if dtype g = w then gpu_allreduce_buffer_b (self s') else gpu_tmp_buffer (self s'))
         = Inr nps'"
    and m: "model s' = store_params nps' (model s)"
  have ev: "AllReduce h (take (itemsize w * n) (gpu_allreduce_buffer_a (self s'))) n t NCCL_SUM ?st
              \<in> set (trace s')"
    by (simp add: tr A)
  show ?thesis
    apply (rule exI[of _ np], rule exI[of _ nps], rule exI[of _ g], rule exI[of _ w], rule exI[of _ n], rule exI[of _ h], rule exI[of _ t], rule exI[of _ nps'])
    apply (intro conjI)
           apply (rule ex)
          apply (rule g)
         apply (rule w)
        apply (rule n)
       apply (rule t)
      apply (rule ev)
    subgoal using A sent T1 T2 up by (cases "dtype g = w") (simp_all del: unpack_params.simps)
    apply (rule m)
    done
qed

theorem C3_wire_type_and_staging_witness:
  "(PureNccl_allreduce_grad env_single None (pure_nccl_start (Some Float16) model_two) = (Inr (), snd (PureNccl_allreduce_grad env_single None (pure_nccl_start (Some Float16) model_two))) \<and>
    (\<exists>np nps g w n h t nps'.
     extract_params (model (pure_nccl_start (Some Float16) model_two)) = np # nps \<and> grad (snd np) = Some g \<and>
     w = (case allreduce_grad_dtype (self (pure_nccl_start (Some Float16) model_two)) of None \<Rightarrow> dtype g | Some d \<Rightarrow> d) \<and>
     sum_grad_size (np # nps) = Inr n \<and> get_nccl_type_id w = Inr t \<and>
     AllReduce h (take (itemsize w * n) (gpu_allreduce_buffer_a (self (snd (PureNccl_allreduce_grad env_single None (pure_nccl_start (Some Float16) model_two)))))) n t NCCL_SUM
       (case (None :: stream option) of None \<Rightarrow> NullStream | Some x \<Rightarrow> x) \<in> set (trace (snd (PureNccl_allreduce_grad env_single None (pure_nccl_start (Some Float16) model_two)))) \<and>
     (if dtype g = w then
        take (itemsize w * n) (gpu_allreduce_buffer_a (self (snd (PureNccl_allreduce_grad env_single None (pure_nccl_start (Some Float16) model_two))))) =
          packed (np # nps) (itemsize w) Grad \<and>
        gpu_tmp_buffer (self (snd (PureNccl_allreduce_grad env_single None (pure_nccl_start (Some Float16) model_two)))) = gpu_tmp_buffer (self (pure_nccl_start (Some Float16) model_two)) \<and>
        unpack_params (np # nps) (itemsize w) Grad 0 (gpu_allreduce_buffer_b (self (snd (PureNccl_allreduce_grad env_single None (pure_nccl_start (Some Float16) model_two))))) = Inr nps'
      else
        take (itemsize w * n) (gpu_allreduce_buffer_a (self (snd (PureNccl_allreduce_grad env_single None (pure_nccl_start (Some Float16) model_two))))) =
          take (itemsize w * n)
            (astype env_single (dtype g) w (packed (np # nps) (itemsize (dtype g)) Grad)) \<and>
        take (itemsize (dtype g) * n) (gpu_tmp_buffer (self (snd (PureNccl_allreduce_grad env_single None (pure_nccl_start (Some Float16) model_two))))) =
          take (itemsize (dtype g) * n)
            (astype env_single w (dtype g) (take (itemsize w * n) (gpu_allreduce_buffer_b (self (snd (PureNccl_allreduce_grad env_single None (pure_nccl_start (Some Float16) model_two))))))) \<and>
        unpack_params (np # nps) (itemsize (dtype g)) Grad 0 (gpu_tmp_buffer (self (snd (PureNccl_allreduce_grad env_single None (pure_nccl_start (Some Float16) model_two))))) = Inr nps') \<and>
     model (snd (PureNccl_allreduce_grad env_single None (pure_nccl_start (Some Float16) model_two))) = store_params nps' (model (pure_nccl_start (Some Float16) model_two)))) \<and>
   (PureNccl_allreduce_grad env_single None (pure_nccl_start None model_two) = (Inr (), snd (PureNccl_allreduce_grad env_single None (pure_nccl_start None model_two))) \<and>
    (\<exists>np nps g w n h t nps'.
     extract_params (model (pure_nccl_start None model_two)) = np # nps \<and> grad (snd np) = Some g \<and>
     w = (case allreduce_grad_dtype (self (pure_nccl_start None model_two)) of None \<Rightarrow> dtype g | Some d \<Rightarrow> d) \<and>
     sum_grad_size (np # nps) = Inr n \<and> get_nccl_type_id w = Inr t \<and>
     AllReduce h (take (itemsize w * n) (gpu_allreduce_buffer_a (self (snd (PureNccl_allreduce_grad env_single None (pure_nccl_start None model_two)))))) n t NCCL_SUM
       (case (None :: stream option) of None \<Rightarrow> NullStream | Some x \<Rightarrow> x) \<in> set (trace (snd (PureNccl_allreduce_grad env_single None (pure_nccl_start None model_two)))) \<and>
     (if dtype g = w then
        take (itemsize w * n) (gpu_allreduce_buffer_a (self (snd (PureNccl_allreduce_grad env_single None (pure_nccl_start None model_two))))) =
          packed (np # nps) (itemsize w) Grad \<and>
        gpu_tmp_buffer (self (snd (PureNccl_allreduce_grad env_single None (pure_nccl_start None model_two)))) = gpu_tmp_buffer (self (pure_nccl_start None model_two)) \<and>
        unpack_params (np # nps) (itemsize w) Grad 0 (gpu_allreduce_buffer_b (self (snd (PureNccl_allreduce_grad env_single None (pure_nccl_start None model_two))))) = Inr nps'
      else
        take (itemsize w * n) (gpu_allreduce_buffer_a (self (snd (PureNccl_allreduce_grad env_single None (pure_nccl_start None model_two))))) =
          take (itemsize w * n)
            (astype env_single (dtype g) w (packed (np # nps) (itemsize (dtype g)) Grad)) \<and>
        take (itemsize (dtype g) * n) (gpu_tmp_buffer (self (snd (PureNccl_allreduce_grad env_single None (pure_nccl_start None model_two))))) =
          take (itemsize (dtype g) * n)
            (astype env_single w (dtype g) (take (itemsize w * n) (gpu_allreduce_buffer_b (self (snd (PureNccl_allreduce_grad env_single None (pure_nccl_start None model_two))))))) \<and>
        unpack_params (np # nps) (itemsize (dtype g)) Grad 0 (gpu_tmp_buffer (self (snd (PureNccl_allreduce_grad env_single None (pure_nccl_start None model_two))))) = Inr nps') \<and>
     model (snd (PureNccl_allreduce_grad env_single None (pure_nccl_start None model_two))) = store_params nps' (model (pure_nccl_start None model_two))))"
proof -
  have "fst (PureNccl_allreduce_grad env_single None (pure_nccl_start (Some Float16) model_two)) = Inr ()"
    by code_simp
  then have runa: "PureNccl_allreduce_grad env_single None (pure_nccl_start (Some Float16) model_two) = (Inr (), snd (PureNccl_allreduce_grad env_single None (pure_nccl_start (Some Float16) model_two)))"
    by (rule run_collapse)
  have "fst (PureNccl_allreduce_grad env_single None (pure_nccl_start None model_two)) = Inr ()"
    by code_simp
  then have runb: "PureNccl_allreduce_grad env_single None (pure_nccl_start None model_two) = (Inr (), snd (PureNccl_allreduce_grad env_single None (pure_nccl_start None model_two)))"
    by (rule run_collapse)
  from runa C3_wire_type_and_staging [OF runa] runb C3_wire_type_and_staging [OF runb]
  show ?thesis
    by (intro conjI)
qed

subsection \<open>Averaging after the reduction\<close>

text \<open>
  C4. In every call of \<^verbatim>\<open>allreduce_grad\<close>, of either communicator and whatever its
  outcome, the only collective issued is one sum, and it is handed the packed gradients as
  they are (converted to the wire type where that differs, never scaled). In a call that
  returns, buffer B ends as the product of the reduced sum with \<open>1.0 / size\<close>.
\<close>

theorem C4_average_after_reduction:
  "(PureNccl_allreduce_grad ev stream s = (Inr (), s') \<longrightarrow>
     (\<exists>np nps g w n h t sent.
     extract_params (model s) = np # nps \<and> grad (snd np) = Some g \<and>
     w = (case allreduce_grad_dtype (self s) of None \<Rightarrow> dtype g | Some d \<Rightarrow> d) \<and>
     sum_grad_size (np # nps) = Inr n \<and> get_nccl_type_id w = Inr t \<and>
     sent = (if dtype g = w then packed (np # nps) (itemsize w) Grad
             else take (itemsize w * n)
                    (astype ev (dtype g) w (packed (np # nps) (itemsize (dtype g)) Grad))) \<and>
     filter is_collective (drop (length (trace s)) (trace s')) =
       [AllReduce h sent n t NCCL_SUM (case stream of None \<Rightarrow> NullStream | Some x \<Rightarrow> x)] \<and>
     take (itemsize w * n) (gpu_allreduce_buffer_b (self s')) =
       take (itemsize w * n)
         (times_inv ev w (comm_size_of (self s))
            (take (itemsize w * n) (reduce_sum ev h t n sent))))) \<and>
   (SingleNode_allreduce_grad ev t = (Inr (), t') \<longrightarrow>
     (\<exists>n h sent.
     sum_grad_size (extract_params (model t)) = Inr n \<and>
     sent = packed (extract_params (model t)) 4 Grad \<and>
     filter is_collective (drop (length (trace t)) (trace t')) =
       [AllReduce h sent n NCCL_FLOAT NCCL_SUM NullStream] \<and>
     take (n * 4) (gpu_buffer_b (self t')) =
       take (n * 4)
         (times_inv ev Float32 (comm_size_of (self t))
            (take (n * 4) (reduce_sum ev h NCCL_FLOAT n sent))))) \<and>
   (PureNccl_allreduce_grad ev stream s = (r, s'') \<longrightarrow>
     (collectives s'' = collectives s \<or>
     (\<exists>np nps g w n h t.
        extract_params (model s) = np # nps \<and> grad (snd np) = Some g \<and>
        w = (case allreduce_grad_dtype (self s) of None \<Rightarrow> dtype g | Some d \<Rightarrow> d) \<and>
        sum_grad_size (np # nps) = Inr n \<and> get_nccl_type_id w = Inr t \<and>
        collectives s'' = collectives s @
          [AllReduce h
             (if dtype g = w then packed (np # nps) (itemsize w) Grad
              else take (itemsize w * n)
                     (astype ev (dtype g) w (packed (np # nps) (itemsize (dtype g)) Grad)))
             n t NCCL_SUM (case stream of None \<Rightarrow> NullStream | Some x \<Rightarrow> x)]))) \<and>
   (SingleNode_allreduce_grad ev t = (q, t'') \<longrightarrow>
     (collectives t'' = collectives t \<or>
     (\<exists>n h.
        sum_grad_size (extract_params (model t)) = Inr n \<and>
        collectives t'' = collectives t @
          [AllReduce h (packed (extract_params (model t)) 4 Grad) n NCCL_FLOAT NCCL_SUM NullStream])))"
proof (intro conjI impI)
  assume "PureNccl_allreduce_grad ev stream s = (Inr (), s')"
  then show "\<exists>np nps g w n h t sent.
     extract_params (model s) = np # nps \<and> grad (snd np) = Some g \<and>
     w = (case allreduce_grad_dtype (self s) of None \<Rightarrow> dtype g | Some d \<Rightarrow> d) \<and>
     sum_grad_size (np # nps) = Inr n \<and> get_nccl_type_id w = Inr t \<and>
     sent = (if dtype g = w then packed (np # nps) (itemsize w) Grad
             else take (itemsize w * n)
                    (astype ev (dtype g) w (packed (np # nps) (itemsize (dtype g)) Grad))) \<and>
     filter is_collective (drop (length (trace s)) (trace s')) =
       [AllReduce h sent n t NCCL_SUM (case stream of None \<Rightarrow> NullStream | Some x \<Rightarrow> x)] \<and>
     take (itemsize w * n) (gpu_allreduce_buffer_b (self s')) =
       take (itemsize w * n)
         (times_inv ev w (comm_size_of (self s))
            (take (itemsize w * n) (reduce_sum ev h t n sent)))"
  proof (rule PureNccl_allreduce_grad_run)
    fix np nps g w n h t sent nps'
    let ?st = "case stream of None \<Rightarrow> NullStream | Some x \<Rightarrow> x"
    assume ex: "extract_params (model s) = np # nps" and g: "grad (snd np) = Some g"
      and w: "w = (case allreduce_grad_dtype (self s) of None \<Rightarrow> dtype g | Some d \<Rightarrow> d)"
      and n: "sum_grad_size (np # nps) = Inr n" and t: "get_nccl_type_id w = Inr t"
      and sent: "sent = (if dtype g = w then packed (np # nps) (itemsize w) Grad
                   else take (itemsize w * n)
                          (astype ev (dtype g) w (packed (np # nps) (itemsize (dtype g)) Grad)))"
      and tr: "trace s' = trace s @
             (if nccl_comm (self s) = None then [InitNcclComm h] else []) @
             (if stream \<noteq> None \<and> stream \<noteq> Some NullStream then [Synchronize NullStream] else []) @
             [AllReduce h sent n t NCCL_SUM ?st] @
             (if stream \<noteq> None \<and> stream \<noteq> Some NullStream then [Synchronize ?st] else [])"
      and B: "take (itemsize w * n) (gpu_allreduce_buffer_b (self s')) =
             take (itemsize w * n)
               (times_inv ev w (comm_size_of (self s))
                  (take (itemsize w * n) (reduce_sum ev h t n sent)))"
    have "filter is_collective (drop (length (trace s)) (trace s')) = [AllReduce h sent n t NCCL_SUM ?st]"
      by (simp add: tr)
    then show ?thesis
      apply -
      apply (rule exI[of _ np], rule exI[of _ nps], rule exI[of _ g], rule exI[of _ w],
          rule exI[of _ n], rule exI[of _ h], rule exI[of _ t], rule exI[of _ sent])
      using ex g w n t sent B by simp
  qed
next
  assume "SingleNode_allreduce_grad ev t = (Inr (), t')"
  then show "\<exists>n h sent.
     sum_grad_size (extract_params (model t)) = Inr n \<and>
     sent = packed (extract_params (model t)) 4 Grad \<and>
     filter is_collective (drop (length (trace t)) (trace t')) =
       [AllReduce h sent n NCCL_FLOAT NCCL_SUM NullStream] \<and>
     take (n * 4) (gpu_buffer_b (self t')) =
       take (n * 4)
         (times_inv ev Float32 (comm_size_of (self t))
            (take (n * 4) (reduce_sum ev h NCCL_FLOAT n sent)))"
  proof (rule SingleNode_allreduce_grad_run)
    fix n h nps'
    assume n: "sum_grad_size (extract_params (model t)) = Inr n"
      and tr: "trace t' = trace t @
           (if inter_mpi_comm (self t) = None
            then [InitIntraNcclComm h (intra_rank (self t)) (intra_size (self t))] else []) @
           [AllReduce h (packed (extract_params (model t)) 4 Grad) n NCCL_FLOAT NCCL_SUM NullStream]"
      and B: "take (n * 4) (gpu_buffer_b (self t')) =
           take (n * 4)
             (times_inv ev Float32 (comm_size_of (self t))
                (take (n * 4)
                   (reduce_sum ev h NCCL_FLOAT n (packed (extract_params (model t)) 4 Grad))))"
    have "filter is_collective (drop (length (trace t)) (trace t')) =
            [AllReduce h (packed (extract_params (model t)) 4 Grad) n NCCL_FLOAT NCCL_SUM NullStream]"
      by (simp add: tr)
    then show ?thesis
      apply -
      apply (rule exI[of _ n], rule exI[of _ h],
          rule exI[of _ "packed (extract_params (model t)) 4 Grad"])
      using n B by simp
  qed
next
  assume "PureNccl_allreduce_grad ev stream s = (r, s'')"
  then show "collectives s'' = collectives s \<or>
     (\<exists>np nps g w n h t.
        extract_params (model s) = np # nps \<and> grad (snd np) = Some g \<and>
        w = (case allreduce_grad_dtype (self s) of None \<Rightarrow> dtype g | Some d \<Rightarrow> d) \<and>
        sum_grad_size (np # nps) = Inr n \<and> get_nccl_type_id w = Inr t \<and>
        collectives s'' = collectives s @
          [AllReduce h
             (if dtype g = w then packed (np # nps) (itemsize w) Grad
              else take (itemsize w * n)
                     (astype ev (dtype g) w (packed (np # nps) (itemsize (dtype g)) Grad)))
             n t NCCL_SUM (case stream of None \<Rightarrow> NullStream | Some x \<Rightarrow> x)])"
    by (rule PureNccl_allreduce_grad_collectives)
next
  assume "SingleNode_allreduce_grad ev t = (q, t'')"
  then show "collectives t'' = collectives t \<or>
     (\<exists>n h.
        sum_grad_size (extract_params (model t)) = Inr n \<and>
        collectives t'' = collectives t @
          [AllReduce h (packed (extract_params (model t)) 4 Grad) n NCCL_FLOAT NCCL_SUM NullStream])"
    by (rule SingleNode_allreduce_grad_collectives)
qed

theorem C4_average_after_reduction_witness:
  "(PureNccl_allreduce_grad env_single None (pure_nccl_start (Some Float16) model_two) = (Inr (), snd (PureNccl_allreduce_grad env_single None (pure_nccl_start (Some Float16) model_two))) \<and>
    (\<exists>np nps g w n h t sent.
     extract_params (model (pure_nccl_start (Some Float16) model_two)) = np # nps \<and> grad (snd np) = Some g \<and>
     w = (case allreduce_grad_dtype (self (pure_nccl_start (Some Float16) model_two)) of None \<Rightarrow> dtype g | Some d \<Rightarrow> d) \<and>
     sum_grad_size (np # nps) = Inr n \<and> get_nccl_type_id w = Inr t \<and>
     sent = (if dtype g = w then packed (np # nps) (itemsize w) Grad
             else take (itemsize w * n)
                    (astype env_single (dtype g) w (packed (np # nps) (itemsize (dtype g)) Grad))) \<and>
     filter is_collective (drop (length (trace (pure_nccl_start (Some Float16) model_two))) (trace (snd (PureNccl_allreduce_grad env_single None (pure_nccl_start (Some Float16) model_two))))) =
       [AllReduce h sent n t NCCL_SUM (case (None :: stream option) of None \<Rightarrow> NullStream | Some x \<Rightarrow> x)] \<and>
     take (itemsize w * n) (gpu_allreduce_buffer_b (self (snd (PureNccl_allreduce_grad env_single None (pure_nccl_start (Some Float16) model_two))))) =
       take (itemsize w * n)
         (times_inv env_single w (comm_size_of (self (pure_nccl_start (Some Float16) model_two)))
            (take (itemsize w * n) (reduce_sum env_single h t n sent))))) \<and>
   (SingleNode_allreduce_grad env_single (single_node_start model_two) = (Inr (), snd (SingleNode_allreduce_grad env_single (single_node_start model_two))) \<and>
    (\<exists>n h sent.
     sum_grad_size (extract_params (model (single_node_start model_two))) = Inr n \<and>
     sent = packed (extract_params (model (single_node_start model_two))) 4 Grad \<and>
     filter is_collective (drop (length (trace (single_node_start model_two))) (trace (snd (SingleNode_allreduce_grad env_single (single_node_start model_two))))) =
       [AllReduce h sent n NCCL_FLOAT NCCL_SUM NullStream] \<and>
     take (n * 4) (gpu_buffer_b (self (snd (SingleNode_allreduce_grad env_single (single_node_start model_two))))) =
       take (n * 4)
         (times_inv env_single Float32 (comm_size_of (self (single_node_start model_two)))
            (take (n * 4) (reduce_sum env_single h NCCL_FLOAT n sent)))))"
proof -
  have "fst (PureNccl_allreduce_grad env_single None (pure_nccl_start (Some Float16) model_two)) = Inr ()"
    by code_simp
  then have runa: "PureNccl_allreduce_grad env_single None (pure_nccl_start (Some Float16) model_two) = (Inr (), snd (PureNccl_allreduce_grad env_single None (pure_nccl_start (Some Float16) model_two)))"
    by (rule run_collapse)
  have "fst (SingleNode_allreduce_grad env_single (single_node_start model_two)) = Inr ()"
    by code_simp
  then have runs: "SingleNode_allreduce_grad env_single (single_node_start model_two) = (Inr (), snd (SingleNode_allreduce_grad env_single (single_node_start model_two)))"
    by (rule run_collapse)
  from C4_average_after_reduction [of env_single None "pure_nccl_start (Some Float16) model_two"
      "snd (PureNccl_allreduce_grad env_single None (pure_nccl_start (Some Float16) model_two))" "single_node_start model_two" "snd (SingleNode_allreduce_grad env_single (single_node_start model_two))" "Inr ()" "snd (PureNccl_allreduce_grad env_single None (pure_nccl_start (Some Float16) model_two))" "Inr ()"
      "snd (SingleNode_allreduce_grad env_single (single_node_start model_two))"] runa runs
  show ?thesis
    by blast
qed

subsection \<open>A process group of size one\<close>

lemma set_extract_params: "set (extract_params m) \<subseteq> set m"
  by (auto simp: extract_params_def sorted_namedparams_def)

lemma store_params_extract_params:
  assumes "distinct (map fst m)"
  shows "store_params (extract_params m) m = m"
proof -
  have "(case map_of (extract_params m) (fst np) of None \<Rightarrow> np | Some p \<Rightarrow> (fst np, p)) = np"
    if "np \<in> set m" for np
  proof (cases "map_of (extract_params m) (fst np)")
    case None
    then show ?thesis by simp
  next
    case (Some p)
    then have "(fst np, p) \<in> set m"
      using set_extract_params[of m] by (auto dest: map_of_SomeD)
    moreover have "(fst np, snd np) \<in> set m"
      using that by simp
    ultimately have "p = snd np"
      using assms by (metis eq_key_imp_eq_value)
    with Some show ?thesis by simp
  qed
  then show ?thesis
    by (simp add: store_params_def map_idI)
qed

lemma to_view_Inr:
  "to_view mem n off v = Inr v' \<longleftrightarrow>
     off + n \<le> length mem \<and> n \<le> length (raw v) \<and>
     v' = v\<lparr>raw := take n (drop off mem) @ drop n (raw v)\<rparr>"
  by (auto simp: to_view_def)

lemma unpack_params_packed:
  "unpack_params nps isz a off mem = Inr nps' \<Longrightarrow>
     map fst nps' = map fst nps \<and>
     packed nps' isz a = take (length (packed nps isz a)) (drop off mem)"
proof (induction nps arbitrary: off nps')
  case Nil
  then show ?case by simp
next
  case (Cons np nps)
  from Cons.prems obtain v v' rest where
    v: "getattr (snd np) a = Some v" and
    tv: "to_view mem (nelems v * isz) off v = Inr v'" and
    up: "unpack_params nps isz a (off + nelems v * isz) mem = Inr rest" and
    nps': "nps' = (fst np, setattr (snd np) a v') # rest"
    by (auto split: option.splits sum.splits)
  let ?sz = "nelems v * isz"
  from tv have b1: "off + ?sz \<le> length mem" and b2: "?sz \<le> length (raw v)"
    and v': "v' = v\<lparr>raw := take ?sz (drop off mem) @ drop ?sz (raw v)\<rparr>"
    by (simp_all add: to_view_Inr)
  have ne: "nelems v' = nelems v"
    using b1 b2 by (simp add: v' nelems_def)
  have get: "getattr (setattr (snd np) a v') a = Some v'"
    by (cases a) simp_all
  have new: "span isz a (fst np, setattr (snd np) a v') = take ?sz (drop off mem)"
    using b1 by (simp add: span_def get ne) (simp add: v')
  have old: "length (span isz a np) = ?sz"
    using v b2 by (simp add: span_def)
  from Cons.IH[OF up] have ih1: "map fst rest = map fst nps"
    and ih2: "packed rest isz a = take (length (packed nps isz a)) (drop (off + ?sz) mem)"
    by simp_all
  have "packed nps' isz a =
          take ?sz (drop off mem) @ take (length (packed nps isz a)) (drop ?sz (drop off mem))"
    by (simp add: nps' packed_Cons new ih2 add.commute)
  also have "\<dots> = take (?sz + length (packed nps isz a)) (drop off mem)"
    by (simp add: take_add)
  finally show ?case
    by (simp add: nps' ih1 packed_Cons old)
qed

lemma take_eq_length:
  "take k xs = ys \<Longrightarrow> length ys = k \<Longrightarrow> k \<le> length xs"
  by (metis length_take min.cobounded1 min.commute)

text \<open>
  C5. In a process group of size one, where the reduced sum is the process's own
  contribution and the factor is \<open>1.0 / 1\<close>, a call of \<^verbatim>\<open>allreduce_grad\<close> that returns
  leaves the model as it was when wire type and native type agree (and always in the
  single-node communicator, which converts nothing). When they differ, the bytes of the new
  gradients are the conversion to the wire type and back of the bytes of the old ones:
  nothing but the two conversions has touched them. Parameter names are taken to be
  distinct, as references are.
\<close>

theorem C5_single_process_identity:
  assumes single: "(\<forall>h ty n xs. reduce_sum ev h ty n xs = xs)"
    and one: "(\<forall>d xs. times_inv ev d 1 xs = xs)"
  shows "(PureNccl_allreduce_grad ev stream s = (Inr (), s') \<and> comm_size_of (self s) = 1 \<and>
          distinct (map fst (model s)) \<longrightarrow>
            (\<exists>np nps g w n nps'.
      extract_params (model s) = np # nps \<and> grad (snd np) = Some g \<and>
      w = (case allreduce_grad_dtype (self s) of None \<Rightarrow> dtype g | Some d \<Rightarrow> d) \<and>
      sum_grad_size (np # nps) = Inr n \<and>
      (if dtype g = w then model s' = model s
       else model s' = store_params nps' (model s) \<and>
            map fst nps' = map fst (np # nps) \<and>
            packed nps' (itemsize (dtype g)) Grad =
              take (itemsize (dtype g) * n)
                (astype ev w (dtype g)
                   (take (itemsize w * n)
                      (astype ev (dtype g) w (packed (np # nps) (itemsize (dtype g)) Grad))))))) \<and>
         (SingleNode_allreduce_grad ev t = (Inr (), t') \<and> comm_size_of (self t) = 1 \<and>
          distinct (map fst (model t)) \<longrightarrow> model t' = model t)"
proof (rule conjI; rule impI)
  have one': "times_inv ev d (Suc 0) xs = xs" for d xs
    using one by (metis One_nat_def)
  assume a: "PureNccl_allreduce_grad ev stream s = (Inr (), s') \<and> comm_size_of (self s) = 1 \<and>
          distinct (map fst (model s))"
  then have run: "PureNccl_allreduce_grad ev stream s = (Inr (), s')"
    and sz: "comm_size_of (self s) = 1" and dist: "distinct (map fst (model s))"
    by simp_all
  from run show "\<exists>np nps g w n nps'.
      extract_params (model s) = np # nps \<and> grad (snd np) = Some g \<and>
      w = (case allreduce_grad_dtype (self s) of None \<Rightarrow> dtype g | Some d \<Rightarrow> d) \<and>
      sum_grad_size (np # nps) = Inr n \<and>
      (if dtype g = w then model s' = model s
       else model s' = store_params nps' (model s) \<and>
            map fst nps' = map fst (np # nps) \<and>
            packed nps' (itemsize (dtype g)) Grad =
              take (itemsize (dtype g) * n)
                (astype ev w (dtype g)
                   (take (itemsize w * n)
                      (astype ev (dtype g) w (packed (np # nps) (itemsize (dtype g)) Grad)))))"
  proof (rule PureNccl_allreduce_grad_run)
    fix np nps g w n h t sent nps'
    assume ex: "extract_params (model s) = np # nps" and g: "grad (snd np) = Some g"
      and w: "w = (case allreduce_grad_dtype (self s) of None \<Rightarrow> dtype g | Some d \<Rightarrow> d)"
      and n: "sum_grad_size (np # nps) = Inr n"
      and sent: "sent = (if dtype g = w then packed (np # nps) (itemsize w) Grad
                   else take (itemsize w * n)
                          (astype ev (dtype g) w (packed (np # nps) (itemsize (dtype g)) Grad)))"
      and A: "take (itemsize w * n) (gpu_allreduce_buffer_a (self s')) = sent"
      and B: "take (itemsize w * n) (gpu_allreduce_buffer_b (self s')) =
             take (itemsize w * n)
               (times_inv ev w (comm_size_of (self s))
                  (take (itemsize w * n) (reduce_sum ev h t n sent)))"
      and T2: "dtype g \<noteq> w \<longrightarrow>
           take (itemsize (dtype g) * n) (gpu_tmp_buffer (self s')) =
             take (itemsize (dtype g) * n)
               (astype ev w (dtype g) (take (itemsize w * n) (gpu_allreduce_buffer_b (self s'))))"
      and up: "unpack_params (np # nps) (itemsize (dtype g)) Grad 0
           (if dtype g = w then gpu_allreduce_buffer_b (self s') else gpu_tmp_buffer (self s'))
         = Inr nps'"
      and m: "model s' = store_params nps' (model s)"
      and views: "\<forall>q \<in> set (np # nps). \<exists>v. getattr (snd q) Grad = Some v \<and>
           nelems v * itemsize (dtype g) \<le> length (raw v)"
    let ?params = "np # nps"
    let ?nbw = "itemsize w * n"
    let ?nbg = "itemsize (dtype g) * n"
    have lenA: "length sent \<le> ?nbw"
      using A by (metis length_take min.cobounded2)
    have Bsent: "take ?nbw (gpu_allreduce_buffer_b (self s')) = sent"
      using lenA by (simp add: B sz single one')
    have lenp: "length (packed ?params (itemsize (dtype g)) Grad) = ?nbg"
      using packed_length_grad[OF n views] by (simp add: mult.commute)
    have body: "if dtype g = w then model s' = model s
       else model s' = store_params nps' (model s) \<and>
            map fst nps' = map fst (np # nps) \<and>
            packed nps' (itemsize (dtype g)) Grad =
              take (itemsize (dtype g) * n)
                (astype ev w (dtype g)
                   (take (itemsize w * n)
                      (astype ev (dtype g) w (packed (np # nps) (itemsize (dtype g)) Grad))))"
    proof (cases "dtype g = w")
      case True
      let ?B = "gpu_allreduce_buffer_b (self s')"
      let ?p = "packed ?params (itemsize (dtype g)) Grad"
      from Bsent sent True have eq: "take ?nbg ?B = ?p" by simp
      then have fits: "?nbg \<le> length ?B"
        using lenp by (rule take_eq_length)
      have "unpack_params ?params (itemsize (dtype g)) Grad 0 ?B = Inr ?params"
        using views fits eq by (intro unpack_params_roundtrip) (simp_all add: lenp)
      with up True have "nps' = ?params" by simp
      then have "model s' = model s"
        using store_params_extract_params[OF dist] by (simp add: m ex)
      with True show ?thesis by simp
    next
      case False
      let ?T = "gpu_tmp_buffer (self s')"
      from up False have up': "unpack_params ?params (itemsize (dtype g)) Grad 0 ?T = Inr nps'"
        by simp
      from unpack_params_packed[OF up'] have names: "map fst nps' = map fst ?params"
        and pk: "packed nps' (itemsize (dtype g)) Grad = take ?nbg ?T"
        by (simp_all add: lenp)
      from T2 False Bsent sent have
        "take ?nbg ?T =
           take ?nbg (astype ev w (dtype g)
             (take ?nbw (astype ev (dtype g) w (packed ?params (itemsize (dtype g)) Grad))))"
        by simp
      with False m names pk show ?thesis by simp
    qed
    show ?thesis
      apply (rule exI[of _ np], rule exI[of _ nps], rule exI[of _ g], rule exI[of _ w],
          rule exI[of _ n], rule exI[of _ nps'])
      apply (intro conjI)
          apply (rule ex)
         apply (rule g)
        apply (rule w)
       apply (rule n)
      apply (rule body)
      done
  qed
next
  have one': "times_inv ev d (Suc 0) xs = xs" for d xs
    using one by (metis One_nat_def)
  assume a: "SingleNode_allreduce_grad ev t = (Inr (), t') \<and> comm_size_of (self t) = 1 \<and>
          distinct (map fst (model t))"
  then have run: "SingleNode_allreduce_grad ev t = (Inr (), t')"
    and sz: "comm_size_of (self t) = 1" and dist: "distinct (map fst (model t))"
    by simp_all
  from run show "model t' = model t"
  proof (rule SingleNode_allreduce_grad_run)
    fix n h nps'
    let ?params = "extract_params (model t)"
    let ?p = "packed ?params 4 Grad"
    let ?B = "gpu_buffer_b (self t')"
    assume n: "sum_grad_size (extract_params (model t)) = Inr n"
      and B: "take (n * 4) (gpu_buffer_b (self t')) =
           take (n * 4)
             (times_inv ev Float32 (comm_size_of (self t))
                (take (n * 4)
                   (reduce_sum ev h NCCL_FLOAT n (packed (extract_params (model t)) 4 Grad))))"
      and up: "unpack_params (extract_params (model t)) 4 Grad 0 (gpu_buffer_b (self t')) = Inr nps'"
      and m: "model t' = store_params nps' (model t)"
      and views: "\<forall>q \<in> set (extract_params (model t)). \<exists>v. getattr (snd q) Grad = Some v \<and>
           nelems v * 4 \<le> length (raw v)"
    have lenp: "length ?p = n * 4"
      using n views by (rule packed_length_grad)
    have eq: "take (n * 4) ?B = ?p"
      using lenp by (simp add: B sz single one')
    then have fits: "n * 4 \<le> length ?B"
      using lenp by (rule take_eq_length)
    have "unpack_params ?params 4 Grad 0 ?B = Inr ?params"
      using views fits eq by (intro unpack_params_roundtrip) (simp_all add: lenp)
    with up have "nps' = ?params" by simp
    then show ?thesis
      using store_params_extract_params[OF dist] by (simp add: m)
  qed
qed

theorem C5_single_process_identity_witness:
  "(\<forall>h ty n xs. reduce_sum env_single h ty n xs = xs) \<and> (\<forall>d xs. times_inv env_single d 1 xs = xs) \<and>
   comm_size_of (self (pure_nccl_start None model_two)) = 1 \<and>
   distinct (map fst model_two) \<and>
   (PureNccl_allreduce_grad env_single None (pure_nccl_start None model_two) = (Inr (), snd (PureNccl_allreduce_grad env_single None (pure_nccl_start None model_two))) \<and>
    (\<exists>np nps g w n nps'.
      extract_params (model (pure_nccl_start None model_two)) = np # nps \<and> grad (snd np) = Some g \<and>
      w = (case allreduce_grad_dtype (self (pure_nccl_start None model_two)) of None \<Rightarrow> dtype g | Some d \<Rightarrow> d) \<and>
      sum_grad_size (np # nps) = Inr n \<and>
      (if dtype g = w then model (snd (PureNccl_allreduce_grad env_single None (pure_nccl_start None model_two))) = model (pure_nccl_start None model_two)
       else model (snd (PureNccl_allreduce_grad env_single None (pure_nccl_start None model_two))) = store_params nps' (model (pure_nccl_start None model_two)) \<and>
            map fst nps' = map fst (np # nps) \<and>
            packed nps' (itemsize (dtype g)) Grad =
              take (itemsize (dtype g) * n)
                (astype env_single w (dtype g)
                   (take (itemsize w * n)
                      (astype env_single (dtype g) w (packed (np # nps) (itemsize (dtype g)) Grad))))))) \<and>
   (PureNccl_allreduce_grad env_single None (pure_nccl_start (Some Float16) model_two) = (Inr (), snd (PureNccl_allreduce_grad env_single None (pure_nccl_start (Some Float16) model_two))) \<and>
    (\<exists>np nps g w n nps'.
      extract_params (model (pure_nccl_start (Some Float16) model_two)) = np # nps \<and> grad (snd np) = Some g \<and>
      w = (case allreduce_grad_dtype (self (pure_nccl_start (Some Float16) model_two)) of None \<Rightarrow> dtype g | Some d \<Rightarrow> d) \<and>
      sum_grad_size (np # nps) = Inr n \<and>
      (if dtype g = w then model (snd (PureNccl_allreduce_grad env_single None (pure_nccl_start (Some Float16) model_two))) = model (pure_nccl_start (Some Float16) model_two)
       else model (snd (PureNccl_allreduce_grad env_single None (pure_nccl_start (Some Float16) model_two))) = store_params nps' (model (pure_nccl_start (Some Float16) model_two)) \<and>
            map fst nps' = map fst (np # nps) \<and>
            packed nps' (itemsize (dtype g)) Grad =
              take (itemsize (dtype g) * n)
                (astype env_single w (dtype g)
                   (take (itemsize w * n)
                      (astype env_single (dtype g) w (packed (np # nps) (itemsize (dtype g)) Grad))))))) \<and>
   (SingleNode_allreduce_grad env_single (single_node_start model_two) = (Inr (), snd (SingleNode_allreduce_grad env_single (single_node_start model_two))) \<and>
    model (snd (SingleNode_allreduce_grad env_single (single_node_start model_two))) = model_two)"
proof -
  have h1: "(\<forall>h ty n xs. reduce_sum env_single h ty n xs = xs)"
    and h2: "(\<forall>d xs. times_inv env_single d 1 xs = xs)"
    by (simp_all add: env_single_def)
  have d: "distinct (map fst model_two)"
    by (simp add: model_two_def)
  have sizes: "comm_size_of (self (pure_nccl_start None model_two)) = 1"
    "comm_size_of (self (pure_nccl_start (Some Float16) model_two)) = 1"
    "comm_size_of (self (single_node_start model_two)) = 1"
    by (simp_all add: comm_size_of_def pure_nccl_start_def pure_nccl_fresh_def
        single_node_start_def single_node_fresh_def mpi_single_def)
  have models: "model (pure_nccl_start None model_two) = model_two"
    "model (pure_nccl_start (Some Float16) model_two) = model_two"
    "model (single_node_start model_two) = model_two"
    by (simp_all add: pure_nccl_start_def single_node_start_def)
  have "fst (PureNccl_allreduce_grad env_single None (pure_nccl_start (Some Float16) model_two)) = Inr ()"
    by code_simp
  then have runa: "PureNccl_allreduce_grad env_single None (pure_nccl_start (Some Float16) model_two) = (Inr (), snd (PureNccl_allreduce_grad env_single None (pure_nccl_start (Some Float16) model_two)))"
    by (rule run_collapse)
  have "fst (PureNccl_allreduce_grad env_single None (pure_nccl_start None model_two)) = Inr ()"
    by code_simp
  then have runb: "PureNccl_allreduce_grad env_single None (pure_nccl_start None model_two) = (Inr (), snd (PureNccl_allreduce_grad env_single None (pure_nccl_start None model_two)))"
    by (rule run_collapse)
  have "fst (SingleNode_allreduce_grad env_single (single_node_start model_two)) = Inr ()"
    by code_simp
  then have runs: "SingleNode_allreduce_grad env_single (single_node_start model_two) = (Inr (), snd (SingleNode_allreduce_grad env_single (single_node_start model_two)))"
    by (rule run_collapse)
  have b: "\<exists>np nps g w n nps'.
      extract_params (model (pure_nccl_start None model_two)) = np # nps \<and> grad (snd np) = Some g \<and>
      w = (case allreduce_grad_dtype (self (pure_nccl_start None model_two)) of None \<Rightarrow> dtype g | Some d \<Rightarrow> d) \<and>
      sum_grad_size (np # nps) = Inr n \<and>
      (if dtype g = w then model (snd (PureNccl_allreduce_grad env_single None (pure_nccl_start None model_two))) = model (pure_nccl_start None model_two)
       else model (snd (PureNccl_allreduce_grad env_single None (pure_nccl_start None model_two))) = store_params nps' (model (pure_nccl_start None model_two)) \<and>
            map fst nps' = map fst (np # nps) \<and>
            packed nps' (itemsize (dtype g)) Grad =
              take (itemsize (dtype g) * n)
                (astype env_single w (dtype g)
                   (take (itemsize w * n)
                      (astype env_single (dtype g) w (packed (np # nps) (itemsize (dtype g)) Grad)))))"
    using C5_single_process_identity [OF h1 h2, of None "pure_nccl_start None model_two"
        "snd (PureNccl_allreduce_grad env_single None (pure_nccl_start None model_two))" "single_node_start model_two" "snd (SingleNode_allreduce_grad env_single (single_node_start model_two))"]
      runb sizes d models by simp
  have a: "\<exists>np nps g w n nps'.
      extract_params (model (pure_nccl_start (Some Float16) model_two)) = np # nps \<and> grad (snd np) = Some g \<and>
      w = (case allreduce_grad_dtype (self (pure_nccl_start (Some Float16) model_two)) of None \<Rightarrow> dtype g | Some d \<Rightarrow> d) \<and>
      sum_grad_size (np # nps) = Inr n \<and>
      (if dtype g = w then model (snd (PureNccl_allreduce_grad env_single None (pure_nccl_start (Some Float16) model_two))) = model (pure_nccl_start (Some Float16) model_two)
       else model (snd (PureNccl_allreduce_grad env_single None (pure_nccl_start (Some Float16) model_two))) = store_params nps' (model (pure_nccl_start (Some Float16) model_two)) \<and>
            map fst nps' = map fst (np # nps) \<and>
            packed nps' (itemsize (dtype g)) Grad =
              take (itemsize (dtype g) * n)
                (astype env_single w (dtype g)
                   (take (itemsize w * n)
                      (astype env_single (dtype g) w (packed (np # nps) (itemsize (dtype g)) Grad)))))"
    using C5_single_process_identity [OF h1 h2, of None "pure_nccl_start (Some Float16) model_two"
        "snd (PureNccl_allreduce_grad env_single None (pure_nccl_start (Some Float16) model_two))" "single_node_start model_two" "snd (SingleNode_allreduce_grad env_single (single_node_start model_two))"]
      runa sizes d models by simp
  have c: "model (snd (SingleNode_allreduce_grad env_single (single_node_start model_two))) = model_two"
    using C5_single_process_identity [OF h1 h2, of None "pure_nccl_start None model_two"
        "snd (PureNccl_allreduce_grad env_single None (pure_nccl_start None model_two))" "single_node_start model_two" "snd (SingleNode_allreduce_grad env_single (single_node_start model_two))"]
      runs sizes d models by simp
  from h1 h2 sizes(1) d runb b runa a runs c show ?thesis
    by (intro conjI)
qed

subsection \<open>A wire type the constructor accepts and the mapping rejects\<close>







subsection \<open>The single-node broadcast\<close>

lemma SingleNode_init_comms_frame:
  "model (snd (SingleNode_init_comms ev s)) = model s \<and>
   filter is_collective (drop (length (trace s)) (trace (snd (SingleNode_init_comms ev s)))) = []"
  by (simp add: SingleNode_init_comms_def Let_def)

text \<open>
  C10. The single-node \<^verbatim>\<open>broadcast_data\<close> takes every named parameter, with or without
  a gradient, and sizes the buffer by the element counts of the gradients. A model with a
  parameter without a gradient makes it raise (\<^verbatim>\<open>AttributeError\<close> once the handle is
  there) with the model untouched and nothing broadcast; it does not skip the parameter.
  A call that returns had a gradient on every parameter, broadcast as many 4-byte floats
  as the gradients have elements, and packed and unpacked the data views at 4 bytes an
  element.
\<close>

theorem C10_broadcast_data_needs_every_gradient:
  "(np \<in> set (model s) \<and> grad (snd np) = None \<longrightarrow>
     isl (fst (SingleNode_broadcast_data ev s)) \<and>
     model (snd (SingleNode_broadcast_data ev s)) = model s \<and>
     filter is_collective (drop (length (trace s)) (trace (snd (SingleNode_broadcast_data ev s)))) = [] \<and>
     (fst (SingleNode_init_comms ev s) = Inr () \<longrightarrow>
        fst (SingleNode_broadcast_data ev s) = Inl AttributeError)) \<and>
   (SingleNode_broadcast_data ev s = (Inr (), s') \<longrightarrow>
     (\<forall>q \<in> set (model s). grad (snd q) \<noteq> None) \<and>
     (\<exists>n h rest nps'.
        sum_grad_size (sorted_namedparams (model s)) = Inr n \<and>
        n * 4 \<le> length (gpu_buffer_a (self s')) \<and>
        filter is_collective (drop (length (trace s)) (trace s')) =
          [Bcast h (take (n * 4) (packed (sorted_namedparams (model s)) 4 Data @ rest))
             n NCCL_FLOAT 0 NullStream] \<and>
        unpack_params (sorted_namedparams (model s)) 4 Data 0 (gpu_buffer_a (self s')) = Inr nps' \<and>
        model s' = store_params nps' (model s)))"
proof (rule conjI; rule impI)
  assume a: "np \<in> set (model s) \<and> grad (snd np) = None"
  then have eq: "SingleNode_broadcast_data ev s =
           (case SingleNode_init_comms ev s of
              (Inl e, s1) \<Rightarrow> (Inl e, s1)
            | (Inr u, s1) \<Rightarrow> (Inl AttributeError, s1))"
    by (intro SingleNode_broadcast_data_no_grad[of np]) simp_all
  show "isl (fst (SingleNode_broadcast_data ev s)) \<and>
     model (snd (SingleNode_broadcast_data ev s)) = model s \<and>
     filter is_collective (drop (length (trace s)) (trace (snd (SingleNode_broadcast_data ev s)))) = [] \<and>
     (fst (SingleNode_init_comms ev s) = Inr () \<longrightarrow>
        fst (SingleNode_broadcast_data ev s) = Inl AttributeError)"
    using SingleNode_init_comms_frame[of ev s]
    by (cases "SingleNode_init_comms ev s"; cases "fst (SingleNode_init_comms ev s)")
       (auto simp: eq)
next
  assume "SingleNode_broadcast_data ev s = (Inr (), s')"
  then show "(\<forall>q \<in> set (model s). grad (snd q) \<noteq> None) \<and>
     (\<exists>n h rest nps'.
        sum_grad_size (sorted_namedparams (model s)) = Inr n \<and>
        n * 4 \<le> length (gpu_buffer_a (self s')) \<and>
        filter is_collective (drop (length (trace s)) (trace s')) =
          [Bcast h (take (n * 4) (packed (sorted_namedparams (model s)) 4 Data @ rest))
             n NCCL_FLOAT 0 NullStream] \<and>
        unpack_params (sorted_namedparams (model s)) 4 Data 0 (gpu_buffer_a (self s')) = Inr nps' \<and>
        model s' = store_params nps' (model s))"
  proof (rule SingleNode_broadcast_data_run)
    fix n h rest nps'
    assume n: "sum_grad_size (sorted_namedparams (model s)) = Inr n"
      and tr: "trace s' = trace s @
           (if inter_mpi_comm (self s) = None
            then [InitIntraNcclComm h (intra_rank (self s)) (intra_size (self s))] else []) @
           [Bcast h (take (n * 4) (packed (sorted_namedparams (model s)) 4 Data @ rest))
              n NCCL_FLOAT 0 NullStream]"
      and len: "n * 4 \<le> length (gpu_buffer_a (self s'))"
      and up: "unpack_params (sorted_namedparams (model s)) 4 Data 0 (gpu_buffer_a (self s')) = Inr nps'"
      and m: "model s' = store_params nps' (model s)"
    have grads: "\<forall>q \<in> set (model s). grad (snd q) \<noteq> None"
      using sum_grad_size_Inr_grads[OF n] by simp
    have "filter is_collective (drop (length (trace s)) (trace s')) =
            [Bcast h (take (n * 4) (packed (sorted_namedparams (model s)) 4 Data @ rest))
               n NCCL_FLOAT 0 NullStream]"
      by (simp add: tr)
    with grads n len up m show ?thesis
      by blast
  qed
qed

theorem C10_broadcast_data_needs_every_gradient_witness:
  "((''a'', \<lparr>data = Some (float32_array [9, 10, 11, 12]), grad = None\<rparr>)
       \<in> set (model (single_node_start model_frozen)) \<and>
    fst (SingleNode_broadcast_data env_single (single_node_start model_frozen)) = Inl AttributeError \<and>
    model (snd (SingleNode_broadcast_data env_single (single_node_start model_frozen))) = model_frozen) \<and>
   (SingleNode_broadcast_data env_single (single_node_start model_two) = (Inr (), snd (SingleNode_broadcast_data env_single (single_node_start model_two))) \<and>
    list_all (\<lambda>q. grad (snd q) \<noteq> None) (model (single_node_start model_two)) \<and>
     (\<exists>n h rest nps'.
        sum_grad_size (sorted_namedparams (model (single_node_start model_two))) = Inr n \<and>
        n * 4 \<le> length (gpu_buffer_a (self (snd (SingleNode_broadcast_data env_single (single_node_start model_two))))) \<and>
        filter is_collective (drop (length (trace (single_node_start model_two))) (trace (snd (SingleNode_broadcast_data env_single (single_node_start model_two))))) =
          [Bcast h (take (n * 4) (packed (sorted_namedparams (model (single_node_start model_two))) 4 Data @ rest))
             n NCCL_FLOAT 0 NullStream] \<and>
        unpack_params (sorted_namedparams (model (single_node_start model_two))) 4 Data 0 (gpu_buffer_a (self (snd (SingleNode_broadcast_data env_single (single_node_start model_two))))) = Inr nps' \<and>
        model (snd (SingleNode_broadcast_data env_single (single_node_start model_two))) = store_params nps' (model (single_node_start model_two))))"
proof -
  let ?np = "(''a'', \<lparr>data = Some (float32_array [9, 10, 11, 12]), grad = None\<rparr>)"
  have mem: "?np \<in> set (model (single_node_start model_frozen)) \<and> grad (snd ?np) = None"
    by (simp add: single_node_start_def model_frozen_def)
  have init: "fst (SingleNode_init_comms env_single (single_node_start model_frozen)) = Inr ()"
    by code_simp
  have "fst (SingleNode_broadcast_data env_single (single_node_start model_two)) = Inr ()"
    by code_simp
  then have run: "SingleNode_broadcast_data env_single (single_node_start model_two) = (Inr (), snd (SingleNode_broadcast_data env_single (single_node_start model_two)))"
    by (rule run_collapse)
  from C10_broadcast_data_needs_every_gradient [of ?np "single_node_start model_frozen" env_single
      "snd (SingleNode_broadcast_data env_single (single_node_start model_frozen))"] mem init
  have "fst (SingleNode_broadcast_data env_single (single_node_start model_frozen)) = Inl AttributeError \<and> model (snd (SingleNode_broadcast_data env_single (single_node_start model_frozen))) = model_frozen"
    by (simp add: single_node_start_def)
  moreover from C10_broadcast_data_needs_every_gradient [of ?np "single_node_start model_two"
      env_single "snd (SingleNode_broadcast_data env_single (single_node_start model_two))"] run
  have "list_all (\<lambda>q. grad (snd q) \<noteq> None) (model (single_node_start model_two)) \<and>
     (\<exists>n h rest nps'.
        sum_grad_size (sorted_namedparams (model (single_node_start model_two))) = Inr n \<and>
        n * 4 \<le> length (gpu_buffer_a (self (snd (SingleNode_broadcast_data env_single (single_node_start model_two))))) \<and>
        filter is_collective (drop (length (trace (single_node_start model_two))) (trace (snd (SingleNode_broadcast_data env_single (single_node_start model_two))))) =
          [Bcast h (take (n * 4) (packed (sorted_namedparams (model (single_node_start model_two))) 4 Data @ rest))
             n NCCL_FLOAT 0 NullStream] \<and>
        unpack_params (sorted_namedparams (model (single_node_start model_two))) 4 Data 0 (gpu_buffer_a (self (snd (SingleNode_broadcast_data env_single (single_node_start model_two))))) = Inr nps' \<and>
        model (snd (SingleNode_broadcast_data env_single (single_node_start model_two))) = store_params nps' (model (single_node_start model_two)))"
    by (simp only: list_all_iff) blast
  ultimately show ?thesis
    using mem run by blast
qed

end
